theory Spec2Isabelle
  imports Complex_Main
begin

section \<open>Enumerations and plain values\<close>

text \<open>
  The client of the chunk manager (\<^verbatim>\<open>patrickstar/core/client.py\<close>) is embedded function by
  function. The modules it imports (\<^verbatim>\<open>const\<close>, \<^verbatim>\<open>parameter\<close>, \<^verbatim>\<open>chunk_list\<close>,
  \<^verbatim>\<open>chunk_tensor_index\<close>, \<^verbatim>\<open>utils\<close>) are described by the specification only; each
  definition that stands for one of them says so.
\<close>

text \<open>Modelled from the spec: the enumerations of \<^verbatim>\<open>const.py\<close> and \<^verbatim>\<open>parameter.py\<close>
  (section 3, "Tensor Status", "Chunk Status"). The members are the ones \<^verbatim>\<open>client.py\<close>
  names; the idle value of a tensor is \<^verbatim>\<open>FREE\<close> and the idle aggregate of a chunk is
  \<^verbatim>\<open>RELEASED\<close> (client.py lines 261 and 647).\<close>

datatype AccessType = DATA | GRAD

datatype TensorStatus = FREE | COMPUTE | HOLD | HOLD_AFTER_FWD | HOLD_AFTER_BWD

datatype ChunkStatus = RELEASED | COMPUTE_C | HOLD_C | HOLD_AFTER_FWD_C | HOLD_AFTER_BWD_C

text \<open>\<^verbatim>\<open>release_dist\<close> asserts that the stage is \<^verbatim>\<open>FWD\<close> or \<^verbatim>\<open>BWD\<close>; every other stage
  is \<open>OTHER_STAGE\<close>.\<close>

datatype TrainingStage = FWD | BWD | OTHER_STAGE

datatype ParamType = TORCH_BASED | CHUNK_BASED

datatype ChunkType = PARAM_FP16 | PARAM_FP32 | MOMENTUM | VARIANCE

datatype dtype = Half | Float

text \<open>A \<^verbatim>\<open>torch.device\<close>: a device type and an optional index. \<^verbatim>\<open>torch.device('cpu')\<close> is
  \<open>CPU\<close>, \<^verbatim>\<open>torch.device('cuda:1')\<close> is \<open>CUDA 1\<close>, \<^verbatim>\<open>torch.device('cpu:0')\<close> is
  \<open>Device Cpu (Some 0)\<close> and \<^verbatim>\<open>torch.device('cuda')\<close> is \<open>Device Cuda None\<close>. Two devices
  are equal when type and index are.\<close>

datatype device_type = Cpu | Cuda

datatype device = Device (dev_type: device_type) (dev_index: "nat option")

abbreviation CPU :: device where
  "CPU \<equiv> Device Cpu None"

abbreviation CUDA :: "nat \<Rightarrow> device" where
  "CUDA n \<equiv> Device Cuda (Some n)"

text \<open>The device the storage of a tensor reports (\<^verbatim>\<open>payload.device\<close>, client.py line 387)
  once it has been placed on \<open>dev\<close>: host memory reports \<^verbatim>\<open>cpu\<close> without an index, and an
  accelerator reports its index, which for a request without one is the current accelerator
  of the process.\<close>

definition storage_device :: "nat \<Rightarrow> device \<Rightarrow> device" where
  "storage_device current dev =
     (case dev_type dev of
        Cpu \<Rightarrow> CPU
      | Cuda \<Rightarrow> CUDA (case dev_index dev of None \<Rightarrow> current | Some n \<Rightarrow> n))"

datatype error =
    AssertionError | RuntimeError | KeyError | IndexError | AttributeError | OutOfMemory

text \<open>A tensor as the framework sees it: \<^verbatim>\<open>None\<close>, a tensor with storage of its own
  (\<^verbatim>\<open>torch.tensor([])\<close> is \<open>Standalone []\<close>), or the view
  \<^verbatim>\<open>payload.narrow(0, start_offset, numel)\<close> into the payload of a chunk. Elements are
  exact reals: the rounding of half precision is outside this development.\<close>

datatype tensor = NoTensor | Standalone "real list" | View nat nat nat

text \<open>Calls whose order the claims speak about are recorded in a trace.\<close>

datatype event =
    Pin nat | Unpin nat | AllocatePayload nat | ReleasePayload nat
  | AllGather "nat list" | ReduceScatter "nat list"

text \<open>The outcome of a call is an exception or a value, together with the state the call
  leaves behind (a Python exception does not undo the mutations made before it).\<close>

type_synonym ('a, 's) outcome = "(error + 'a) \<times> 's"

definition then_do :: "('a, 's) outcome \<Rightarrow> ('a \<Rightarrow> 's \<Rightarrow> ('b, 's) outcome) \<Rightarrow> ('b, 's) outcome" where
  "then_do r f = (case r of (Inl e, s) \<Rightarrow> (Inl e, s) | (Inr a, s) \<Rightarrow> f a s)"

section \<open>Parameters\<close>

text \<open>Modelled from the spec: the attribute record \<^verbatim>\<open>ps_attr\<close> of \<^verbatim>\<open>parameter.py\<close>
  (section 3, "Tensor registration record": element count and the two status slots, one
  tensor id and one live view per access kind).\<close>

record ps_attr =
  param_type :: ParamType
  numel :: nat
  data_id :: nat
  grad_id :: nat
  data_status :: TensorStatus
  grad_status :: TensorStatus
  data_tensor :: tensor
  grad_tensor :: tensor

definition get_tensor_id :: "ps_attr \<Rightarrow> AccessType \<Rightarrow> nat" where
  "get_tensor_id a atype = (case atype of DATA \<Rightarrow> data_id a | GRAD \<Rightarrow> grad_id a)"

definition get_status_of :: "ps_attr \<Rightarrow> AccessType \<Rightarrow> TensorStatus" where
  "get_status_of a atype = (case atype of DATA \<Rightarrow> data_status a | GRAD \<Rightarrow> grad_status a)"

definition set_status :: "TensorStatus \<Rightarrow> AccessType \<Rightarrow> ps_attr \<Rightarrow> ps_attr" where
  "set_status st atype a =
     (case atype of DATA \<Rightarrow> a\<lparr>data_status := st\<rparr> | GRAD \<Rightarrow> a\<lparr>grad_status := st\<rparr>)"

definition set_tensor :: "tensor \<Rightarrow> AccessType \<Rightarrow> ps_attr \<Rightarrow> ps_attr" where
  "set_tensor v atype a =
     (case atype of DATA \<Rightarrow> a\<lparr>data_tensor := v\<rparr> | GRAD \<Rightarrow> a\<lparr>grad_tensor := v\<rparr>)"

definition access_tensor :: "ps_attr \<Rightarrow> AccessType \<Rightarrow> tensor" where
  "access_tensor a atype = (case atype of DATA \<Rightarrow> data_tensor a | GRAD \<Rightarrow> grad_tensor a)"

text \<open>A \<^verbatim>\<open>torch.nn.Parameter\<close>: \<open>p_attr\<close> is \<open>None\<close> until \<^verbatim>\<open>register_param\<close> has run
  (\<^verbatim>\<open>is_param_registered\<close>), \<open>p_data\<close> and \<open>p_grad\<close> are \<^verbatim>\<open>param.data\<close> and
  \<^verbatim>\<open>param.grad\<close>.\<close>

record param =
  p_attr :: "ps_attr option"
  p_data :: tensor
  p_grad :: tensor

definition is_param_registered :: "param \<Rightarrow> bool" where
  "is_param_registered p = (p_attr p \<noteq> None)"

section \<open>Chunks\<close>

text \<open>Modelled from the spec: the class of \<^verbatim>\<open>chunk_data.py\<close> (section 3, "Chunk":
  capacity, element type, current device or unallocated, pin count, dummy flag, storage
  handle; "Chunk Status": counts of tensors per status, adjusted on every transition).
  \<open>last_needed\<close> is the time of the last residency request, for the eviction order of
  section 4.2.\<close>

record Chunk =
  capacity :: nat
  data_type :: dtype
  dummy :: bool
  payload :: "(device \<times> real list) option"
  pin_count :: int
  status_dict :: "TensorStatus \<Rightarrow> int"
  last_needed :: nat

definition elem_bytes :: "dtype \<Rightarrow> nat" where
  "elem_bytes t = (case t of Half \<Rightarrow> 2 | Float \<Rightarrow> 4)"

definition get_chunk_space :: "Chunk \<Rightarrow> nat" where
  "get_chunk_space c = capacity c * elem_bytes (data_type c)"

text \<open>Modelled from the spec: "a chunk holding at least one COMPUTE tensor is COMPUTE",
  otherwise the least idle status some tensor has, and RELEASED when no tensor holds
  content.\<close>

definition get_status :: "Chunk \<Rightarrow> ChunkStatus" where
  "get_status c =
     (if status_dict c COMPUTE > 0 then COMPUTE_C
      else if status_dict c HOLD > 0 then HOLD_C
      else if status_dict c HOLD_AFTER_FWD > 0 then HOLD_AFTER_FWD_C
      else if status_dict c HOLD_AFTER_BWD > 0 then HOLD_AFTER_BWD_C
      else RELEASED)"

definition all_statuses :: "TensorStatus list" where
  "all_statuses = [FREE, COMPUTE, HOLD, HOLD_AFTER_FWD, HOLD_AFTER_BWD]"

text \<open>Modelled from the spec: "every tensor of the chunk has reached the status"
  (section 4.4), read off the counts.\<close>

definition all_tensor_status :: "Chunk \<Rightarrow> TensorStatus \<Rightarrow> bool" where
  "all_tensor_status c st = list_all (\<lambda>t. t = st \<or> status_dict c t = 0) all_statuses"

definition is_dummy :: "Chunk \<Rightarrow> bool" where
  "is_dummy c = dummy c"

definition pin :: "Chunk \<Rightarrow> Chunk" where
  "pin c = c\<lparr>pin_count := pin_count c + 1\<rparr>"

definition unpin :: "Chunk \<Rightarrow> Chunk" where
  "unpin c = c\<lparr>pin_count := pin_count c - 1\<rparr>"

text \<open>Modelled from the spec: "the Directory is told the tensor's old and new status and
  adjusts its internal counts".\<close>

definition update_status_chunk :: "TensorStatus \<Rightarrow> TensorStatus \<Rightarrow> Chunk \<Rightarrow> Chunk" where
  "update_status_chunk old_status new_status c =
     (let d1 = (status_dict c)(old_status := status_dict c old_status - 1);
          d2 = d1(new_status := d1 new_status + 1)
      in c\<lparr>status_dict := d2\<rparr>)"

text \<open>Modelled from the spec: fresh storage holds whatever the memory held
  ("first touch must not expose stale memory"); \<open>junk\<close> is that content.\<close>

definition allocate_payload :: "device \<Rightarrow> (nat \<Rightarrow> real) \<Rightarrow> Chunk \<Rightarrow> Chunk" where
  "allocate_payload dev junk c = c\<lparr>payload := Some (dev, map junk [0..<capacity c])\<rparr>"

text \<open>Modelled from the spec: section 4.4, "has its storage released" (client.py line 641:
  "Remove the payload of remote chunks").\<close>

definition release_payload :: "Chunk \<Rightarrow> Chunk" where
  "release_payload c = c\<lparr>payload := None\<rparr>"

section \<open>The chunk directory\<close>

text \<open>Modelled from the spec: the class of \<^verbatim>\<open>chunk_list.py\<close> (section 4.2). \<open>id_list\<close>
  holds the chunk ids in creation order, \<open>device_capacity\<close> the bytes each device offers,
  \<open>clock\<close> counts residency requests and \<open>stale\<close> is what fresh storage reads as.\<close>

record ChunkList =
  chunk_id_to_chunk_dict :: "nat \<Rightarrow> Chunk option"
  id_list :: "nat list"
  chunk_type_to_id_list_map :: "ChunkType \<Rightarrow> nat list"
  device_capacity :: "device \<Rightarrow> nat"
  cl_local_rank :: nat
  clock :: nat
  stale :: "nat \<Rightarrow> real"

text \<open>\<^verbatim>\<open>self.chunk_list[i].m()\<close> for a method \<open>m\<close> that mutates the chunk; a missing id
  raises \<^verbatim>\<open>KeyError\<close>.\<close>

definition with_chunk :: "nat \<Rightarrow> (Chunk \<Rightarrow> Chunk) \<Rightarrow> ChunkList \<Rightarrow> (unit, ChunkList) outcome" where
  "with_chunk i m cl =
     (case chunk_id_to_chunk_dict cl i of
        None \<Rightarrow> (Inl KeyError, cl)
      | Some c \<Rightarrow> (Inr (), cl\<lparr>chunk_id_to_chunk_dict := (chunk_id_to_chunk_dict cl)(i \<mapsto> m c)\<rparr>))"

definition update_status :: "nat \<Rightarrow> TensorStatus \<Rightarrow> TensorStatus \<Rightarrow> ChunkList \<Rightarrow> (unit, ChunkList) outcome" where
  "update_status chunk_id old_status new_status cl =
     with_chunk chunk_id (update_status_chunk old_status new_status) cl"

definition space_on :: "ChunkList \<Rightarrow> device \<Rightarrow> nat \<Rightarrow> nat" where
  "space_on cl dev i =
     (case chunk_id_to_chunk_dict cl i of
        None \<Rightarrow> 0
      | Some c \<Rightarrow> (case payload c of
                    None \<Rightarrow> 0
                  | Some (d, xs) \<Rightarrow> if d = dev then get_chunk_space c else 0))"

definition used_space :: "ChunkList \<Rightarrow> device \<Rightarrow> nat" where
  "used_space cl dev = sum_list (map (space_on cl dev) (id_list cl))"

definition has_room :: "ChunkList \<Rightarrow> device \<Rightarrow> nat \<Rightarrow> bool" where
  "has_room cl dev need = (used_space cl dev + need \<le> device_capacity cl dev)"

text \<open>Modelled from the spec: "scan chunks on the target device that are unpinned and whose
  aggregate status is evictable (HOLD or RELEASED, never COMPUTE), migrate/free
  least-recently-needed first".\<close>

definition evictable :: "ChunkList \<Rightarrow> device \<Rightarrow> nat \<Rightarrow> bool" where
  "evictable cl dev i =
     (case chunk_id_to_chunk_dict cl i of
        None \<Rightarrow> False
      | Some c \<Rightarrow> (case payload c of
                    None \<Rightarrow> False
                  | Some (d, xs) \<Rightarrow>
                      d = dev \<and> \<not> 0 < pin_count c
                      \<and> (get_status c = HOLD_C \<or> get_status c = RELEASED)))"

definition needed_at :: "ChunkList \<Rightarrow> nat \<Rightarrow> nat" where
  "needed_at cl i = (case chunk_id_to_chunk_dict cl i of None \<Rightarrow> 0 | Some c \<Rightarrow> last_needed c)"

definition candidates :: "ChunkList \<Rightarrow> device \<Rightarrow> nat list" where
  "candidates cl dev = sort_key (needed_at cl) (filter (evictable cl dev) (id_list cl))"

definition other_tier :: "ChunkList \<Rightarrow> device \<Rightarrow> device" where
  "other_tier cl dev = (case dev_type dev of Cpu \<Rightarrow> CUDA (cl_local_rank cl) | Cuda \<Rightarrow> CPU)"

text \<open>A released chunk gives its storage up; any other victim moves to the other tier with
  its content.\<close>

definition evict_chunk :: "ChunkList \<Rightarrow> Chunk \<Rightarrow> Chunk" where
  "evict_chunk cl c =
     (if get_status c = RELEASED then c\<lparr>payload := None\<rparr>
      else (case payload c of
              None \<Rightarrow> c
            | Some (d, xs) \<Rightarrow> c\<lparr>payload := Some (other_tier cl d, xs)\<rparr>))"

definition evict :: "ChunkList \<Rightarrow> nat \<Rightarrow> ChunkList" where
  "evict cl i =
     (case chunk_id_to_chunk_dict cl i of
        None \<Rightarrow> cl
      | Some c \<Rightarrow> cl\<lparr>chunk_id_to_chunk_dict := (chunk_id_to_chunk_dict cl)(i \<mapsto> evict_chunk cl c)\<rparr>)"

fun make_room :: "device \<Rightarrow> nat \<Rightarrow> nat list \<Rightarrow> ChunkList \<Rightarrow> (unit, ChunkList) outcome" where
  "make_room dev need [] cl =
     (if has_room cl dev need then (Inr (), cl) else (Inl OutOfMemory, cl))"
| "make_room dev need (v # vs) cl =
     (if has_room cl dev need then (Inr (), cl) else make_room dev need vs (evict cl v))"

text \<open>Modelled from the spec: "a request that cannot be satisfied even after evicting all
  eligible chunks is a fatal out-of-memory condition for that device".\<close>

definition prepare_device :: "device \<Rightarrow> nat \<Rightarrow> ChunkList \<Rightarrow> (unit, ChunkList) outcome" where
  "prepare_device dev need cl = make_room dev need (candidates cl dev) cl"

definition touch :: "nat \<Rightarrow> ChunkList \<Rightarrow> ChunkList" where
  "touch i cl =
     (case chunk_id_to_chunk_dict cl i of
        None \<Rightarrow> cl
      | Some c \<Rightarrow> cl\<lparr>chunk_id_to_chunk_dict :=
                       (chunk_id_to_chunk_dict cl)(i \<mapsto> c\<lparr>last_needed := Suc (clock cl)\<rparr>),
                     clock := Suc (clock cl)\<rparr>)"

text \<open>Modelled from the spec: the directory is keyed by chunk id (section 3, "Chunk":
  "identity (immutable integer id)"). \<open>chunk_at\<close> is \<^verbatim>\<open>self.chunk_list[key]\<close> for a key
  that client.py has computed: the ids in use are the numbers \<open>generate_chunk_id\<close> hands
  out, and a key may also be \<^verbatim>\<open>None\<close> (\<^verbatim>\<open>get_chunk_id\<close> of a tensor no chunk holds),
  under which nothing is stored.\<close>

definition chunk_at :: "ChunkList \<Rightarrow> nat option \<Rightarrow> (nat \<times> Chunk) option" where
  "chunk_at cl key = Option.bind key (\<lambda>i. map_option (Pair i) (chunk_id_to_chunk_dict cl i))"

text \<open>Modelled from the spec: \<^verbatim>\<open>ensureResident(chunkId, device)\<close>: "if the chunk's storage
  exists but is on the wrong device, migrate it; if no storage exists, allocate it on
  device", making room first. A key without an entry raises \<^verbatim>\<open>KeyError\<close>. The payload
  records the device its storage reports.\<close>

definition access_chunk :: "nat option \<Rightarrow> device \<Rightarrow> ChunkList \<Rightarrow> (unit, ChunkList) outcome" where
  "access_chunk key compute_device cl0 =
     (case chunk_at cl0 key of
        None \<Rightarrow> (Inl KeyError, cl0)
      | Some (chunk_id, c) \<Rightarrow>
          (let cl = touch chunk_id cl0;
               dev = storage_device (cl_local_rank cl0) compute_device
           in
           case payload c of
             None \<Rightarrow>
               then_do (prepare_device dev (get_chunk_space c) cl)
                 (\<lambda>_. with_chunk chunk_id (allocate_payload dev (stale cl)))
           | Some (d, xs) \<Rightarrow>
               if d = dev then (Inr (), cl)
               else then_do (prepare_device dev (get_chunk_space c) cl)
                      (\<lambda>_. with_chunk chunk_id (\<lambda>c'. c'\<lparr>payload := Some (dev, xs)\<rparr>))))"

text \<open>Modelled from the spec: \<^verbatim>\<open>create(id, capacity, elementType, isDummy, category)\<close>:
  "allocates bookkeeping (not storage) for a new chunk"; "groups are filled in round-robin
  across processes so that chunk k across all processes forms one group". The process
  count is at least one.\<close>

definition generate_chunk_id :: "ChunkList \<Rightarrow> nat" where
  "generate_chunk_id cl = length (id_list cl)"

definition new_chunk ::
  "nat \<Rightarrow> nat \<Rightarrow> nat \<Rightarrow> dtype \<Rightarrow> bool \<Rightarrow> ChunkType \<Rightarrow> ChunkList \<Rightarrow> (nat \<times> nat) \<times> ChunkList" where
  "new_chunk nproc chunk_id chunk_size dt is_dummy_arg chunk_type cl =
     (let n = length (chunk_type_to_id_list_map cl chunk_type);
          c = \<lparr>capacity = chunk_size, data_type = dt, dummy = is_dummy_arg, payload = None,
               pin_count = 0, status_dict = (\<lambda>t. 0), last_needed = 0\<rparr>
      in ((n div nproc, n mod nproc),
          cl\<lparr>chunk_id_to_chunk_dict := (chunk_id_to_chunk_dict cl)(chunk_id \<mapsto> c),
             id_list := id_list cl @ [chunk_id],
             chunk_type_to_id_list_map :=
               (chunk_type_to_id_list_map cl)
                 (chunk_type := chunk_type_to_id_list_map cl chunk_type @ [chunk_id])\<rparr>))"

definition is_empty :: "ChunkList \<Rightarrow> ChunkType \<Rightarrow> bool" where
  "is_empty cl chunk_type = (chunk_type_to_id_list_map cl chunk_type = [])"

definition last_chunk_id :: "ChunkList \<Rightarrow> ChunkType \<Rightarrow> nat" where
  "last_chunk_id cl chunk_type = last (chunk_type_to_id_list_map cl chunk_type)"

section \<open>The tensor-to-chunk index\<close>

text \<open>Modelled from the spec: the class of \<^verbatim>\<open>chunk_tensor_index.py\<close> (section 4.3). The
  fields \<open>chunk_id_to_comm_group_map\<close> and \<open>chunk_type_to_chunk_id_list_map\<close> are the
  ones \<^verbatim>\<open>display_chunk_info\<close> reads.\<close>

record tensor_info =
  info_chunk_id :: nat
  info_tensor_id :: nat
  start_offset :: nat
  info_numel :: nat
  info_param :: nat
  info_access_type :: AccessType

record ChunkTensorIndex =
  tensor_id_to_info_map :: "nat \<Rightarrow> tensor_info option"
  chunk_id_to_tensor_id_list_map :: "nat \<Rightarrow> nat list"
  chunk_id_to_comm_group_map :: "nat \<Rightarrow> (nat \<times> nat \<times> ChunkType) option"
  comm_group_to_chunk_id_list_map :: "ChunkType \<Rightarrow> nat \<Rightarrow> nat list"
  chunk_type_to_chunk_id_list_map :: "ChunkType \<Rightarrow> nat list"
  index_chunk_size :: nat

definition add_chunk :: "nat \<Rightarrow> nat \<Rightarrow> nat \<Rightarrow> ChunkType \<Rightarrow> ChunkTensorIndex \<Rightarrow> ChunkTensorIndex" where
  "add_chunk chunk_id comm_group_id comm_group_offset chunk_type idx =
     idx\<lparr>chunk_id_to_comm_group_map :=
           (chunk_id_to_comm_group_map idx)
             (chunk_id \<mapsto> (comm_group_id, comm_group_offset, chunk_type)),
         comm_group_to_chunk_id_list_map :=
           (comm_group_to_chunk_id_list_map idx)
             (chunk_type := (comm_group_to_chunk_id_list_map idx chunk_type)
                (comm_group_id :=
                   comm_group_to_chunk_id_list_map idx chunk_type comm_group_id @ [chunk_id])),
         chunk_type_to_chunk_id_list_map :=
           (chunk_type_to_chunk_id_list_map idx)
             (chunk_type := chunk_type_to_chunk_id_list_map idx chunk_type @ [chunk_id])\<rparr>"

text \<open>Modelled from the spec: \<^verbatim>\<open>groupOf(chunkId)\<close>, "the full communication group a chunk
  belongs to, in rank order". The key is what \<^verbatim>\<open>get_chunk_id\<close> returned, a chunk id or
  \<^verbatim>\<open>None\<close>; the map is keyed by the chunk ids \<open>add_chunk\<close> has stored, and a key
  without an entry raises \<^verbatim>\<open>KeyError\<close>.\<close>

definition chunk_ids_of_comm_group :: "ChunkTensorIndex \<Rightarrow> nat option \<Rightarrow> error + nat list" where
  "chunk_ids_of_comm_group idx chunk_id =
     (case Option.bind chunk_id (chunk_id_to_comm_group_map idx) of
        None \<Rightarrow> Inl KeyError
      | Some (gid, goff, ty) \<Rightarrow> Inr (comm_group_to_chunk_id_list_map idx ty gid))"

text \<open>\<^verbatim>\<open>get_chunk_id\<close> is \<^verbatim>\<open>None\<close> for a tensor no chunk holds (client.py line 470).\<close>

definition get_chunk_id :: "ChunkTensorIndex \<Rightarrow> ps_attr \<Rightarrow> AccessType \<Rightarrow> nat option" where
  "get_chunk_id idx a atype =
     map_option info_chunk_id (tensor_id_to_info_map idx (get_tensor_id a atype))"

definition get_tensor_info :: "ChunkTensorIndex \<Rightarrow> nat \<Rightarrow> error + tensor_info" where
  "get_tensor_info idx tensor_id =
     (case tensor_id_to_info_map idx tensor_id of None \<Rightarrow> Inl KeyError | Some i \<Rightarrow> Inr i)"

definition generate_tensor_info_in_order :: "ChunkTensorIndex \<Rightarrow> nat \<Rightarrow> tensor_info list" where
  "generate_tensor_info_in_order idx chunk_id =
     List.map_filter (tensor_id_to_info_map idx) (chunk_id_to_tensor_id_list_map idx chunk_id)"

definition offset_of :: "ChunkTensorIndex \<Rightarrow> nat \<Rightarrow> nat" where
  "offset_of idx tensor_id =
     (case tensor_id_to_info_map idx tensor_id of None \<Rightarrow> 0 | Some i \<Rightarrow> start_offset i)"

text \<open>Modelled from the spec: \<^verbatim>\<open>addTensor(chunkId, tensorId, offset, length, status)\<close>,
  the bookkeeping of one tensor; the list of a chunk stays in offset order.\<close>

definition add_tensor ::
  "nat \<Rightarrow> nat \<Rightarrow> nat \<Rightarrow> nat \<Rightarrow> nat \<Rightarrow> AccessType \<Rightarrow> ChunkTensorIndex \<Rightarrow> ChunkTensorIndex" where
  "add_tensor chunk_id tensor_id off n p atype idx =
     (let info = \<lparr>info_chunk_id = chunk_id, info_tensor_id = tensor_id, start_offset = off,
                  info_numel = n, info_param = p, info_access_type = atype\<rparr>;
          idx1 = idx\<lparr>tensor_id_to_info_map := (tensor_id_to_info_map idx)(tensor_id \<mapsto> info)\<rparr>
      in idx1\<lparr>chunk_id_to_tensor_id_list_map :=
                (chunk_id_to_tensor_id_list_map idx1)
                  (chunk_id := insort_key (offset_of idx1) tensor_id
                                 (chunk_id_to_tensor_id_list_map idx1 chunk_id))\<rparr>)"

text \<open>Modelled from the spec: \<^verbatim>\<open>tryInsert\<close>, "appends a whole ordered list of tensors, laid
  out contiguously and in order, into the first-fit remaining space of a chunk; returns
  false without partial mutation if it would not fit". \<open>first_fit\<close> walks the spans of the
  chunk in offset order and returns the start of the first gap that takes \<open>need\<close>
  elements.\<close>

fun first_fit :: "nat \<Rightarrow> nat \<Rightarrow> (nat \<times> nat) list \<Rightarrow> nat \<Rightarrow> nat option" where
  "first_fit chunk_size need [] prev_end =
     (if prev_end + need \<le> chunk_size then Some prev_end else None)"
| "first_fit chunk_size need ((start, n) # spans) prev_end =
     (if prev_end + need \<le> start then Some prev_end
      else first_fit chunk_size need spans (max prev_end (start + n)))"

fun insert_tensors ::
  "nat \<Rightarrow> AccessType \<Rightarrow> nat \<Rightarrow> (nat \<times> ps_attr) list \<Rightarrow> ChunkTensorIndex \<Rightarrow> ChunkTensorIndex" where
  "insert_tensors chunk_id atype off [] idx = idx"
| "insert_tensors chunk_id atype off ((p, a) # ps) idx =
     insert_tensors chunk_id atype (off + numel a) ps
       (add_tensor chunk_id (get_tensor_id a atype) off (numel a) p atype idx)"

definition spans_of :: "ChunkTensorIndex \<Rightarrow> nat \<Rightarrow> (nat \<times> nat) list" where
  "spans_of idx chunk_id =
     map (\<lambda>i. (start_offset i, info_numel i)) (generate_tensor_info_in_order idx chunk_id)"

definition try_insert_tensor_list ::
  "nat \<Rightarrow> (nat \<times> ps_attr option) list \<Rightarrow> AccessType \<Rightarrow> ChunkTensorIndex
     \<Rightarrow> (bool, ChunkTensorIndex) outcome" where
  "try_insert_tensor_list chunk_id param_list atype idx =
     (if list_ex (\<lambda>(p, a). a = None) param_list then (Inl AttributeError, idx)
      else
        let ps = map (\<lambda>(p, a). (p, the a)) param_list;
            total = sum_list (map (\<lambda>(p, a). numel a) ps)
        in case first_fit (index_chunk_size idx) total (spans_of idx chunk_id) 0 of
             None \<Rightarrow> (Inr False, idx)
           | Some dest \<Rightarrow> (Inr True, insert_tensors chunk_id atype dest ps idx))"

section \<open>The process environment\<close>

text \<open>Modelled from the spec: section 6, the communication substrate: "a query for process
  rank and process count" (\<^verbatim>\<open>get_rank\<close>, \<^verbatim>\<open>get_world_size\<close>), whether
  \<^verbatim>\<open>torch.distributed\<close> is initialised, and what the peers contribute to a collective:
  \<open>peer_shard q j\<close> is element \<open>j\<close> of the shard process \<open>q\<close> sends to an all-gather,
  \<open>peer_input q j\<close> is element \<open>j\<close> of the tensor process \<open>q\<close> contributes to the
  output of this process in a reduce-scatter.\<close>

record env =
  world_size :: nat
  rank :: nat
  dist_initialized :: bool
  peer_shard :: "nat \<Rightarrow> nat \<Rightarrow> real"
  peer_input :: "nat \<Rightarrow> nat \<Rightarrow> real"

section \<open>The client\<close>

text \<open>The fields of \<^verbatim>\<open>PatrickStarClient\<close> the operations below use, the parameter objects
  they reach (\<open>params\<close>, by object identity) and the trace.\<close>

record client =
  local_rank :: nat
  default_chunk_size :: nat
  chunk_tensor_index :: ChunkTensorIndex
  chunk_list :: ChunkList
  params :: "nat \<Rightarrow> param"
  trace :: "event list"

definition on_chunk_list :: "(ChunkList \<Rightarrow> ('a, ChunkList) outcome) \<Rightarrow> client \<Rightarrow> ('a, client) outcome" where
  "on_chunk_list f s = (case f (chunk_list s) of (r, cl) \<Rightarrow> (r, s\<lparr>chunk_list := cl\<rparr>))"

definition log_event :: "event \<Rightarrow> client \<Rightarrow> (unit, client) outcome" where
  "log_event e s = (Inr (), s\<lparr>trace := trace s @ [e]\<rparr>)"

text \<open>A write to a field of \<^verbatim>\<open>param.ps_attr\<close>: the attribute record of parameter \<open>p\<close>
  becomes \<open>a\<close>.\<close>

definition put_attr :: "nat \<Rightarrow> ps_attr \<Rightarrow> client \<Rightarrow> client" where
  "put_attr p a s = s\<lparr>params := (params s)(p := (params s p)\<lparr>p_attr := Some a\<rparr>)\<rparr>"

text \<open>\<^verbatim>\<open>self.chunk_list[i].pin()\<close>, \<^verbatim>\<open>.unpin()\<close>, \<^verbatim>\<open>.allocate_payload(device)\<close> and
  \<^verbatim>\<open>.release_payload()\<close> as the client calls them. The payload records the device its
  storage reports.\<close>

definition pin_chunk :: "nat \<Rightarrow> client \<Rightarrow> (unit, client) outcome" where
  "pin_chunk i s = then_do (on_chunk_list (with_chunk i pin) s) (\<lambda>_. log_event (Pin i))"

definition unpin_chunk :: "nat \<Rightarrow> client \<Rightarrow> (unit, client) outcome" where
  "unpin_chunk i s = then_do (on_chunk_list (with_chunk i unpin) s) (\<lambda>_. log_event (Unpin i))"

definition allocate_chunk :: "nat \<Rightarrow> device \<Rightarrow> client \<Rightarrow> (unit, client) outcome" where
  "allocate_chunk i dev s =
     then_do
       (on_chunk_list
          (\<lambda>cl. with_chunk i
                  (allocate_payload (storage_device (cl_local_rank cl) dev) (stale cl)) cl) s)
       (\<lambda>_. log_event (AllocatePayload i))"

definition release_chunk :: "nat \<Rightarrow> client \<Rightarrow> (unit, client) outcome" where
  "release_chunk i s =
     then_do (on_chunk_list (with_chunk i release_payload) s) (\<lambda>_. log_event (ReleasePayload i))"

text \<open>\<^verbatim>\<open>set_all_tensors_status_in_chunk\<close> (lines 210-222).\<close>

fun set_status_loop :: "nat \<Rightarrow> TensorStatus \<Rightarrow> tensor_info list \<Rightarrow> client \<Rightarrow> (unit, client) outcome" where
  "set_status_loop chunk_id new_status [] s = (Inr (), s)"
| "set_status_loop chunk_id new_status (info # infos) s =
     (case p_attr (params s (info_param info)) of
        None \<Rightarrow> (Inl AttributeError, s)
      | Some a \<Rightarrow>
          then_do
            (on_chunk_list
               (update_status chunk_id (get_status_of a (info_access_type info)) new_status) s)
            (\<lambda>_ s1. set_status_loop chunk_id new_status infos
                      (put_attr (info_param info)
                         (set_status new_status (info_access_type info) a) s1)))"

definition set_all_tensors_status_in_chunk :: "nat \<Rightarrow> TensorStatus \<Rightarrow> client \<Rightarrow> (unit, client) outcome" where
  "set_all_tensors_status_in_chunk chunk_id new_status s =
     set_status_loop chunk_id new_status
       (generate_tensor_info_in_order (chunk_tensor_index s) chunk_id) s"

subsection \<open>Fetching the remote chunks of a group\<close>

text \<open>Lines 259-265: the scan for a released chunk stops at the first one.\<close>

fun has_released_chunk :: "ChunkList \<Rightarrow> nat list \<Rightarrow> error + bool" where
  "has_released_chunk cl [] = Inr False"
| "has_released_chunk cl (i # rest) =
     (case chunk_id_to_chunk_dict cl i of
        None \<Rightarrow> Inl KeyError
      | Some c \<Rightarrow> if get_status c = RELEASED then Inr True else has_released_chunk cl rest)"

text \<open>Lines 278-285: a remote chunk gets room, storage and a pin.\<close>

definition allocate_remote :: "nat \<Rightarrow> device \<Rightarrow> client \<Rightarrow> (unit, client) outcome" where
  "allocate_remote chunk_id compute_device s =
     (case chunk_id_to_chunk_dict (chunk_list s) chunk_id of
        None \<Rightarrow> (Inl KeyError, s)
      | Some c \<Rightarrow>
          then_do (on_chunk_list (prepare_device compute_device (get_chunk_space c)) s)
            (\<lambda>_ s1. then_do (allocate_chunk chunk_id compute_device s1)
               (\<lambda>_. pin_chunk chunk_id)))"

text \<open>Lines 276-287: every remote chunk is allocated and pinned; every chunk of the group
  has its tensors set to \<^verbatim>\<open>HOLD\<close> and its payload appended to the buffer.\<close>

fun fetch_loop :: "nat \<Rightarrow> device \<Rightarrow> nat list \<Rightarrow> client \<Rightarrow> (unit, client) outcome" where
  "fetch_loop local_chunk_id compute_device [] s = (Inr (), s)"
| "fetch_loop local_chunk_id compute_device (chunk_id # rest) s =
     then_do
       (if chunk_id \<noteq> local_chunk_id then allocate_remote chunk_id compute_device s
        else (Inr (), s))
       (\<lambda>_ s2. then_do (set_all_tensors_status_in_chunk chunk_id HOLD s2)
          (\<lambda>_ s3. case chunk_id_to_chunk_dict (chunk_list s3) chunk_id of
                     None \<Rightarrow> (Inl KeyError, s3)
                   | Some c \<Rightarrow> fetch_loop local_chunk_id compute_device rest s3))"

text \<open>Lines 288-290: \<^verbatim>\<open>allgather_payload_buff[0].numel()\<close>.\<close>

definition first_buffer_numel :: "nat list \<Rightarrow> client \<Rightarrow> (nat, client) outcome" where
  "first_buffer_numel chunk_id_list s =
     (case chunk_id_list of
        [] \<Rightarrow> (Inl IndexError, s)
      | i # rest \<Rightarrow>
          (case chunk_id_to_chunk_dict (chunk_list s) i of
             None \<Rightarrow> (Inl KeyError, s)
           | Some c \<Rightarrow> (case payload c of
                         None \<Rightarrow> (Inl AttributeError, s)
                       | Some (d, xs) \<Rightarrow> (Inr (length xs), s))))"

text \<open>Lines 291-292.\<close>

fun unpin_loop :: "nat list \<Rightarrow> client \<Rightarrow> (unit, client) outcome" where
  "unpin_loop [] s = (Inr (), s)"
| "unpin_loop (chunk_id # rest) s = then_do (unpin_chunk chunk_id s) (\<lambda>_. unpin_loop rest)"

text \<open>Modelled from the spec: \<^verbatim>\<open>allGather(outputs[], localInput, groupHandle)\<close>, "fills
  every process's copy of every chunk from every process's local shard": output \<open>k\<close>
  receives the shard of process \<open>k\<close>, and the output at this process's own rank is its
  input. A buffer entry is the payload its chunk has when the collective runs. A group
  whose size is not the process count, or a buffer without storage, is fatal.\<close>

definition gather_into :: "env \<Rightarrow> nat \<Rightarrow> Chunk \<Rightarrow> Chunk" where
  "gather_into e k c =
     (case payload c of
        None \<Rightarrow> c
      | Some (d, xs) \<Rightarrow> c\<lparr>payload := Some (d, map (peer_shard e k) [0..<length xs])\<rparr>)"

fun all_gather_loop :: "env \<Rightarrow> nat \<Rightarrow> nat list \<Rightarrow> ChunkList \<Rightarrow> ChunkList" where
  "all_gather_loop e k [] cl = cl"
| "all_gather_loop e k (i # rest) cl =
     all_gather_loop e (Suc k) rest
       (if k = rank e then cl
        else (case chunk_id_to_chunk_dict cl i of
                None \<Rightarrow> cl
              | Some c \<Rightarrow> cl\<lparr>chunk_id_to_chunk_dict :=
                               (chunk_id_to_chunk_dict cl)(i \<mapsto> gather_into e k c)\<rparr>))"

definition has_payload :: "ChunkList \<Rightarrow> nat \<Rightarrow> bool" where
  "has_payload cl i =
     (case chunk_id_to_chunk_dict cl i of None \<Rightarrow> False | Some c \<Rightarrow> payload c \<noteq> None)"

definition all_gather :: "env \<Rightarrow> nat list \<Rightarrow> client \<Rightarrow> (unit, client) outcome" where
  "all_gather e chunk_id_list s =
     (if length chunk_id_list \<noteq> world_size e \<or> \<not> list_all (has_payload (chunk_list s)) chunk_id_list
      then (Inl RuntimeError, s)
      else then_do (log_event (AllGather chunk_id_list) s)
             (\<lambda>_ s1. (Inr (), s1\<lparr>chunk_list := all_gather_loop e 0 chunk_id_list (chunk_list s1)\<rparr>)))"

text \<open>\<^verbatim>\<open>_fetch_remote_chunks\<close> (lines 235-313).\<close>

definition fetch_remote_chunks :: "env \<Rightarrow> nat list \<Rightarrow> nat \<Rightarrow> device \<Rightarrow> client \<Rightarrow> (unit, client) outcome" where
  "fetch_remote_chunks e chunk_id_list local_chunk_id compute_device s =
     (case has_released_chunk (chunk_list s) chunk_id_list of
        Inl err \<Rightarrow> (Inl err, s)
      | Inr False \<Rightarrow> (Inr (), s)
      | Inr True \<Rightarrow>
          then_do (fetch_loop local_chunk_id compute_device chunk_id_list s)
            (\<lambda>_ s1. then_do (first_buffer_numel chunk_id_list s1)
               (\<lambda>_ s2. then_do (unpin_loop chunk_id_list s2)
                  (\<lambda>_ s3. if \<not> dist_initialized e then (Inl AssertionError, s3)
                           else all_gather e chunk_id_list s3))))"

subsection \<open>Access\<close>

text \<open>\<^verbatim>\<open>payload.narrow(0, start_offset, numel)\<close> of a chunk: the view, when the payload
  exists and the span lies inside it.\<close>

definition narrow :: "ChunkList \<Rightarrow> nat \<Rightarrow> nat \<Rightarrow> nat \<Rightarrow> error + tensor" where
  "narrow cl chunk_id off n =
     (case chunk_id_to_chunk_dict cl chunk_id of
        None \<Rightarrow> Inl KeyError
      | Some c \<Rightarrow> (case payload c of
                    None \<Rightarrow> Inl AttributeError
                  | Some (d, xs) \<Rightarrow>
                      if off + n \<le> length xs then Inr (View chunk_id off n)
                      else Inl RuntimeError))"

definition zero_region :: "nat \<Rightarrow> nat \<Rightarrow> real list \<Rightarrow> real list" where
  "zero_region off n xs = take off xs @ replicate n 0 @ drop (off + n) xs"

text \<open>\<^verbatim>\<open>zero_()\<close> on a tensor: a view writes through to the payload it aliases.\<close>

definition zero_tensor :: "tensor \<Rightarrow> ChunkList \<Rightarrow> (unit, ChunkList) outcome" where
  "zero_tensor v cl =
     (case v of
        View chunk_id off n \<Rightarrow>
          with_chunk chunk_id
            (\<lambda>c. c\<lparr>payload := map_option (\<lambda>(d, xs). (d, zero_region off n xs)) (payload c)\<rparr>) cl
      | Standalone xs \<Rightarrow> (Inr (), cl)
      | NoTensor \<Rightarrow> (Inl AttributeError, cl))"

text \<open>What a tensor reads as.\<close>

definition contents :: "ChunkList \<Rightarrow> tensor \<Rightarrow> real list option" where
  "contents cl v =
     (case v of
        NoTensor \<Rightarrow> None
      | Standalone xs \<Rightarrow> Some xs
      | View chunk_id off n \<Rightarrow>
          (case chunk_id_to_chunk_dict cl chunk_id of
             None \<Rightarrow> None
           | Some c \<Rightarrow> map_option (\<lambda>(d, xs). take n (drop off xs)) (payload c)))"

text \<open>Steps 2 and 3 of \<^verbatim>\<open>access_dist\<close> (lines 393-420) and of \<^verbatim>\<open>access\<close> (lines 479-504),
  which are the same statements: locate the tensor, bind the view, zero a \<^verbatim>\<open>FREE\<close>
  tensor, move the status to \<^verbatim>\<open>COMPUTE\<close>, return the view. The attribute record is read
  here, after the chunk has been made resident.\<close>

definition locate_and_compute :: "nat \<Rightarrow> nat \<Rightarrow> AccessType \<Rightarrow> client \<Rightarrow> (tensor, client) outcome" where
  "locate_and_compute chunk_id p atype s =
     (case p_attr (params s p) of
        None \<Rightarrow> (Inl AttributeError, s)
      | Some a \<Rightarrow>
          (case get_tensor_info (chunk_tensor_index s) (get_tensor_id a atype) of
             Inl err \<Rightarrow> (Inl err, s)
           | Inr info \<Rightarrow>
               if info_numel info \<noteq> numel a then (Inl AssertionError, s)
               else
                 (case narrow (chunk_list s) chunk_id (start_offset info) (info_numel info) of
                    Inl err \<Rightarrow> (Inl err, s)
                  | Inr v \<Rightarrow>
                      (let a1 = set_tensor v atype a;
                           s1 = put_attr p a1 s;
                           old_status = get_status_of a1 atype
                       in then_do
                            (if old_status = FREE
                             then on_chunk_list (zero_tensor (access_tensor a1 atype)) s1
                             else (Inr (), s1))
                            (\<lambda>_ s2. then_do
                               (on_chunk_list (update_status chunk_id old_status COMPUTE) s2)
                               (\<lambda>_ s3. (let a2 = set_status COMPUTE atype a1
                                         in (Inr (access_tensor a2 atype), put_attr p a2 s3))))))))"

text \<open>Lines 354-377 of \<^verbatim>\<open>access_dist\<close>: the group step, taken when more than one process
  runs.\<close>

definition access_dist_group ::
  "env \<Rightarrow> nat option \<Rightarrow> device \<Rightarrow> client \<Rightarrow> (unit, client) outcome" where
  "access_dist_group e chunk_id compute_device s =
     (case chunk_ids_of_comm_group (chunk_tensor_index s) chunk_id of
        Inl err \<Rightarrow> (Inl err, s)
      | Inr chunk_id_list \<Rightarrow>
          if \<not> rank e < length chunk_id_list then (Inl IndexError, s)
          else
            (let local_chunk_id = chunk_id_list ! rank e
             in then_do (on_chunk_list (access_chunk (Some local_chunk_id) compute_device) s)
                  (\<lambda>_ s1. then_do (pin_chunk local_chunk_id s1)
                     (\<lambda>_ s2. then_do
                        (fetch_remote_chunks e chunk_id_list local_chunk_id compute_device s2)
                        (\<lambda>_. unpin_chunk local_chunk_id)))))"

text \<open>Step 1 of \<^verbatim>\<open>access_dist\<close> (lines 348-382): the group step when more than one process
  runs, then the chunk of the tensor is made resident.\<close>

definition prepare_chunks ::
  "env \<Rightarrow> nat option \<Rightarrow> device \<Rightarrow> client \<Rightarrow> (unit, client) outcome" where
  "prepare_chunks e chunk_id compute_device s =
     then_do
       (if world_size e > 1 then access_dist_group e chunk_id compute_device s else (Inr (), s))
       (\<lambda>_. on_chunk_list (access_chunk chunk_id compute_device))"

text \<open>\<^verbatim>\<open>access_dist\<close> (lines 315-420). There is no test of \<^verbatim>\<open>chunk_id\<close> against
  \<^verbatim>\<open>None\<close> here: what \<^verbatim>\<open>get_chunk_id\<close> returned is the key of every lookup that follows
  (lines 355, 364, 382 and 385-391). Once the chunk has been read under that key the key
  is a chunk id, and steps 2 and 3 run on it.\<close>

definition access_dist :: "env \<Rightarrow> nat \<Rightarrow> AccessType \<Rightarrow> device \<Rightarrow> client \<Rightarrow> (tensor, client) outcome" where
  "access_dist e p atype compute_device s =
     (case p_attr (params s p) of
        None \<Rightarrow> (Inl AssertionError, s)
      | Some a \<Rightarrow>
          if param_type a = TORCH_BASED then
            (case atype of
               DATA \<Rightarrow> (Inr (p_data (params s p)), s)
             | GRAD \<Rightarrow> (Inr (p_grad (params s p)), s))
          else
            (let chunk_id = get_chunk_id (chunk_tensor_index s) a atype
             in then_do (prepare_chunks e chunk_id compute_device s)
                  (\<lambda>_ s2. case chunk_at (chunk_list s2) chunk_id of
                             None \<Rightarrow> (Inl KeyError, s2)
                           | Some (i, c) \<Rightarrow>
                               (case payload c of
                                  None \<Rightarrow> (Inl AssertionError, s2)
                                | Some (d, xs) \<Rightarrow>
                                    if d \<noteq> compute_device then (Inl AssertionError, s2)
                                    else locate_and_compute i p atype s2))))"

text \<open>\<^verbatim>\<open>access\<close> (lines 422-504).\<close>

definition access :: "nat \<Rightarrow> AccessType \<Rightarrow> device \<Rightarrow> client \<Rightarrow> (tensor, client) outcome" where
  "access p atype compute_device s =
     (case p_attr (params s p) of
        None \<Rightarrow> (Inl AssertionError, s)
      | Some a \<Rightarrow>
          if param_type a = TORCH_BASED then
            (case atype of
               DATA \<Rightarrow> (Inr (p_data (params s p)), s)
             | GRAD \<Rightarrow> (Inr (p_grad (params s p)), s))
          else
            (case get_chunk_id (chunk_tensor_index s) a atype of
               None \<Rightarrow> (Inl RuntimeError, s)
             | Some chunk_id \<Rightarrow>
                 then_do (on_chunk_list (access_chunk (Some chunk_id) compute_device) s)
                   (\<lambda>_. locate_and_compute chunk_id p atype)))"

subsection \<open>Release\<close>

text \<open>Lines 573-580 and 690-697: \<^verbatim>\<open>param.data\<close> becomes an empty tensor, or
  \<^verbatim>\<open>param.grad\<close> becomes \<^verbatim>\<open>None\<close>.\<close>

definition detach :: "nat \<Rightarrow> AccessType \<Rightarrow> client \<Rightarrow> client" where
  "detach p atype s =
     (case atype of
        DATA \<Rightarrow> s\<lparr>params := (params s)(p := (params s p)\<lparr>p_data := Standalone []\<rparr>)\<rparr>
      | GRAD \<Rightarrow> s\<lparr>params := (params s)(p := (params s p)\<lparr>p_grad := NoTensor\<rparr>)\<rparr>)"

text \<open>\<^verbatim>\<open>release\<close> (lines 652-700). \<^verbatim>\<open>param.ps_attr\<close> of an unregistered parameter raises
  \<^verbatim>\<open>AttributeError\<close>; \<^verbatim>\<open>update_status\<close> under the key \<^verbatim>\<open>None\<close> raises
  \<^verbatim>\<open>KeyError\<close>.\<close>

definition release :: "nat \<Rightarrow> AccessType \<Rightarrow> TensorStatus \<Rightarrow> client \<Rightarrow> (unit, client) outcome" where
  "release p atype reset_to_status s =
     (case p_attr (params s p) of
        None \<Rightarrow> (Inl AttributeError, s)
      | Some a \<Rightarrow>
          if param_type a = TORCH_BASED then (Inr (), s)
          else
            (case get_chunk_id (chunk_tensor_index s) a atype of
               None \<Rightarrow> (Inl KeyError, s)
             | Some chunk_id \<Rightarrow>
                 then_do
                   (on_chunk_list
                      (update_status chunk_id (get_status_of a atype) reset_to_status) s)
                   (\<lambda>_ s1. (Inr (),
                             detach p atype
                               (put_attr p (set_status reset_to_status atype a) s1)))))"

text \<open>Lines 589-606: the group is ready when no chunk of it is both short of the hold
  status of the stage and not a dummy.\<close>

fun all_chunks_ready :: "ChunkList \<Rightarrow> TrainingStage \<Rightarrow> nat list \<Rightarrow> error + bool" where
  "all_chunks_ready cl training_stage [] = Inr True"
| "all_chunks_ready cl training_stage (i # rest) =
     (case chunk_id_to_chunk_dict cl i of
        None \<Rightarrow> Inl KeyError
      | Some c \<Rightarrow>
          (case all_chunks_ready cl training_stage rest of
             Inl err \<Rightarrow> Inl err
           | Inr ready \<Rightarrow>
               Inr ((case training_stage of
                       FWD \<Rightarrow> \<not> (\<not> all_tensor_status c HOLD_AFTER_FWD \<and> \<not> is_dummy c)
                     | BWD \<Rightarrow> \<not> (\<not> all_tensor_status c HOLD_AFTER_BWD \<and> \<not> is_dummy c)
                     | OTHER_STAGE \<Rightarrow> True) \<and> ready)))"

text \<open>Lines 616-621: every chunk of the group is brought to the accelerator of this
  process and pinned.\<close>

fun reduce_inputs_loop :: "nat list \<Rightarrow> client \<Rightarrow> (unit, client) outcome" where
  "reduce_inputs_loop [] s = (Inr (), s)"
| "reduce_inputs_loop (i # rest) s =
     then_do (on_chunk_list (access_chunk (Some i) (CUDA (local_rank s))) s)
       (\<lambda>_ s1. then_do (pin_chunk i s1) (\<lambda>_. reduce_inputs_loop rest))"

text \<open>Modelled from the spec: \<^verbatim>\<open>reduceScatterSum(output, inputs[], groupHandle)\<close>, "the sum
  of all processes' corresponding shard": the output of this process is the element-wise
  sum, over all processes, of the input each holds at this process's rank. This process
  holds the local chunk there; process \<open>q\<close> contributes \<open>peer_input e q\<close>.\<close>

definition reduce_sum :: "env \<Rightarrow> real list \<Rightarrow> real list" where
  "reduce_sum e xs =
     map (\<lambda>j. xs ! j
             + sum_list (map (\<lambda>q. peer_input e q j)
                          (filter (\<lambda>q. q \<noteq> rank e) [0..<world_size e])))
       [0..<length xs]"

definition map_payload :: "(real list \<Rightarrow> real list) \<Rightarrow> Chunk \<Rightarrow> Chunk" where
  "map_payload f c = c\<lparr>payload := map_option (\<lambda>(d, xs). (d, f xs)) (payload c)\<rparr>"

definition reduce_scatter :: "env \<Rightarrow> nat \<Rightarrow> nat list \<Rightarrow> client \<Rightarrow> (unit, client) outcome" where
  "reduce_scatter e local_chunk_id chunk_id_list s =
     (if length chunk_id_list \<noteq> world_size e \<or> \<not> list_all (has_payload (chunk_list s)) chunk_id_list
      then (Inl RuntimeError, s)
      else then_do (log_event (ReduceScatter chunk_id_list) s)
             (\<lambda>_. on_chunk_list (with_chunk local_chunk_id (map_payload (reduce_sum e)))))"

text \<open>Lines 609-629: the reduction and the division by the process count.\<close>

definition reduce_step :: "env \<Rightarrow> nat \<Rightarrow> nat list \<Rightarrow> client \<Rightarrow> (unit, client) outcome" where
  "reduce_step e local_chunk_id chunk_id_list s =
     (if \<not> has_payload (chunk_list s) local_chunk_id then (Inl AssertionError, s)
      else then_do (reduce_inputs_loop chunk_id_list s)
             (\<lambda>_ s1. then_do (reduce_scatter e local_chunk_id chunk_id_list s1)
                (\<lambda>_. on_chunk_list
                   (with_chunk local_chunk_id
                      (map_payload (map (\<lambda>x. x / real (world_size e))))))))"

text \<open>Lines 642-647: every chunk of the group is unpinned; every chunk but the local one
  loses its payload and has its tensors set to \<^verbatim>\<open>FREE\<close>.\<close>

fun collapse_loop :: "nat \<Rightarrow> nat list \<Rightarrow> client \<Rightarrow> (unit, client) outcome" where
  "collapse_loop local_chunk_id [] s = (Inr (), s)"
| "collapse_loop local_chunk_id (i # rest) s =
     then_do (unpin_chunk i s)
       (\<lambda>_ s1. then_do
          (if i \<noteq> local_chunk_id then
             then_do (release_chunk i s1) (\<lambda>_. set_all_tensors_status_in_chunk i FREE)
           else (Inr (), s1))
          (\<lambda>_. collapse_loop local_chunk_id rest))"

text \<open>Lines 587-647 of \<^verbatim>\<open>release_dist\<close>: the group step, taken when more than one process
  runs.\<close>

definition release_dist_group ::
  "env \<Rightarrow> nat \<Rightarrow> nat list \<Rightarrow> TrainingStage \<Rightarrow> bool \<Rightarrow> client \<Rightarrow> (unit, client) outcome" where
  "release_dist_group e local_chunk_id chunk_id_list training_stage is_allreduce s =
     (case all_chunks_ready (chunk_list s) training_stage chunk_id_list of
        Inl err \<Rightarrow> (Inl err, s)
      | Inr False \<Rightarrow> (Inr (), s)
      | Inr True \<Rightarrow>
          then_do
            (if is_allreduce then reduce_step e local_chunk_id chunk_id_list s else (Inr (), s))
            (\<lambda>_. collapse_loop local_chunk_id chunk_id_list))"

text \<open>\<^verbatim>\<open>release_dist\<close> (lines 517-650).\<close>

definition release_dist ::
  "env \<Rightarrow> nat \<Rightarrow> AccessType \<Rightarrow> TensorStatus \<Rightarrow> TrainingStage \<Rightarrow> bool \<Rightarrow> client
     \<Rightarrow> (unit, client) outcome" where
  "release_dist e p atype reset_to_status training_stage is_allreduce s =
     (case p_attr (params s p) of
        None \<Rightarrow> (Inl AttributeError, s)
      | Some a \<Rightarrow>
          if param_type a = TORCH_BASED then (Inr (), s)
          else if \<not> (training_stage = FWD \<or> training_stage = BWD) then (Inl AssertionError, s)
          else if \<not> dist_initialized e then (Inl AssertionError, s)
          else
            (case get_chunk_id (chunk_tensor_index s) a atype of
               None \<Rightarrow> (Inl KeyError, s)
             | Some chunk_id \<Rightarrow>
                 (case chunk_ids_of_comm_group (chunk_tensor_index s) (Some chunk_id) of
                    Inl err \<Rightarrow> (Inl err, s)
                  | Inr chunk_id_list \<Rightarrow>
                      if \<not> rank e < length chunk_id_list then (Inl IndexError, s)
                      else
                        (let local_chunk_id = chunk_id_list ! rank e
                         in then_do
                              (on_chunk_list
                                 (update_status chunk_id (get_status_of a atype) reset_to_status) s)
                              (\<lambda>_ s1.
                                 (let s2 = detach p atype
                                             (put_attr p (set_status reset_to_status atype a) s1)
                                  in if world_size e > 1 then
                                       release_dist_group e local_chunk_id chunk_id_list
                                         training_stage is_allreduce s2
                                     else (Inr (), s2)))))))"

subsection \<open>Registration\<close>

text \<open>\<^verbatim>\<open>append_chunk\<close> (lines 67-92).\<close>

definition append_chunk ::
  "env \<Rightarrow> dtype \<Rightarrow> ChunkType \<Rightarrow> bool \<Rightarrow> client \<Rightarrow> (nat \<times> nat \<times> nat) \<times> client" where
  "append_chunk e dt chunk_type is_dummy_arg s =
     (let chunk_id = generate_chunk_id (chunk_list s);
          (pos, cl) = new_chunk (world_size e) chunk_id (default_chunk_size s) dt is_dummy_arg
                        chunk_type (chunk_list s);
          idx = add_chunk chunk_id (fst pos) (snd pos) chunk_type (chunk_tensor_index s)
      in ((chunk_id, pos), s\<lparr>chunk_list := cl, chunk_tensor_index := idx\<rparr>))"

definition on_index ::
  "(ChunkTensorIndex \<Rightarrow> ('a, ChunkTensorIndex) outcome) \<Rightarrow> client \<Rightarrow> ('a, client) outcome" where
  "on_index f s = (case f (chunk_tensor_index s) of (r, idx) \<Rightarrow> (r, s\<lparr>chunk_tensor_index := idx\<rparr>))"

definition with_attrs :: "client \<Rightarrow> nat list \<Rightarrow> (nat \<times> ps_attr option) list" where
  "with_attrs s param_list = map (\<lambda>p. (p, p_attr (params s p))) param_list"

text \<open>\<^verbatim>\<open>append_tensor\<close> (lines 129-163).\<close>

definition append_tensor ::
  "env \<Rightarrow> nat list \<Rightarrow> dtype \<Rightarrow> AccessType \<Rightarrow> ChunkType \<Rightarrow> client \<Rightarrow> (unit, client) outcome" where
  "append_tensor e param_list dt atype chunk_type s =
     then_do
       (if \<not> is_empty (chunk_list s) chunk_type then
          on_index
            (try_insert_tensor_list (last_chunk_id (chunk_list s) chunk_type)
               (with_attrs s param_list) atype) s
        else (Inr False, s))
       (\<lambda>inserted s1.
          if inserted then (Inr (), s1)
          else
            (case append_chunk e dt chunk_type False s1 of
               ((chunk_id, pos), s2) \<Rightarrow>
                 then_do
                   (on_index (try_insert_tensor_list chunk_id (with_attrs s2 param_list) atype) s2)
                   (\<lambda>ok s3. if ok then (Inr (), s3) else (Inl RuntimeError, s3))))"

section \<open>What residency requests leave alone\<close>

text \<open>Making room and making a chunk resident change where payloads live and when a chunk
  was last needed; \<open>chunk_frame\<close> and \<open>cl_frame\<close> name everything else.\<close>

definition chunk_frame :: "Chunk \<Rightarrow> Chunk \<Rightarrow> bool" where
  "chunk_frame c c' \<longleftrightarrow>
     capacity c' = capacity c \<and> data_type c' = data_type c \<and> dummy c' = dummy c
     \<and> pin_count c' = pin_count c \<and> status_dict c' = status_dict c"

definition cl_frame :: "ChunkList \<Rightarrow> ChunkList \<Rightarrow> bool" where
  "cl_frame cl cl' \<longleftrightarrow>
     id_list cl' = id_list cl
     \<and> chunk_type_to_id_list_map cl' = chunk_type_to_id_list_map cl
     \<and> device_capacity cl' = device_capacity cl
     \<and> cl_local_rank cl' = cl_local_rank cl
     \<and> stale cl' = stale cl
     \<and> (\<forall>i. rel_option chunk_frame (chunk_id_to_chunk_dict cl i) (chunk_id_to_chunk_dict cl' i))"

section \<open>Observations\<close>

text \<open>The part of a parameter's attribute record that registration fixes.\<close>

definition static_attrs :: "client \<Rightarrow> nat \<Rightarrow> (ParamType \<times> nat \<times> nat \<times> nat) option" where
  "static_attrs s q =
     map_option (\<lambda>a. (param_type a, numel a, data_id a, grad_id a)) (p_attr (params s q))"

text \<open>The status of the tensor a registration record stands for.\<close>

definition slot_status :: "client \<Rightarrow> tensor_info \<Rightarrow> TensorStatus option" where
  "slot_status s info =
     map_option (\<lambda>a. get_status_of a (info_access_type info)) (p_attr (params s (info_param info)))"

text \<open>The events a call added to the trace.\<close>

definition new_events :: "client \<Rightarrow> client \<Rightarrow> event list" where
  "new_events s s' = drop (length (trace s)) (trace s')"

definition is_all_gather :: "event \<Rightarrow> bool" where
  "is_all_gather ev = (case ev of AllGather ids \<Rightarrow> True | _ \<Rightarrow> False)"

definition is_allocation :: "event \<Rightarrow> bool" where
  "is_allocation ev = (case ev of AllocatePayload i \<Rightarrow> True | _ \<Rightarrow> False)"

text \<open>The events that concern chunk \<open>i\<close> in a gather: its allocation, its pin, its unpin
  and the collective.\<close>

definition concerns :: "nat \<Rightarrow> event \<Rightarrow> bool" where
  "concerns i ev \<longleftrightarrow> ev = AllocatePayload i \<or> ev = Pin i \<or> ev = Unpin i \<or> is_all_gather ev"

text \<open>The events of a gather over the group \<open>ids\<close> with local chunk \<open>local\<close>.\<close>

definition remote_pins :: "nat \<Rightarrow> nat list \<Rightarrow> event list" where
  "remote_pins local ids =
     concat (map (\<lambda>i. if i \<noteq> local then [AllocatePayload i, Pin i] else []) ids)"

definition gather_events :: "nat \<Rightarrow> nat list \<Rightarrow> event list" where
  "gather_events local ids = remote_pins local ids @ map Unpin ids @ [AllGather ids]"

text \<open>What the payload of a chunk holds, wherever it lives.\<close>

definition content_of :: "ChunkList \<Rightarrow> nat \<Rightarrow> real list option" where
  "content_of cl i =
     (case chunk_id_to_chunk_dict cl i of None \<Rightarrow> None | Some c \<Rightarrow> map_option snd (payload c))"

text \<open>The condition of lines 584-586 on one chunk: all its tensors are at the hold status of
  the stage, or it is a dummy.\<close>

definition hold_status :: "TrainingStage \<Rightarrow> TensorStatus" where
  "hold_status stage = (case stage of FWD \<Rightarrow> HOLD_AFTER_FWD | _ \<Rightarrow> HOLD_AFTER_BWD)"

definition chunk_ready :: "ChunkList \<Rightarrow> TrainingStage \<Rightarrow> nat \<Rightarrow> bool" where
  "chunk_ready cl stage i =
     (case chunk_id_to_chunk_dict cl i of
        None \<Rightarrow> False
      | Some c \<Rightarrow> all_tensor_status c (hold_status stage) \<or> is_dummy c)"

text \<open>The events of a collapse of the group \<open>ids\<close> with local chunk \<open>local\<close>.\<close>

definition collapse_events :: "nat \<Rightarrow> nat list \<Rightarrow> event list" where
  "collapse_events local ids =
     concat (map (\<lambda>i. if i \<noteq> local then [Unpin i, ReleasePayload i] else [Unpin i]) ids)"

text \<open>The spec's words for the result of the reduction, "the element-wise sum of all group
  chunks' payloads": the sum, element by element, of the payloads this process holds for
  the chunks of the group.\<close>

definition group_sum :: "ChunkList \<Rightarrow> nat list \<Rightarrow> nat \<Rightarrow> real list" where
  "group_sum cl ids n =
     map (\<lambda>j. sum_list (map (\<lambda>i. case content_of cl i of None \<Rightarrow> 0 | Some xs \<Rightarrow> xs ! j) ids))
       [0..<n]"

section \<open>Example states\<close>

text \<open>Two processes; the group of this process (rank 0) has the local chunk 0 and the
  remote chunk 1, each of two half-precision elements. Parameter 0 lives in chunk 0,
  parameter 1 in chunk 1, parameter 2 is torch-based and parameter 3 is not registered.\<close>

definition env2 :: env where
  "env2 = \<lparr>world_size = 2, rank = 0, dist_initialized = True,
           peer_shard = (\<lambda>q j. 7), peer_input = (\<lambda>q j. 3)\<rparr>"

definition env1 :: env where
  "env1 = \<lparr>world_size = 1, rank = 0, dist_initialized = False,
           peer_shard = (\<lambda>q j. 0), peer_input = (\<lambda>q j. 0)\<rparr>"

definition ex_attr :: "nat \<Rightarrow> TensorStatus \<Rightarrow> ps_attr" where
  "ex_attr tid st =
     \<lparr>param_type = CHUNK_BASED, numel = 2, data_id = tid, grad_id = tid + 10,
      data_status = st, grad_status = FREE, data_tensor = NoTensor, grad_tensor = NoTensor\<rparr>"

definition ex_params :: "TensorStatus \<Rightarrow> TensorStatus \<Rightarrow> nat \<Rightarrow> param" where
  "ex_params st0 st1 =
     (\<lambda>p. \<lparr>p_attr = None, p_data = NoTensor, p_grad = NoTensor\<rparr>)
       (0 := \<lparr>p_attr = Some (ex_attr 10 st0), p_data = Standalone [], p_grad = NoTensor\<rparr>,
        1 := \<lparr>p_attr = Some (ex_attr 11 st1), p_data = Standalone [], p_grad = NoTensor\<rparr>,
        2 := \<lparr>p_attr = Some ((ex_attr 12 FREE)\<lparr>param_type := TORCH_BASED\<rparr>),
              p_data = Standalone [1, 2], p_grad = Standalone [3, 4]\<rparr>)"

definition ex_index :: ChunkTensorIndex where
  "ex_index =
     \<lparr>tensor_id_to_info_map =
        (\<lambda>t. None)
          (10 \<mapsto> \<lparr>info_chunk_id = 0, info_tensor_id = 10, start_offset = 0, info_numel = 2,
                   info_param = 0, info_access_type = DATA\<rparr>,
           11 \<mapsto> \<lparr>info_chunk_id = 1, info_tensor_id = 11, start_offset = 0, info_numel = 2,
                   info_param = 1, info_access_type = DATA\<rparr>),
      chunk_id_to_tensor_id_list_map = (\<lambda>c. [])(0 := [10], 1 := [11]),
      chunk_id_to_comm_group_map =
        (\<lambda>c. None)(0 \<mapsto> (0, 0, PARAM_FP16), 1 \<mapsto> (0, 1, PARAM_FP16)),
      comm_group_to_chunk_id_list_map = (\<lambda>ty g. [])(PARAM_FP16 := (\<lambda>g. [])(0 := [0, 1])),
      chunk_type_to_chunk_id_list_map = (\<lambda>ty. [])(PARAM_FP16 := [0, 1]),
      index_chunk_size = 2\<rparr>"

definition ex_chunk :: "(device \<times> real list) option \<Rightarrow> TensorStatus \<Rightarrow> Chunk" where
  "ex_chunk pl st =
     \<lparr>capacity = 2, data_type = Half, dummy = False, payload = pl, pin_count = 0,
      status_dict = (\<lambda>t. 0)(st := 1), last_needed = 0\<rparr>"

definition ex_chunk_list :: "Chunk \<Rightarrow> Chunk \<Rightarrow> ChunkList" where
  "ex_chunk_list c0 c1 =
     \<lparr>chunk_id_to_chunk_dict = (\<lambda>i. None)(0 \<mapsto> c0, 1 \<mapsto> c1),
      id_list = [0, 1],
      chunk_type_to_id_list_map = (\<lambda>ty. [])(PARAM_FP16 := [0, 1]),
      device_capacity = (\<lambda>d. 100),
      cl_local_rank = 0, clock = 0, stale = (\<lambda>j. 5)\<rparr>"

text \<open>Nothing is resident yet and both tensors are \<^verbatim>\<open>FREE\<close>.\<close>

definition ex_fresh :: client where
  "ex_fresh =
     \<lparr>local_rank = 0, default_chunk_size = 2, chunk_tensor_index = ex_index,
      chunk_list = ex_chunk_list (ex_chunk None FREE) (ex_chunk None FREE),
      params = ex_params FREE FREE, trace = []\<rparr>"

text \<open>Both chunks are resident on the accelerator; the tensor of chunk 0 is in use after
  the backward pass and the tensor of chunk 1 is at \<^verbatim>\<open>HOLD_AFTER_BWD\<close>.\<close>

definition ex_backward :: client where
  "ex_backward =
     \<lparr>local_rank = 0, default_chunk_size = 2, chunk_tensor_index = ex_index,
      chunk_list = ex_chunk_list (ex_chunk (Some (CUDA 0, [1, 2])) COMPUTE)
                     (ex_chunk (Some (CUDA 0, [10, 20])) HOLD_AFTER_BWD),
      params = ex_params COMPUTE HOLD_AFTER_BWD, trace = []\<rparr>"

section \<open>Keys and devices\<close>

lemma chunk_at_simps [simp]:
  "chunk_at cl None = None"
  "chunk_at cl (Some i) = map_option (Pair i) (chunk_id_to_chunk_dict cl i)"
  by (simp_all add: chunk_at_def)

lemma chunk_ids_of_comm_group_None [simp]: "chunk_ids_of_comm_group idx None = Inl KeyError"
  by (simp add: chunk_ids_of_comm_group_def)

lemma access_chunk_None [simp]: "access_chunk None dev cl = (Inl KeyError, cl)"
  by (simp add: access_chunk_def)

lemma access_chunk_Some:
  "access_chunk (Some chunk_id) compute_device cl0 =
     (case chunk_id_to_chunk_dict cl0 chunk_id of
        None \<Rightarrow> (Inl KeyError, cl0)
      | Some c \<Rightarrow>
          (let cl = touch chunk_id cl0;
               dev = storage_device (cl_local_rank cl0) compute_device
           in
           case payload c of
             None \<Rightarrow>
               then_do (prepare_device dev (get_chunk_space c) cl)
                 (\<lambda>_. with_chunk chunk_id (allocate_payload dev (stale cl)))
           | Some (d, xs) \<Rightarrow>
               if d = dev then (Inr (), cl)
               else then_do (prepare_device dev (get_chunk_space c) cl)
                      (\<lambda>_. with_chunk chunk_id (\<lambda>c'. c'\<lparr>payload := Some (dev, xs)\<rparr>))))"
  by (cases "chunk_id_to_chunk_dict cl0 chunk_id") (simp_all add: access_chunk_def)

lemma storage_device_simps [simp]:
  "storage_device n CPU = CPU"
  "storage_device n (CUDA k) = CUDA k"
  "storage_device n (storage_device m dev) = storage_device m dev"
  by (simp_all add: storage_device_def split: device_type.splits option.splits)

section \<open>Sequencing\<close>

lemma then_do_Inl [simp]: "then_do (Inl err, s) f = (Inl err, s)"
  by (simp add: then_do_def)

lemma then_do_Inr [simp]: "then_do (Inr a, s) f = f a s"
  by (simp add: then_do_def)

lemma then_do_eq_Inr:
  "then_do r f = (Inr b, s') \<longleftrightarrow> (\<exists>a s1. r = (Inr a, s1) \<and> f a s1 = (Inr b, s'))"
  by (cases r; cases "fst r") (auto simp: then_do_def)

section \<open>Torch-based parameters\<close>

text \<open>C10: for a parameter registered with param type \<^verbatim>\<open>TORCH_BASED\<close>, \<^verbatim>\<open>access\<close> and
  \<^verbatim>\<open>access_dist\<close> return \<^verbatim>\<open>param.data\<close> (data access) or \<^verbatim>\<open>param.grad\<close> (grad access),
  \<^verbatim>\<open>release\<close> and \<^verbatim>\<open>release_dist\<close> return at once, and the state after each call is the
  state before it: the outcome depends on the parameter object alone, and no chunk, index
  or status is changed.\<close>

theorem torch_based_untouched:
  assumes "p_attr (params s p) = Some a" and "param_type a = TORCH_BASED"
  shows "access p atype dev s
           = (Inr (case atype of DATA \<Rightarrow> p_data (params s p) | GRAD \<Rightarrow> p_grad (params s p)), s)
       \<and> access_dist e p atype dev s
           = (Inr (case atype of DATA \<Rightarrow> p_data (params s p) | GRAD \<Rightarrow> p_grad (params s p)), s)
       \<and> release p atype st s = (Inr (), s)
       \<and> release_dist e p atype st stage reduce s = (Inr (), s)"
  using assms by (cases atype) (simp_all add: access_def access_dist_def release_def release_dist_def)

theorem torch_based_untouched_witness:
  "access 2 DATA (CUDA 0) ex_fresh = (Inr (Standalone [1, 2]), ex_fresh)
   \<and> access_dist env2 2 GRAD (CUDA 0) ex_fresh = (Inr (Standalone [3, 4]), ex_fresh)
   \<and> release 2 DATA HOLD ex_fresh = (Inr (), ex_fresh)
   \<and> release_dist env2 2 DATA HOLD FWD True ex_fresh = (Inr (), ex_fresh)"
proof -
  have a: "p_attr (params ex_fresh 2) = Some ((ex_attr 12 FREE)\<lparr>param_type := TORCH_BASED\<rparr>)"
    by (simp add: ex_fresh_def ex_params_def)
  have b: "param_type ((ex_attr 12 FREE)\<lparr>param_type := TORCH_BASED\<rparr>) = TORCH_BASED"
    by simp
  have d: "p_data (params ex_fresh 2) = Standalone [1, 2]" "p_grad (params ex_fresh 2) = Standalone [3, 4]"
    by (simp_all add: ex_fresh_def ex_params_def)
  show ?thesis
    using torch_based_untouched [OF a b, of DATA "CUDA 0" env2 HOLD FWD True]
          torch_based_untouched [OF a b, of GRAD "CUDA 0" env2 HOLD FWD True] d
    by simp
qed

section \<open>Access to a tensor without a chunk\<close>



section \<open>The index is never written by access or release\<close>

lemma snd_then_do_proj:
  assumes "\<And>a s1. g (snd (f a s1)) = g s1"
  shows "g (snd (then_do r f)) = g (snd r)"
  using assms by (cases r; cases "fst r") (auto simp: then_do_def)

lemma idx_on_chunk_list [simp]:
  "chunk_tensor_index (snd (on_chunk_list f s)) = chunk_tensor_index s"
  by (simp add: on_chunk_list_def split: prod.splits)

lemma idx_log_event [simp]: "chunk_tensor_index (snd (log_event ev s)) = chunk_tensor_index s"
  by (simp add: log_event_def)

lemma idx_put_attr [simp]: "chunk_tensor_index (put_attr p a s) = chunk_tensor_index s"
  by (simp add: put_attr_def)

lemma idx_detach [simp]: "chunk_tensor_index (detach p atype s) = chunk_tensor_index s"
  by (simp add: detach_def split: AccessType.splits)

lemma idx_then_do [simp]:
  "(\<And>a s1. chunk_tensor_index (snd (f a s1)) = chunk_tensor_index s1)
   \<Longrightarrow> chunk_tensor_index (snd (then_do r f)) = chunk_tensor_index (snd r)"
  by (rule snd_then_do_proj)

lemma idx_pin_chunk [simp]: "chunk_tensor_index (snd (pin_chunk i s)) = chunk_tensor_index s"
  by (simp add: pin_chunk_def)

lemma idx_unpin_chunk [simp]: "chunk_tensor_index (snd (unpin_chunk i s)) = chunk_tensor_index s"
  by (simp add: unpin_chunk_def)

lemma idx_allocate_chunk [simp]:
  "chunk_tensor_index (snd (allocate_chunk i dev s)) = chunk_tensor_index s"
  by (simp add: allocate_chunk_def)

lemma idx_release_chunk [simp]: "chunk_tensor_index (snd (release_chunk i s)) = chunk_tensor_index s"
  by (simp add: release_chunk_def)

lemma idx_set_status_loop [simp]:
  "chunk_tensor_index (snd (set_status_loop cid st infos s)) = chunk_tensor_index s"
  by (induction infos arbitrary: s) (simp_all split: option.splits)

lemma idx_set_all [simp]:
  "chunk_tensor_index (snd (set_all_tensors_status_in_chunk cid st s)) = chunk_tensor_index s"
  by (simp add: set_all_tensors_status_in_chunk_def)

lemma idx_allocate_remote [simp]:
  "chunk_tensor_index (snd (allocate_remote i dev s)) = chunk_tensor_index s"
  by (simp add: allocate_remote_def split: option.splits)

lemma idx_fetch_loop [simp]:
  "chunk_tensor_index (snd (fetch_loop local dev ids s)) = chunk_tensor_index s"
proof (induction ids arbitrary: s)
  case Nil
  show ?case by simp
next
  case (Cons i ids)
  have inner: "\<And>s3. chunk_tensor_index
          (snd (case chunk_id_to_chunk_dict (chunk_list s3) i of
                  None \<Rightarrow> (Inl KeyError, s3)
                | Some c \<Rightarrow> fetch_loop local dev ids s3)) = chunk_tensor_index s3"
    by (simp add: Cons.IH split: option.splits)
  show ?case
    by (simp add: inner split: option.splits)
qed

lemma idx_unpin_loop [simp]: "chunk_tensor_index (snd (unpin_loop ids s)) = chunk_tensor_index s"
  by (induction ids arbitrary: s) simp_all

lemma idx_all_gather [simp]: "chunk_tensor_index (snd (all_gather e ids s)) = chunk_tensor_index s"
  by (simp add: all_gather_def)

lemma idx_first_buffer_numel [simp]: "snd (first_buffer_numel ids s) = s"
  by (simp add: first_buffer_numel_def split: list.splits option.splits)

lemma idx_fetch_remote_chunks [simp]:
  "chunk_tensor_index (snd (fetch_remote_chunks e ids local dev s)) = chunk_tensor_index s"
  by (simp add: fetch_remote_chunks_def split: sum.splits bool.splits)

lemma idx_locate_and_compute [simp]:
  "chunk_tensor_index (snd (locate_and_compute cid p atype s)) = chunk_tensor_index s"
  by (simp add: locate_and_compute_def Let_def split: option.splits sum.splits)

lemma idx_access_dist_group [simp]:
  "chunk_tensor_index (snd (access_dist_group e key dev s)) = chunk_tensor_index s"
  by (simp add: access_dist_group_def Let_def split: sum.splits)

lemma idx_prepare_chunks [simp]:
  "chunk_tensor_index (snd (prepare_chunks e key dev s)) = chunk_tensor_index s"
  by (simp add: prepare_chunks_def)

lemma idx_access [simp]: "chunk_tensor_index (snd (access p atype dev s)) = chunk_tensor_index s"
  by (simp add: access_def split: option.splits AccessType.splits)

lemma idx_access_dist [simp]:
  "chunk_tensor_index (snd (access_dist e p atype dev s)) = chunk_tensor_index s"
proof -
  have inner: "\<And>key s2. chunk_tensor_index
      (snd (case chunk_at (chunk_list s2) key of
              None \<Rightarrow> (Inl KeyError, s2)
            | Some (i, c) \<Rightarrow>
                (case payload c of
                   None \<Rightarrow> (Inl AssertionError, s2)
                 | Some (d, xs) \<Rightarrow>
                     if d \<noteq> dev then (Inl AssertionError, s2)
                     else locate_and_compute i p atype s2))) = chunk_tensor_index s2"
    by (simp split: option.splits prod.splits)
  show ?thesis
    by (simp add: access_dist_def Let_def inner split: option.splits AccessType.splits)
qed

lemma idx_release [simp]: "chunk_tensor_index (snd (release p atype st s)) = chunk_tensor_index s"
  by (simp add: release_def split: option.splits)

lemma idx_reduce_inputs_loop [simp]:
  "chunk_tensor_index (snd (reduce_inputs_loop ids s)) = chunk_tensor_index s"
  by (induction ids arbitrary: s) simp_all

lemma idx_reduce_scatter [simp]:
  "chunk_tensor_index (snd (reduce_scatter e local ids s)) = chunk_tensor_index s"
  by (simp add: reduce_scatter_def)

lemma idx_reduce_step [simp]:
  "chunk_tensor_index (snd (reduce_step e local ids s)) = chunk_tensor_index s"
  by (simp add: reduce_step_def)

lemma idx_collapse_loop [simp]:
  "chunk_tensor_index (snd (collapse_loop local ids s)) = chunk_tensor_index s"
  by (induction ids arbitrary: s) simp_all

lemma idx_release_dist_group [simp]:
  "chunk_tensor_index (snd (release_dist_group e local ids stage reduce s)) = chunk_tensor_index s"
  by (simp add: release_dist_group_def split: sum.splits bool.splits)

lemma idx_release_dist [simp]:
  "chunk_tensor_index (snd (release_dist e p atype st stage reduce s)) = chunk_tensor_index s"
  by (simp add: release_dist_def Let_def split: option.splits sum.splits)

text \<open>C9: calling \<^verbatim>\<open>access\<close> twice in a row on the same tensor leaves its registered
  (chunk id, offset, length) as it was, and no access or release, local or distributed,
  changes the index: whatever the outcome of the call, the index after it is the index
  before it.\<close>

theorem registration_never_changes:
  "map_option (\<lambda>i. (info_chunk_id i, start_offset i, info_numel i))
       (tensor_id_to_info_map
          (chunk_tensor_index (snd (access p atype dev (snd (access p atype dev s))))) tid)
     = map_option (\<lambda>i. (info_chunk_id i, start_offset i, info_numel i))
         (tensor_id_to_info_map (chunk_tensor_index s) tid)
   \<and> chunk_tensor_index (snd (access q atype dev s)) = chunk_tensor_index s
   \<and> chunk_tensor_index (snd (access_dist e q atype dev s)) = chunk_tensor_index s
   \<and> chunk_tensor_index (snd (release q atype st s)) = chunk_tensor_index s
   \<and> chunk_tensor_index (snd (release_dist e q atype st stage reduce s)) = chunk_tensor_index s"
  by simp

theorem registration_never_changes_witness:
  "map_option (\<lambda>i. (info_chunk_id i, start_offset i, info_numel i))
       (tensor_id_to_info_map
          (chunk_tensor_index (snd (access 0 DATA (CUDA 0) (snd (access 0 DATA (CUDA 0) ex_fresh)))))
          10)
     = Some (0, 0, 2)
   \<and> chunk_tensor_index (snd (access_dist env2 0 DATA (CUDA 0) ex_fresh)) = ex_index
   \<and> chunk_tensor_index (snd (release_dist env2 0 DATA HOLD_AFTER_BWD BWD True ex_backward)) = ex_index"
  using registration_never_changes [of 0 DATA "CUDA 0" ex_fresh 10 0 env2 HOLD FWD True]
        registration_never_changes [of 0 DATA "CUDA 0" ex_backward 10 0 env2 HOLD_AFTER_BWD BWD True]
  by (simp add: ex_fresh_def ex_backward_def ex_index_def)

section \<open>Residency requests\<close>

lemma chunk_frame_refl [simp]: "chunk_frame c c"
  by (simp add: chunk_frame_def)

lemma chunk_frame_trans: "chunk_frame a b \<Longrightarrow> chunk_frame b c \<Longrightarrow> chunk_frame a c"
  by (simp add: chunk_frame_def)

lemma rel_option_chunk_frame_refl [simp]: "rel_option chunk_frame x x"
  by (cases x) simp_all

lemma rel_option_chunk_frame_trans:
  "rel_option chunk_frame x y \<Longrightarrow> rel_option chunk_frame y z \<Longrightarrow> rel_option chunk_frame x z"
  by (cases x; cases y; cases z) (auto intro: chunk_frame_trans)

lemma cl_frame_refl [simp]: "cl_frame cl cl"
  by (simp add: cl_frame_def)

lemma cl_frame_trans: "cl_frame a b \<Longrightarrow> cl_frame b c \<Longrightarrow> cl_frame a c"
  unfolding cl_frame_def by (auto intro: rel_option_chunk_frame_trans)

lemma chunk_frame_evict_chunk [simp]: "chunk_frame c (evict_chunk cl c)"
  by (simp add: chunk_frame_def evict_chunk_def split: option.splits prod.splits)

lemma cl_frame_evict [simp]: "cl_frame cl (evict cl i)"
  by (simp add: cl_frame_def evict_def split: option.splits)

lemma cl_frame_make_room: "cl_frame cl (snd (make_room dev need vs cl))"
proof (induction vs arbitrary: cl)
  case Nil
  show ?case by simp
next
  case (Cons v vs)
  show ?case
    using cl_frame_trans [OF cl_frame_evict [of cl v] Cons.IH [of "evict cl v"]]
    by simp
qed

lemma cl_frame_prepare_device [simp]: "cl_frame cl (snd (prepare_device dev need cl))"
  by (simp add: prepare_device_def cl_frame_make_room)

lemma cl_frame_touch [simp]: "cl_frame cl (touch i cl)"
  by (simp add: cl_frame_def touch_def chunk_frame_def split: option.splits)

lemma cl_frame_with_chunk:
  "(\<And>c. chunk_frame c (m c)) \<Longrightarrow> cl_frame cl (snd (with_chunk i m cl))"
  by (simp add: cl_frame_def with_chunk_def split: option.splits)

lemma cl_frame_then_do:
  "cl_frame cl (snd r) \<Longrightarrow> (\<And>a cl1. cl_frame cl1 (snd (f a cl1))) \<Longrightarrow> cl_frame cl (snd (then_do r f))"
  by (cases r; cases "fst r") (auto simp: then_do_def intro: cl_frame_trans)

lemma cl_frame_access_chunk [simp]: "cl_frame cl (snd (access_chunk (Some cid) dev cl))"
proof (cases "chunk_id_to_chunk_dict cl cid")
  case None
  then show ?thesis by (simp add: access_chunk_Some)
next
  case (Some c)
  have t: "cl_frame cl (touch cid cl)" by simp
  have a: "\<And>d. cl_frame (touch cid cl)
             (snd (then_do (prepare_device d (get_chunk_space c) (touch cid cl))
                     (\<lambda>_. with_chunk cid (allocate_payload d (stale (touch cid cl))))))"
    by (intro cl_frame_then_do cl_frame_prepare_device cl_frame_with_chunk)
       (simp add: chunk_frame_def allocate_payload_def)
  have b: "\<And>d xs. cl_frame (touch cid cl)
             (snd (then_do (prepare_device d (get_chunk_space c) (touch cid cl))
                     (\<lambda>_. with_chunk cid (\<lambda>c'. c'\<lparr>payload := Some (d, xs)\<rparr>))))"
    by (intro cl_frame_then_do cl_frame_prepare_device cl_frame_with_chunk)
       (simp add: chunk_frame_def)
  show ?thesis
    using Some t cl_frame_trans [OF t a] cl_frame_trans [OF t b]
    by (auto simp: access_chunk_Some Let_def split: option.splits prod.splits)
qed

text \<open>What the frame keeps.\<close>

lemma cl_frame_status:
  "cl_frame cl cl' \<Longrightarrow> map_option status_dict (chunk_id_to_chunk_dict cl' i)
                        = map_option status_dict (chunk_id_to_chunk_dict cl i)"
  unfolding cl_frame_def
  by (cases "chunk_id_to_chunk_dict cl i"; cases "chunk_id_to_chunk_dict cl' i")
     (auto simp: chunk_frame_def dest: spec [of _ i])

lemma cl_frame_lookup:
  "cl_frame cl cl' \<Longrightarrow> chunk_id_to_chunk_dict cl i = Some c
   \<Longrightarrow> \<exists>c'. chunk_id_to_chunk_dict cl' i = Some c' \<and> chunk_frame c c'"
  unfolding cl_frame_def
  by (cases "chunk_id_to_chunk_dict cl' i") (auto dest: spec [of _ i])

lemma cl_frame_lookup_None:
  "cl_frame cl cl' \<Longrightarrow> chunk_id_to_chunk_dict cl i = None \<Longrightarrow> chunk_id_to_chunk_dict cl' i = None"
  unfolding cl_frame_def
  by (cases "chunk_id_to_chunk_dict cl' i") (auto dest: spec [of _ i])

lemma chunk_frame_get_status: "chunk_frame c c' \<Longrightarrow> get_status c' = get_status c"
  by (simp add: chunk_frame_def get_status_def)

lemma cl_frame_has_released:
  "cl_frame cl cl' \<Longrightarrow> has_released_chunk cl' ids = has_released_chunk cl ids"
proof (induction ids)
  case Nil
  show ?case by simp
next
  case (Cons i ids)
  show ?case
  proof (cases "chunk_id_to_chunk_dict cl i")
    case None
    with Cons.prems show ?thesis by (simp add: cl_frame_lookup_None)
  next
    case (Some c)
    with Cons.prems obtain c' where "chunk_id_to_chunk_dict cl' i = Some c'" "chunk_frame c c'"
      by (blast dest: cl_frame_lookup)
    with Some Cons show ?thesis by (simp add: chunk_frame_get_status)
  qed
qed

text \<open>A successful residency request leaves the chunk on the device.\<close>

lemma with_chunk_Inr:
  "with_chunk i m cl = (Inr u, cl') \<Longrightarrow>
     \<exists>c. chunk_id_to_chunk_dict cl i = Some c
        \<and> cl' = cl\<lparr>chunk_id_to_chunk_dict := (chunk_id_to_chunk_dict cl)(i \<mapsto> m c)\<rparr>"
  by (auto simp: with_chunk_def split: option.splits)

lemma access_chunk_resident:
  assumes "access_chunk (Some cid) dev cl = (Inr u, cl')"
  shows "\<exists>c xs. chunk_id_to_chunk_dict cl' cid = Some c
              \<and> payload c = Some (storage_device (cl_local_rank cl) dev, xs)"
  using assms
  by (auto simp: access_chunk_Some Let_def then_do_eq_Inr touch_def
           allocate_payload_def
           split: option.splits prod.splits if_splits dest!: with_chunk_Inr)

section \<open>Calls that log nothing\<close>

lemma trace_then_do [simp]:
  "(\<And>a s1. trace (snd (f a s1)) = trace s1) \<Longrightarrow> trace (snd (then_do r f)) = trace (snd r)"
  by (cases r; cases "fst r") (auto simp: then_do_def)

lemma trace_on_chunk_list [simp]: "trace (snd (on_chunk_list f s)) = trace s"
  by (simp add: on_chunk_list_def split: prod.splits)

lemma trace_put_attr [simp]: "trace (put_attr p a s) = trace s"
  by (simp add: put_attr_def)

lemma trace_detach [simp]: "trace (detach p atype s) = trace s"
  by (simp add: detach_def split: AccessType.splits)

lemma trace_set_status_loop [simp]: "trace (snd (set_status_loop cid st infos s)) = trace s"
  by (induction infos arbitrary: s) (simp_all split: option.splits)

lemma trace_set_all [simp]: "trace (snd (set_all_tensors_status_in_chunk cid st s)) = trace s"
  by (simp add: set_all_tensors_status_in_chunk_def)

lemma trace_locate_and_compute [simp]: "trace (snd (locate_and_compute cid p atype s)) = trace s"
  by (simp add: locate_and_compute_def Let_def split: option.splits sum.splits)

lemma trace_access [simp]: "trace (snd (access p atype dev s)) = trace s"
  by (simp add: access_def split: option.splits AccessType.splits)

lemma trace_release [simp]: "trace (snd (release p atype st s)) = trace s"
  by (simp add: release_def split: option.splits)

section \<open>Local release\<close>

lemma on_chunk_list_Inr:
  "on_chunk_list f s = (Inr u, s') \<longleftrightarrow>
     (\<exists>cl'. f (chunk_list s) = (Inr u, cl') \<and> s' = s\<lparr>chunk_list := cl'\<rparr>)"
  by (auto simp: on_chunk_list_def split: prod.splits)

lemma release_result:
  assumes "release p atype st s = (Inr u, s')"
      and "p_attr (params s p) = Some a" and "param_type a = CHUNK_BASED"
      and "get_chunk_id (chunk_tensor_index s) a atype = Some cid"
  shows "\<exists>c. chunk_id_to_chunk_dict (chunk_list s) cid = Some c
           \<and> s' = detach p atype (put_attr p (set_status st atype a)
                    (s\<lparr>chunk_list := (chunk_list s)\<lparr>chunk_id_to_chunk_dict :=
                         (chunk_id_to_chunk_dict (chunk_list s))
                           (cid \<mapsto> update_status_chunk (get_status_of a atype) st c)\<rparr>\<rparr>))"
  using assms
  by (auto simp: release_def then_do_eq_Inr on_chunk_list_Inr update_status_def dest!: with_chunk_Inr)

text \<open>C8: a successful non-distributed release of a chunk-based tensor sets the status slot
  of the requested access kind to the reset status (the counts of the owning chunk follow
  it) and detaches the view the framework sees (\<^verbatim>\<open>param.data\<close> becomes an empty tensor for a
  data release, \<^verbatim>\<open>param.grad\<close> becomes \<^verbatim>\<open>None\<close> for a grad release). Nothing else changes:
  the other status slot and the bound views of the parameter, every other parameter, the
  index, the trace, every payload with its device, every pin count, every other chunk and
  every other field of the chunk list.\<close>

theorem release_frame:
  assumes "release p atype st s = (Inr u, s')"
      and "p_attr (params s p) = Some a" and "param_type a = CHUNK_BASED"
      and "get_chunk_id (chunk_tensor_index s) a atype = Some cid"
  shows "p_attr (params s' p) = Some (set_status st atype a)
       \<and> get_status_of (set_status st atype a) atype = st
       \<and> (\<forall>k. k \<noteq> atype \<longrightarrow> get_status_of (set_status st atype a) k = get_status_of a k)
       \<and> (\<forall>k. access_tensor (set_status st atype a) k = access_tensor a k)
       \<and> p_data (params s' p) = (case atype of DATA \<Rightarrow> Standalone [] | GRAD \<Rightarrow> p_data (params s p))
       \<and> p_grad (params s' p) = (case atype of DATA \<Rightarrow> p_grad (params s p) | GRAD \<Rightarrow> NoTensor)
       \<and> (\<forall>q. q \<noteq> p \<longrightarrow> params s' q = params s q)
       \<and> chunk_tensor_index s' = chunk_tensor_index s
       \<and> trace s' = trace s
       \<and> chunk_list s' = (chunk_list s)\<lparr>chunk_id_to_chunk_dict :=
                                           chunk_id_to_chunk_dict (chunk_list s')\<rparr>
       \<and> map_option (update_status_chunk (get_status_of a atype) st)
             (chunk_id_to_chunk_dict (chunk_list s) cid)
           = chunk_id_to_chunk_dict (chunk_list s') cid
       \<and> (\<forall>i. map_option payload (chunk_id_to_chunk_dict (chunk_list s') i)
                = map_option payload (chunk_id_to_chunk_dict (chunk_list s) i))
       \<and> (\<forall>i. map_option pin_count (chunk_id_to_chunk_dict (chunk_list s') i)
                = map_option pin_count (chunk_id_to_chunk_dict (chunk_list s) i))
       \<and> (\<forall>i. i \<noteq> cid \<longrightarrow> chunk_id_to_chunk_dict (chunk_list s') i
                              = chunk_id_to_chunk_dict (chunk_list s) i)"
proof -
  obtain c where c: "chunk_id_to_chunk_dict (chunk_list s) cid = Some c"
    and s': "s' = detach p atype (put_attr p (set_status st atype a)
                    (s\<lparr>chunk_list := (chunk_list s)\<lparr>chunk_id_to_chunk_dict :=
                         (chunk_id_to_chunk_dict (chunk_list s))
                           (cid \<mapsto> update_status_chunk (get_status_of a atype) st c)\<rparr>\<rparr>))"
    using release_result [OF assms] by blast
  show ?thesis
    unfolding s' using c
    by (cases atype)
       (auto simp: detach_def put_attr_def set_status_def get_status_of_def access_tensor_def
          update_status_chunk_def Let_def
          split: AccessType.splits)
qed

theorem release_frame_witness:
  "fst (release 0 DATA HOLD ex_backward) = Inr ()
   \<and> p_attr (params (snd (release 0 DATA HOLD ex_backward)) 0) = Some (ex_attr 10 HOLD)
   \<and> p_data (params (snd (release 0 DATA HOLD ex_backward)) 0) = Standalone []
   \<and> params (snd (release 0 DATA HOLD ex_backward)) 1 = params ex_backward 1
   \<and> map_option payload (chunk_id_to_chunk_dict (chunk_list (snd (release 0 DATA HOLD ex_backward))) 0)
       = Some (Some (CUDA 0, [1, 2]))
   \<and> chunk_id_to_chunk_dict (chunk_list (snd (release 0 DATA HOLD ex_backward))) 1
       = Some (ex_chunk (Some (CUDA 0, [10, 20])) HOLD_AFTER_BWD)"
proof -
  have f: "fst (release 0 DATA HOLD ex_backward) = Inr ()"
    by code_simp
  then have h: "release 0 DATA HOLD ex_backward = (Inr (), snd (release 0 DATA HOLD ex_backward))"
    by (simp add: prod_eq_iff)
  have a: "p_attr (params ex_backward 0) = Some (ex_attr 10 COMPUTE)"
    by (simp add: ex_backward_def ex_params_def)
  have b: "param_type (ex_attr 10 COMPUTE) = CHUNK_BASED"
    by (simp add: ex_attr_def)
  have c: "get_chunk_id (chunk_tensor_index ex_backward) (ex_attr 10 COMPUTE) DATA = Some 0"
    by (simp add: ex_backward_def ex_index_def ex_attr_def get_chunk_id_def get_tensor_id_def)
  have d: "map_option payload (chunk_id_to_chunk_dict (chunk_list ex_backward) 0)
             = Some (Some (CUDA 0, [1, 2]))"
          "chunk_id_to_chunk_dict (chunk_list ex_backward) 1
             = Some (ex_chunk (Some (CUDA 0, [10, 20])) HOLD_AFTER_BWD)"
          "set_status HOLD DATA (ex_attr 10 COMPUTE) = ex_attr 10 HOLD"
    by (simp_all add: ex_backward_def ex_chunk_list_def ex_chunk_def set_status_def ex_attr_def)
  show ?thesis
    using release_frame [OF h a b c] f d by simp
qed

section \<open>One process\<close>

lemma access_dist_single:
  assumes "\<not> 1 < world_size e"
      and a: "p_attr (params s p) = Some a"
      and chunk: "get_chunk_id (chunk_tensor_index s) a atype = Some cid"
      and dev: "storage_device (cl_local_rank (chunk_list s)) dev = dev"
  shows "access_dist e p atype dev s = access p atype dev s"
proof -
  obtain r cl' where r: "access_chunk (Some cid) dev (chunk_list s) = (r, cl')"
    by (cases "access_chunk (Some cid) dev (chunk_list s)")
  have "then_do (prepare_chunks e (Some cid) dev s)
          (\<lambda>_ s2. case chunk_at (chunk_list s2) (Some cid) of
                     None \<Rightarrow> (Inl KeyError, s2)
                   | Some (i, c) \<Rightarrow>
                       (case payload c of
                          None \<Rightarrow> (Inl AssertionError, s2)
                        | Some (d, xs) \<Rightarrow>
                            if d \<noteq> dev then (Inl AssertionError, s2)
                            else locate_and_compute i p atype s2))
        = then_do (on_chunk_list (access_chunk (Some cid) dev) s) (\<lambda>_. locate_and_compute cid p atype)"
  proof (cases r)
    case (Inl err)
    with r assms(1) show ?thesis by (simp add: prepare_chunks_def on_chunk_list_def)
  next
    case (Inr u)
    with r dev obtain c xs where "chunk_id_to_chunk_dict cl' cid = Some c" "payload c = Some (dev, xs)"
      using access_chunk_resident [of cid dev "chunk_list s" u cl'] by auto
    with r Inr assms(1) show ?thesis by (simp add: prepare_chunks_def on_chunk_list_def)
  qed
  with a chunk show ?thesis
    by (simp add: access_dist_def access_def)
qed

lemma release_dist_single:
  assumes "\<not> 1 < world_size e"
      and "p_attr (params s p) = Some a"
      and "get_chunk_id (chunk_tensor_index s) a atype = Some cid"
      and "dist_initialized e" and "stage = FWD \<or> stage = BWD"
      and "chunk_ids_of_comm_group (chunk_tensor_index s) (Some cid) = Inr ids"
      and "rank e < length ids"
  shows "release_dist e p atype st stage reduce s = release p atype st s"
proof -
  have "then_do (on_chunk_list (update_status cid (get_status_of a atype) st) s)
          (\<lambda>_ s1. (Inr (), detach p atype (put_attr p (set_status st atype a) s1)))
        = then_do (on_chunk_list (update_status cid (get_status_of a atype) st) s)
            (\<lambda>_ s1. let s2 = detach p atype (put_attr p (set_status st atype a) s1)
                     in if 1 < world_size e
                        then release_dist_group e (ids ! rank e) ids stage reduce s2
                        else (Inr (), s2))"
    using assms(1) by (simp add: Let_def)
  with assms show ?thesis
    by (auto simp: release_dist_def release_def Let_def)
qed

text \<open>C5, as amended: with one process, \<^verbatim>\<open>access_dist\<close> on a registered tensor with an
  assigned chunk is \<^verbatim>\<open>access\<close>, with the same outcome and the same state, when the device
  asked for is the device storage placed there reports (\<^verbatim>\<open>access_dist\<close> asserts that the
  payload is on the device asked for, \<^verbatim>\<open>access\<close> does not); whatever the device,
  \<^verbatim>\<open>access_dist\<close> adds nothing to the trace (no collective call, no pin).
  \<^verbatim>\<open>release_dist\<close> is \<^verbatim>\<open>release\<close> when the communication layer is initialised, the stage is
  \<^verbatim>\<open>FWD\<close> or \<^verbatim>\<open>BWD\<close> and the rank indexes the communication group of the chunk; it then
  adds nothing to the trace and leaves every payload where it is.\<close>

theorem single_process_fallback:
  assumes "world_size e = 1"
      and "p_attr (params s p) = Some a"
      and "get_chunk_id (chunk_tensor_index s) a atype = Some cid"
  shows "(storage_device (cl_local_rank (chunk_list s)) dev = dev
            \<longrightarrow> access_dist e p atype dev s = access p atype dev s)
       \<and> trace (snd (access_dist e p atype dev s)) = trace s
       \<and> (dist_initialized e \<and> (stage = FWD \<or> stage = BWD)
            \<and> chunk_ids_of_comm_group (chunk_tensor_index s) (Some cid) = Inr ids \<and> rank e < length ids
          \<longrightarrow> release_dist e p atype st stage reduce s = release p atype st s
              \<and> trace (snd (release_dist e p atype st stage reduce s)) = trace s
              \<and> (\<forall>i. map_option payload
                        (chunk_id_to_chunk_dict
                           (chunk_list (snd (release_dist e p atype st stage reduce s))) i)
                      = map_option payload (chunk_id_to_chunk_dict (chunk_list s) i)))"
proof -
  have one: "\<not> 1 < world_size e" using assms(1) by simp
  have acc: "storage_device (cl_local_rank (chunk_list s)) dev = dev
             \<longrightarrow> access_dist e p atype dev s = access p atype dev s"
    using access_dist_single [OF one assms(2,3)] by blast
  have tr: "trace (snd (access_dist e p atype dev s)) = trace s"
    using one assms(2,3)
    by (simp add: access_dist_def Let_def prepare_chunks_def
          split: option.splits prod.splits AccessType.splits)
  have pay: "\<And>i. map_option payload (chunk_id_to_chunk_dict (chunk_list (snd (release p atype st s))) i)
                 = map_option payload (chunk_id_to_chunk_dict (chunk_list s) i)"
    using assms(2,3)
    by (auto simp: release_def then_do_def on_chunk_list_def update_status_def with_chunk_def
          detach_def put_attr_def update_status_chunk_def Let_def
          split: option.splits AccessType.splits)
  show ?thesis
    using acc tr pay release_dist_single [OF one assms(2,3), where stage = stage and ids = ids and st = st
            and reduce = reduce]
    by simp
qed

theorem single_process_fallback_witness:
  "access_dist env1 0 DATA (CUDA 0) ex_fresh = access 0 DATA (CUDA 0) ex_fresh
   \<and> fst (access 0 DATA (CUDA 0) ex_fresh) = Inr (View 0 0 2)
   \<and> trace (snd (access_dist env1 0 DATA (CUDA 0) ex_fresh)) = []
   \<and> release_dist (env1\<lparr>dist_initialized := True\<rparr>) 0 DATA HOLD FWD True ex_backward
       = release 0 DATA HOLD ex_backward
   \<and> fst (release 0 DATA HOLD ex_backward) = Inr ()
   \<and> trace (snd (release_dist (env1\<lparr>dist_initialized := True\<rparr>) 0 DATA HOLD FWD True ex_backward)) = []"
proof -
  have w: "world_size env1 = 1" "world_size (env1\<lparr>dist_initialized := True\<rparr>) = 1"
          "dist_initialized (env1\<lparr>dist_initialized := True\<rparr>)"
          "rank (env1\<lparr>dist_initialized := True\<rparr>) < length [0, Suc 0]"
    by (simp_all add: env1_def)
  have a: "p_attr (params ex_fresh 0) = Some (ex_attr 10 FREE)"
          "p_attr (params ex_backward 0) = Some (ex_attr 10 COMPUTE)"
    by (simp_all add: ex_fresh_def ex_backward_def ex_params_def)
  have c: "get_chunk_id (chunk_tensor_index ex_fresh) (ex_attr 10 FREE) DATA = Some 0"
          "get_chunk_id (chunk_tensor_index ex_backward) (ex_attr 10 COMPUTE) DATA = Some 0"
    by (simp_all add: ex_fresh_def ex_backward_def ex_index_def ex_attr_def get_chunk_id_def
          get_tensor_id_def)
  have g: "chunk_ids_of_comm_group (chunk_tensor_index ex_backward) (Some 0) = Inr [0, Suc 0]"
    by (simp add: ex_backward_def ex_index_def chunk_ids_of_comm_group_def)
  have t: "trace ex_fresh = []" "trace ex_backward = []"
    by (simp_all add: ex_fresh_def ex_backward_def)
  have f: "fst (access 0 DATA (CUDA 0) ex_fresh) = Inr (View 0 0 2)"
          "fst (release 0 DATA HOLD ex_backward) = Inr ()"
    by code_simp+
  show ?thesis
    using single_process_fallback [OF w(1) a(1) c(1), where dev = "CUDA 0"]
          single_process_fallback [OF w(2) a(2) c(2), where stage = FWD and ids = "[0, Suc 0]"
            and st = HOLD and reduce = True]
          w g t f
    by simp
qed

theorem single_process_asserts_counterexample:
  "world_size env1 = 1
   \<and> p_attr (params ex_backward 0) = Some (ex_attr 10 COMPUTE)
   \<and> param_type (ex_attr 10 COMPUTE) = CHUNK_BASED
   \<and> get_chunk_id (chunk_tensor_index ex_backward) (ex_attr 10 COMPUTE) DATA = Some 0
   \<and> fst (access 0 DATA (Device Cpu (Some 0)) ex_backward) = Inr (View 0 0 2)
   \<and> fst (access_dist env1 0 DATA (Device Cpu (Some 0)) ex_backward) = Inl AssertionError
   \<and> release 0 DATA HOLD ex_backward \<noteq> release_dist env1 0 DATA HOLD FWD False ex_backward
   \<and> fst (release 0 DATA HOLD ex_backward) = Inr ()
   \<and> release_dist env1 0 DATA HOLD FWD False ex_backward = (Inl AssertionError, ex_backward)
   \<and> map_option (\<lambda>a. get_status_of a DATA)
        (p_attr (params (snd (release 0 DATA HOLD ex_backward)) 0)) = Some HOLD
   \<and> map_option (\<lambda>a. get_status_of a DATA)
        (p_attr (params (snd (release_dist env1 0 DATA HOLD FWD False ex_backward)) 0)) = Some COMPUTE"
proof -
  have a: "p_attr (params ex_backward 0) = Some (ex_attr 10 COMPUTE)"
    by (simp add: ex_backward_def ex_params_def)
  have b: "param_type (ex_attr 10 COMPUTE) = CHUNK_BASED" "get_status_of (ex_attr 10 COMPUTE) DATA = COMPUTE"
    by (simp_all add: ex_attr_def get_status_of_def)
  have c: "get_chunk_id (chunk_tensor_index ex_backward) (ex_attr 10 COMPUTE) DATA = Some 0"
    by (simp add: ex_backward_def ex_index_def ex_attr_def get_chunk_id_def get_tensor_id_def)
  have d: "release_dist env1 0 DATA HOLD FWD False ex_backward = (Inl AssertionError, ex_backward)"
    using a b by (simp add: release_dist_def env1_def)
  have f: "fst (release 0 DATA HOLD ex_backward) = Inr ()"
    by code_simp
  have g: "map_option (\<lambda>a. get_status_of a DATA)
             (p_attr (params (snd (release 0 DATA HOLD ex_backward)) 0)) = Some HOLD"
    by code_simp
  have ne: "release 0 DATA HOLD ex_backward \<noteq> release_dist env1 0 DATA HOLD FWD False ex_backward"
    using f d by auto
  have h: "fst (access 0 DATA (Device Cpu (Some 0)) ex_backward) = Inr (View 0 0 2)"
          "fst (access_dist env1 0 DATA (Device Cpu (Some 0)) ex_backward) = Inl AssertionError"
    by code_simp+
  show ?thesis
    using a b c d f g ne h by (simp add: env1_def)
qed

section \<open>Access\<close>

lemma params_then_do [simp]:
  "(\<And>a s1. params (snd (f a s1)) = params s1) \<Longrightarrow> params (snd (then_do r f)) = params (snd r)"
  by (cases r; cases "fst r") (auto simp: then_do_def)

lemma params_on_chunk_list [simp]: "params (snd (on_chunk_list f s)) = params s"
  by (simp add: on_chunk_list_def split: prod.splits)

lemma params_log_event [simp]: "params (snd (log_event ev s)) = params s"
  by (simp add: log_event_def)

lemma params_pin_chunk [simp]: "params (snd (pin_chunk i s)) = params s"
  by (simp add: pin_chunk_def)

lemma params_unpin_chunk [simp]: "params (snd (unpin_chunk i s)) = params s"
  by (simp add: unpin_chunk_def)

lemma take_drop_zero_region:
  "off + n \<le> length xs \<Longrightarrow> take n (drop off (zero_region off n xs)) = replicate n 0"
  by (simp add: zero_region_def)

lemma narrow_Inr:
  "narrow cl cid off n = Inr v \<longleftrightarrow>
     v = View cid off n
     \<and> (\<exists>c d xs. chunk_id_to_chunk_dict cl cid = Some c \<and> payload c = Some (d, xs)
                  \<and> off + n \<le> length xs)"
  by (auto simp: narrow_def split: option.splits prod.splits)

lemma status_after_set_tensor [simp]:
  "get_status_of (set_tensor v atype a) atype = get_status_of a atype"
  "access_tensor (set_tensor v atype a) atype = v"
  "access_tensor (set_status st atype a) atype = access_tensor a atype"
  "get_status_of (set_status st atype a) atype = st"
  by (simp_all add: set_tensor_def set_status_def get_status_of_def access_tensor_def
        split: AccessType.splits)

lemma params_put_attr_same [simp]: "p_attr (params (put_attr p a s) p) = Some a"
  by (simp add: put_attr_def)

lemma chunk_list_put_attr [simp]: "chunk_list (put_attr p a s) = chunk_list s"
  by (simp add: put_attr_def)

lemma contents_update_status:
  "update_status cid old new cl = (Inr u, cl') \<Longrightarrow> contents cl' v = contents cl v"
  by (cases v)
     (auto simp: update_status_def contents_def update_status_chunk_def Let_def
        dest!: with_chunk_Inr)

lemma contents_zero_tensor:
  assumes "zero_tensor (View cid off n) cl = (Inr u, cl')"
      and "chunk_id_to_chunk_dict cl cid = Some c" and "payload c = Some (d, xs)"
      and "off + n \<le> length xs"
  shows "contents cl' (View cid off n) = Some (replicate n 0)"
  using assms
  by (auto simp: zero_tensor_def contents_def take_drop_zero_region dest!: with_chunk_Inr)

lemma locate_and_compute_result:
  assumes run: "locate_and_compute cid p atype s = (Inr v, s')"
      and a: "p_attr (params s p) = Some a"
      and info: "tensor_id_to_info_map (chunk_tensor_index s) (get_tensor_id a atype) = Some info"
  shows "v = View cid (start_offset info) (info_numel info)
       \<and> p_attr (params s' p) = Some (set_status COMPUTE atype (set_tensor v atype a))
       \<and> contents (chunk_list s') v =
           (if get_status_of a atype = FREE then Some (replicate (info_numel info) 0)
            else contents (chunk_list s) v)"
proof -
  let ?v = "View cid (start_offset info) (info_numel info)"
  from run a info have n: "info_numel info = numel a"
    by (auto simp: locate_and_compute_def get_tensor_info_def split: if_splits)
  from run a info n obtain w where w: "narrow (chunk_list s) cid (start_offset info) (info_numel info) = Inr w"
    by (cases "narrow (chunk_list s) cid (start_offset info) (info_numel info)")
       (auto simp: locate_and_compute_def get_tensor_info_def)
  then have wv: "w = ?v" and ex: "\<exists>c d xs. chunk_id_to_chunk_dict (chunk_list s) cid = Some c
       \<and> payload c = Some (d, xs) \<and> start_offset info + info_numel info \<le> length xs"
    by (auto simp: narrow_Inr)
  from ex obtain c d xs where c: "chunk_id_to_chunk_dict (chunk_list s) cid = Some c"
      "payload c = Some (d, xs)" "start_offset info + info_numel info \<le> length xs"
    by blast
  let ?a1 = "set_tensor ?v atype a"
  let ?s1 = "put_attr p ?a1 s"
  from run a info n w wv
  have body: "then_do
       (if get_status_of a atype = FREE then on_chunk_list (zero_tensor ?v) ?s1 else (Inr (), ?s1))
       (\<lambda>_ s2. then_do (on_chunk_list (update_status cid (get_status_of a atype) COMPUTE) s2)
          (\<lambda>_ s3. (Inr ?v, put_attr p (set_status COMPUTE atype ?a1) s3))) = (Inr v, s')"
    by (cases "get_status_of a atype = FREE")
       (simp_all add: locate_and_compute_def get_tensor_info_def Let_def)
  then obtain s2 cl3 where
      z: "(if get_status_of a atype = FREE then on_chunk_list (zero_tensor ?v) ?s1 else (Inr (), ?s1))
            = (Inr (), s2)"
      and u: "update_status cid (get_status_of a atype) COMPUTE (chunk_list s2) = (Inr (), cl3)"
      and v: "v = ?v" and s': "s' = put_attr p (set_status COMPUTE atype ?a1) (s2\<lparr>chunk_list := cl3\<rparr>)"
    by (auto simp: then_do_eq_Inr on_chunk_list_Inr)
  have c2: "contents (chunk_list s2) ?v =
           (if get_status_of a atype = FREE then Some (replicate (info_numel info) 0)
            else contents (chunk_list s) ?v)"
  proof (cases "get_status_of a atype = FREE")
    case True
    with z obtain cl2 where "zero_tensor ?v (chunk_list s) = (Inr (), cl2)" "chunk_list s2 = cl2"
      by (auto simp: on_chunk_list_Inr)
    with True c show ?thesis
      using contents_zero_tensor [of cid "start_offset info" "info_numel info" "chunk_list s" "()" cl2 c d xs]
      by simp
  next
    case False
    with z show ?thesis by auto
  qed
  have "contents (chunk_list s') ?v = contents (chunk_list s2) ?v"
    using contents_update_status [OF u, of ?v] s' by simp
  with c2 v s' show ?thesis by simp
qed

lemma static_then_do [simp]:
  "(\<And>a s1. static_attrs (snd (f a s1)) = static_attrs s1)
   \<Longrightarrow> static_attrs (snd (then_do r f)) = static_attrs (snd r)"
  by (cases r; cases "fst r") (auto simp: then_do_def)

lemma static_on_chunk_list [simp]: "static_attrs (snd (on_chunk_list f s)) = static_attrs s"
  by (rule ext) (simp add: static_attrs_def)

lemma static_log_event [simp]: "static_attrs (snd (log_event ev s)) = static_attrs s"
  by (rule ext) (simp add: static_attrs_def)

lemma static_pin_chunk [simp]: "static_attrs (snd (pin_chunk i s)) = static_attrs s"
  by (simp add: pin_chunk_def)

lemma static_unpin_chunk [simp]: "static_attrs (snd (unpin_chunk i s)) = static_attrs s"
  by (simp add: unpin_chunk_def)

lemma static_allocate_chunk [simp]: "static_attrs (snd (allocate_chunk i dev s)) = static_attrs s"
  by (simp add: allocate_chunk_def)

lemma static_put_attr_status:
  "p_attr (params s p) = Some a \<Longrightarrow> static_attrs (put_attr p (set_status st atype a) s) = static_attrs s"
  by (rule ext)
     (auto simp: static_attrs_def put_attr_def set_status_def split: AccessType.splits)

lemma static_set_status_loop [simp]:
  "static_attrs (snd (set_status_loop cid st infos s)) = static_attrs s"
proof (induction infos arbitrary: s)
  case Nil
  show ?case by simp
next
  case (Cons info infos)
  show ?case
  proof (cases "p_attr (params s (info_param info))")
    case None
    then show ?thesis by simp
  next
    case (Some a)
    obtain r s1 where r: "on_chunk_list (update_status cid (get_status_of a (info_access_type info)) st) s
                          = (r, s1)"
      by (cases "on_chunk_list (update_status cid (get_status_of a (info_access_type info)) st) s")
    have p1: "params s1 = params s"
      using params_on_chunk_list [of "update_status cid (get_status_of a (info_access_type info)) st" s] r
      by simp
    have s1: "static_attrs s1 = static_attrs s"
      using static_on_chunk_list [of "update_status cid (get_status_of a (info_access_type info)) st" s] r
      by simp
    show ?thesis
    proof (cases r)
      case (Inl err)
      with Some r s1 show ?thesis by simp
    next
      case (Inr u)
      from Some p1 have "p_attr (params s1 (info_param info)) = Some a" by simp
      then have "static_attrs (put_attr (info_param info) (set_status st (info_access_type info) a) s1)
                   = static_attrs s1"
        by (rule static_put_attr_status)
      with Some r Inr s1 show ?thesis
        by (simp add: Cons.IH)
    qed
  qed
qed

lemma static_set_all [simp]:
  "static_attrs (snd (set_all_tensors_status_in_chunk cid st s)) = static_attrs s"
  by (simp add: set_all_tensors_status_in_chunk_def)

lemma static_allocate_remote [simp]:
  "static_attrs (snd (allocate_remote i dev s)) = static_attrs s"
  by (simp add: allocate_remote_def split: option.splits)

lemma static_fetch_loop [simp]: "static_attrs (snd (fetch_loop local dev ids s)) = static_attrs s"
proof (induction ids arbitrary: s)
  case Nil
  show ?case by simp
next
  case (Cons i ids)
  have inner: "\<And>s3. static_attrs
          (snd (case chunk_id_to_chunk_dict (chunk_list s3) i of
                  None \<Rightarrow> (Inl KeyError, s3)
                | Some c \<Rightarrow> fetch_loop local dev ids s3)) = static_attrs s3"
    by (simp add: Cons.IH split: option.splits)
  show ?case
    by (simp add: inner split: option.splits)
qed

lemma static_unpin_loop [simp]: "static_attrs (snd (unpin_loop ids s)) = static_attrs s"
  by (induction ids arbitrary: s) simp_all

lemma static_all_gather [simp]: "static_attrs (snd (all_gather e ids s)) = static_attrs s"
  by (rule ext) (simp add: all_gather_def static_attrs_def log_event_def)

lemma static_fetch_remote_chunks [simp]:
  "static_attrs (snd (fetch_remote_chunks e ids local dev s)) = static_attrs s"
  by (simp add: fetch_remote_chunks_def split: sum.splits bool.splits)

lemma static_access_dist_group [simp]:
  "static_attrs (snd (access_dist_group e key dev s)) = static_attrs s"
  by (simp add: access_dist_group_def Let_def split: sum.splits)

lemma static_prepare_chunks [simp]:
  "static_attrs (snd (prepare_chunks e key dev s)) = static_attrs s"
  by (simp add: prepare_chunks_def)

section \<open>The group step of a distributed access\<close>

lemma has_released_cong:
  assumes "\<And>i. map_option get_status (chunk_id_to_chunk_dict cl' i)
               = map_option get_status (chunk_id_to_chunk_dict cl i)"
  shows "has_released_chunk cl' ids = has_released_chunk cl ids"
proof (induction ids)
  case Nil
  show ?case by simp
next
  case (Cons i ids)
  show ?case
    using assms [of i] Cons.IH
    by (cases "chunk_id_to_chunk_dict cl i"; cases "chunk_id_to_chunk_dict cl' i") auto
qed

lemma get_status_pin [simp]: "get_status (pin c) = get_status c" "get_status (unpin c) = get_status c"
  by (simp_all add: get_status_def pin_def unpin_def)

lemma chunk_list_log_event [simp]: "chunk_list (snd (log_event ev s)) = chunk_list s"
  by (simp add: log_event_def)

lemma has_released_with_chunk:
  assumes "\<And>c. get_status (m c) = get_status c"
  shows "has_released_chunk (snd (with_chunk i m cl)) ids = has_released_chunk cl ids"
  by (rule has_released_cong) (simp add: with_chunk_def assms split: option.splits)

lemma pin_chunk_Inr:
  "pin_chunk i s = (Inr u, s') \<longleftrightarrow>
     (\<exists>cl'. with_chunk i pin (chunk_list s) = (Inr (), cl')
            \<and> s' = s\<lparr>chunk_list := cl', trace := trace s @ [Pin i]\<rparr>)"
  by (auto simp: pin_chunk_def then_do_eq_Inr on_chunk_list_Inr log_event_def)

lemma unpin_chunk_Inr:
  "unpin_chunk i s = (Inr u, s') \<longleftrightarrow>
     (\<exists>cl'. with_chunk i unpin (chunk_list s) = (Inr (), cl')
            \<and> s' = s\<lparr>chunk_list := cl', trace := trace s @ [Unpin i]\<rparr>)"
  by (auto simp: unpin_chunk_def then_do_eq_Inr on_chunk_list_Inr log_event_def)

lemma has_released_pin_chunk:
  "pin_chunk i s = (Inr u, s') \<Longrightarrow>
     has_released_chunk (chunk_list s') ids = has_released_chunk (chunk_list s) ids"
  using has_released_with_chunk [of pin i "chunk_list s" ids]
  by (auto simp: pin_chunk_Inr)

lemma has_released_access_chunk:
  "on_chunk_list (access_chunk (Some cid) dev) s = (r, s') \<Longrightarrow>
     has_released_chunk (chunk_list s') ids = has_released_chunk (chunk_list s) ids"
  using cl_frame_has_released [OF cl_frame_access_chunk, of cid dev "chunk_list s" ids]
  by (auto simp: on_chunk_list_def split: prod.splits)

lemma fetch_no_released:
  "has_released_chunk (chunk_list s) ids = Inr False
   \<Longrightarrow> fetch_remote_chunks e ids local dev s = (Inr (), s)"
  by (simp add: fetch_remote_chunks_def)

text \<open>The group step of a distributed access, taken apart.\<close>

lemma access_dist_group_Inr:
  assumes "access_dist_group e (Some cid) dev s = (Inr u, s')"
      and "chunk_ids_of_comm_group (chunk_tensor_index s) (Some cid) = Inr ids"
  shows "rank e < length ids
       \<and> (\<exists>s1 s2 s3. on_chunk_list (access_chunk (Some (ids ! rank e)) dev) s = (Inr (), s1)
              \<and> pin_chunk (ids ! rank e) s1 = (Inr (), s2)
              \<and> fetch_remote_chunks e ids (ids ! rank e) dev s2 = (Inr (), s3)
              \<and> unpin_chunk (ids ! rank e) s3 = (Inr (), s')
              \<and> has_released_chunk (chunk_list s2) ids = has_released_chunk (chunk_list s) ids)"
proof -
  from assms have rk: "rank e < length ids"
    by (auto simp: access_dist_group_def split: if_splits)
  with assms obtain s1 s2 s3 where
      1: "on_chunk_list (access_chunk (Some (ids ! rank e)) dev) s = (Inr (), s1)"
      and 2: "pin_chunk (ids ! rank e) s1 = (Inr (), s2)"
      and 3: "fetch_remote_chunks e ids (ids ! rank e) dev s2 = (Inr (), s3)"
      and 4: "unpin_chunk (ids ! rank e) s3 = (Inr (), s')"
    by (auto simp: access_dist_group_def Let_def then_do_eq_Inr)
  have "has_released_chunk (chunk_list s2) ids = has_released_chunk (chunk_list s) ids"
    using has_released_access_chunk [OF 1] has_released_pin_chunk [OF 2] by simp
  with rk 1 2 3 4 show ?thesis by blast
qed

lemma access_dist_group_no_gather_params:
  assumes "access_dist_group e (Some cid) dev s = (Inr u, s')"
      and "chunk_ids_of_comm_group (chunk_tensor_index s) (Some cid) = Inr ids"
      and "has_released_chunk (chunk_list s) ids = Inr False"
  shows "params s' = params s"
proof -
  from access_dist_group_Inr [OF assms(1,2)] obtain s1 s2 s3 where
      1: "on_chunk_list (access_chunk (Some (ids ! rank e)) dev) s = (Inr (), s1)"
      and 2: "pin_chunk (ids ! rank e) s1 = (Inr (), s2)"
      and 3: "fetch_remote_chunks e ids (ids ! rank e) dev s2 = (Inr (), s3)"
      and 4: "unpin_chunk (ids ! rank e) s3 = (Inr (), s')"
      and 5: "has_released_chunk (chunk_list s2) ids = has_released_chunk (chunk_list s) ids"
    by blast
  from 3 5 assms(3) have "s3 = s2" by (simp add: fetch_no_released)
  moreover from 1 have "params s1 = params s" by (auto simp: on_chunk_list_Inr)
  moreover from 2 have "params s2 = params s1" by (auto simp: pin_chunk_Inr)
  moreover from 4 have "params s' = params s3" by (auto simp: unpin_chunk_Inr)
  ultimately show ?thesis by simp
qed

lemma prepare_chunks_no_gather_params:
  assumes "prepare_chunks e (Some cid) dev s = (Inr u, s')"
      and "\<not> 1 < world_size e
           \<or> (\<exists>ids. chunk_ids_of_comm_group (chunk_tensor_index s) (Some cid) = Inr ids
                    \<and> has_released_chunk (chunk_list s) ids = Inr False)"
  shows "params s' = params s"
proof (cases "1 < world_size e")
  case False
  with assms(1) show ?thesis
    by (auto simp: prepare_chunks_def on_chunk_list_Inr)
next
  case True
  with assms(2) obtain ids where ids: "chunk_ids_of_comm_group (chunk_tensor_index s) (Some cid) = Inr ids"
      "has_released_chunk (chunk_list s) ids = Inr False"
    by blast
  from True assms(1) obtain s1 where 1: "access_dist_group e (Some cid) dev s = (Inr (), s1)"
      and 2: "on_chunk_list (access_chunk (Some cid) dev) s1 = (Inr u, s')"
    by (auto simp: prepare_chunks_def then_do_eq_Inr)
  from 2 have "params s' = params s1" by (auto simp: on_chunk_list_Inr)
  with access_dist_group_no_gather_params [OF 1 ids] show ?thesis by simp
qed

lemma access_chunk_content:
  assumes "access_chunk (Some cid) dev cl = (Inr u, cl')"
      and "chunk_id_to_chunk_dict cl cid = Some c" and "payload c = Some (d, xs)"
  shows "\<exists>c'. chunk_id_to_chunk_dict cl' cid = Some c'
             \<and> payload c' = Some (storage_device (cl_local_rank cl) dev, xs)"
  using assms
  by (auto simp: access_chunk_Some Let_def then_do_eq_Inr touch_def
           split: option.splits prod.splits if_splits dest!: with_chunk_Inr)

lemma access_chunk_contents:
  assumes "access_chunk (Some cid) dev cl = (Inr u, cl')" and "has_payload cl cid"
  shows "contents cl' (View cid off n) = contents cl (View cid off n)"
proof -
  from assms(2) obtain c d xs where c: "chunk_id_to_chunk_dict cl cid = Some c" "payload c = Some (d, xs)"
    by (auto simp: has_payload_def split: option.splits)
  from access_chunk_content [OF assms(1) c] c show ?thesis
    by (auto simp: contents_def)
qed

section \<open>The steps of a distributed access\<close>

lemma access_dist_Inr:
  assumes "access_dist e p atype dev s = (Inr v, s')"
      and "p_attr (params s p) = Some a" and "param_type a \<noteq> TORCH_BASED"
      and "get_chunk_id (chunk_tensor_index s) a atype = Some cid"
  shows "\<exists>s1. prepare_chunks e (Some cid) dev s = (Inr (), s1)
            \<and> locate_and_compute cid p atype s1 = (Inr v, s')"
proof -
  from assms obtain s1 where 1: "prepare_chunks e (Some cid) dev s = (Inr (), s1)"
    and 2: "(case chunk_at (chunk_list s1) (Some cid) of
               None \<Rightarrow> (Inl KeyError, s1)
             | Some (i, c) \<Rightarrow>
                 (case payload c of
                    None \<Rightarrow> (Inl AssertionError, s1)
                  | Some (d, xs) \<Rightarrow>
                      if d \<noteq> dev then (Inl AssertionError, s1)
                      else locate_and_compute i p atype s1)) = (Inr v, s')"
    by (auto simp: access_dist_def then_do_eq_Inr)
  from 2 have "locate_and_compute cid p atype s1 = (Inr v, s')"
    by (cases "chunk_id_to_chunk_dict (chunk_list s1) cid")
       (auto split: option.splits prod.splits if_splits)
  with 1 show ?thesis by blast
qed

section \<open>The trace of a distributed access\<close>

lemma allocate_chunk_Inr:
  "allocate_chunk i dev s = (Inr u, s') \<longleftrightarrow>
     (\<exists>cl'. with_chunk i
               (allocate_payload (storage_device (cl_local_rank (chunk_list s)) dev)
                  (stale (chunk_list s))) (chunk_list s) = (Inr (), cl')
            \<and> s' = s\<lparr>chunk_list := cl', trace := trace s @ [AllocatePayload i]\<rparr>)"
  by (auto simp: allocate_chunk_def then_do_eq_Inr on_chunk_list_Inr log_event_def)

lemma trace_of_result: "m = (r, s') \<Longrightarrow> trace (snd m) = t \<Longrightarrow> trace s' = t"
  by simp

lemma allocate_remote_Inr:
  "allocate_remote i dev s = (Inr u, s') \<longleftrightarrow>
     (\<exists>c cl1 cl2 cl3.
         chunk_id_to_chunk_dict (chunk_list s) i = Some c
       \<and> prepare_device dev (get_chunk_space c) (chunk_list s) = (Inr (), cl1)
       \<and> with_chunk i (allocate_payload (storage_device (cl_local_rank cl1) dev) (stale cl1)) cl1
           = (Inr (), cl2)
       \<and> with_chunk i pin cl2 = (Inr (), cl3)
       \<and> s' = s\<lparr>chunk_list := cl3, trace := trace s @ [AllocatePayload i, Pin i]\<rparr>)"
  by (cases "chunk_id_to_chunk_dict (chunk_list s) i")
     (auto simp: allocate_remote_def then_do_eq_Inr on_chunk_list_Inr allocate_chunk_Inr
        pin_chunk_Inr)

lemma fetch_loop_Cons_Inr:
  assumes "fetch_loop local dev (i # ids) s = (Inr u, s')"
  shows "\<exists>s2 s3. (if i \<noteq> local then allocate_remote i dev s else (Inr (), s)) = (Inr (), s2)
            \<and> set_all_tensors_status_in_chunk i HOLD s2 = (Inr (), s3)
            \<and> chunk_id_to_chunk_dict (chunk_list s3) i \<noteq> None
            \<and> fetch_loop local dev ids s3 = (Inr u, s')"
proof -
  from assms obtain s2 s3 where
      1: "(if i \<noteq> local then allocate_remote i dev s else (Inr (), s)) = (Inr (), s2)"
      and 2: "set_all_tensors_status_in_chunk i HOLD s2 = (Inr (), s3)"
      and 3: "(case chunk_id_to_chunk_dict (chunk_list s3) i of
                 None \<Rightarrow> (Inl KeyError, s3)
               | Some c \<Rightarrow> fetch_loop local dev ids s3) = (Inr u, s')"
    by (auto simp: then_do_eq_Inr)
  from 3 have "chunk_id_to_chunk_dict (chunk_list s3) i \<noteq> None
               \<and> fetch_loop local dev ids s3 = (Inr u, s')"
    by (cases "chunk_id_to_chunk_dict (chunk_list s3) i") auto
  with 1 2 show ?thesis by blast
qed

lemma trace_fetch_loop:
  "fetch_loop local dev ids s = (Inr u, s') \<Longrightarrow> trace s' = trace s @ remote_pins local ids"
proof (induction ids arbitrary: s)
  case Nil
  then show ?case by (simp add: remote_pins_def)
next
  case (Cons i ids)
  from fetch_loop_Cons_Inr [OF Cons.prems] obtain s2 s3 where
      1: "(if i \<noteq> local then allocate_remote i dev s else (Inr (), s)) = (Inr (), s2)"
      and 2: "set_all_tensors_status_in_chunk i HOLD s2 = (Inr (), s3)"
      and 3: "fetch_loop local dev ids s3 = (Inr u, s')"
    by blast
  have t2: "trace s2 = trace s @ (if i \<noteq> local then [AllocatePayload i, Pin i] else [])"
    using 1 by (auto simp: allocate_remote_Inr split: if_splits)
  have t3: "trace s3 = trace s2"
    using trace_of_result [OF 2 trace_set_all] .
  from Cons.IH [OF 3] t2 t3 show ?case
    by (simp add: remote_pins_def)
qed

lemma trace_unpin_loop:
  "unpin_loop ids s = (Inr u, s') \<Longrightarrow> trace s' = trace s @ map Unpin ids"
proof (induction ids arbitrary: s)
  case Nil
  then show ?case by simp
next
  case (Cons i ids)
  from Cons.prems obtain s1 where 1: "unpin_chunk i s = (Inr (), s1)"
      and 2: "unpin_loop ids s1 = (Inr u, s')"
    by (auto simp: then_do_eq_Inr)
  from 1 have "trace s1 = trace s @ [Unpin i]" by (auto simp: unpin_chunk_Inr)
  with Cons.IH [OF 2] show ?case by simp
qed

lemma trace_all_gather:
  "all_gather e ids s = (Inr u, s') \<Longrightarrow> trace s' = trace s @ [AllGather ids]"
  by (auto simp: all_gather_def then_do_eq_Inr log_event_def split: if_splits)

lemma has_released_Inr_cases:
  "has_released_chunk cl ids = Inr b \<Longrightarrow> b = True \<or> b = False"
  by simp

lemma trace_fetch_remote_chunks:
  assumes "fetch_remote_chunks e ids local dev s = (Inr u, s')"
  shows "trace s' = trace s @ (if has_released_chunk (chunk_list s) ids = Inr True
                               then gather_events local ids else [])"
proof (cases "has_released_chunk (chunk_list s) ids = Inr True")
  case True
  with assms obtain s1 s2 s3 n where
      1: "fetch_loop local dev ids s = (Inr (), s1)"
      and 2: "first_buffer_numel ids s1 = (Inr n, s2)"
      and 3: "unpin_loop ids s2 = (Inr (), s3)"
      and 4: "all_gather e ids s3 = (Inr u, s')"
    by (auto simp: fetch_remote_chunks_def then_do_eq_Inr split: if_splits)
  from 2 have "s2 = s1" using idx_first_buffer_numel [of ids s1] by simp
  with trace_fetch_loop [OF 1] trace_unpin_loop [OF 3] trace_all_gather [OF 4] True
  show ?thesis by (simp add: gather_events_def)
next
  case False
  with assms have "s' = s"
    by (cases "has_released_chunk (chunk_list s) ids")
       (auto simp: fetch_remote_chunks_def split: bool.splits)
  with False show ?thesis by simp
qed

lemma trace_access_dist_group:
  assumes "access_dist_group e (Some cid) dev s = (Inr u, s')"
      and "chunk_ids_of_comm_group (chunk_tensor_index s) (Some cid) = Inr ids"
  shows "trace s' = trace s @ Pin (ids ! rank e)
                     # (if has_released_chunk (chunk_list s) ids = Inr True
                        then gather_events (ids ! rank e) ids else [])
                     @ [Unpin (ids ! rank e)]"
proof -
  from access_dist_group_Inr [OF assms] obtain s1 s2 s3 where
      1: "on_chunk_list (access_chunk (Some (ids ! rank e)) dev) s = (Inr (), s1)"
      and 2: "pin_chunk (ids ! rank e) s1 = (Inr (), s2)"
      and 3: "fetch_remote_chunks e ids (ids ! rank e) dev s2 = (Inr (), s3)"
      and 4: "unpin_chunk (ids ! rank e) s3 = (Inr (), s')"
      and 5: "has_released_chunk (chunk_list s2) ids = has_released_chunk (chunk_list s) ids"
    by blast
  from 1 have "trace s1 = trace s" by (auto simp: on_chunk_list_Inr)
  moreover from 2 have "trace s2 = trace s1 @ [Pin (ids ! rank e)]" by (auto simp: pin_chunk_Inr)
  moreover from 4 have "trace s' = trace s3 @ [Unpin (ids ! rank e)]" by (auto simp: unpin_chunk_Inr)
  ultimately show ?thesis
    using trace_fetch_remote_chunks [OF 3] 5 by simp
qed

lemma trace_access_dist:
  assumes "access_dist e p atype dev s = (Inr v, s')" and "1 < world_size e"
      and "p_attr (params s p) = Some a" and "param_type a \<noteq> TORCH_BASED"
      and "get_chunk_id (chunk_tensor_index s) a atype = Some cid"
      and "chunk_ids_of_comm_group (chunk_tensor_index s) (Some cid) = Inr ids"
  shows "trace s' = trace s @ Pin (ids ! rank e)
                     # (if has_released_chunk (chunk_list s) ids = Inr True
                        then gather_events (ids ! rank e) ids else [])
                     @ [Unpin (ids ! rank e)]"
proof -
  from access_dist_Inr [OF assms(1,3,4,5)] obtain s1 where
      1: "prepare_chunks e (Some cid) dev s = (Inr (), s1)"
      and 2: "locate_and_compute cid p atype s1 = (Inr v, s')"
    by blast
  from 1 assms(2) obtain s0 where 3: "access_dist_group e (Some cid) dev s = (Inr (), s0)"
      and 4: "on_chunk_list (access_chunk (Some cid) dev) s0 = (Inr (), s1)"
    by (auto simp: prepare_chunks_def then_do_eq_Inr)
  from 4 have "trace s1 = trace s0" by (auto simp: on_chunk_list_Inr)
  moreover have "trace s' = trace s1"
    using trace_of_result [OF 2 trace_locate_and_compute] .
  ultimately show ?thesis
    using trace_access_dist_group [OF 3 assms(6)] by simp
qed

section \<open>When the group is gathered\<close>

lemma has_released_True:
  "has_released_chunk cl ids = Inr True
   \<Longrightarrow> \<exists>i\<in>set ids. map_option get_status (chunk_id_to_chunk_dict cl i) = Some RELEASED"
  by (induction ids) (auto split: option.splits if_splits)

lemma has_released_False:
  "has_released_chunk cl ids = Inr False
   \<Longrightarrow> \<forall>i\<in>set ids. map_option get_status (chunk_id_to_chunk_dict cl i) \<noteq> Some RELEASED"
  by (induction ids) (auto split: option.splits if_splits)

lemma fetch_remote_chunks_decides:
  "fetch_remote_chunks e ids local dev s = (Inr u, s')
   \<Longrightarrow> \<exists>b. has_released_chunk (chunk_list s) ids = Inr b"
  by (cases "has_released_chunk (chunk_list s) ids") (auto simp: fetch_remote_chunks_def)

lemma released_iff:
  assumes "has_released_chunk cl ids = Inr b"
  shows "(\<exists>i\<in>set ids. map_option get_status (chunk_id_to_chunk_dict cl i) = Some RELEASED) \<longleftrightarrow> b"
  using assms has_released_True [of cl ids] has_released_False [of cl ids]
  by (cases b) auto

lemma filter_gather_events [simp]:
  "filter is_all_gather (gather_events local ids) = [AllGather ids]"
  "filter is_allocation (map Unpin ids) = []"
  "AllGather ids \<in> set (gather_events local ids)"
proof -
  have "filter is_all_gather (remote_pins local ids) = []"
    by (induction ids) (simp_all add: remote_pins_def is_all_gather_def)
  moreover have "filter is_all_gather (map Unpin ids) = []"
    by (induction ids) (simp_all add: is_all_gather_def)
  ultimately show "filter is_all_gather (gather_events local ids) = [AllGather ids]"
    by (simp add: gather_events_def is_all_gather_def)
  show "filter is_allocation (map Unpin ids) = []"
    by (induction ids) (simp_all add: is_allocation_def)
  show "AllGather ids \<in> set (gather_events local ids)"
    by (simp add: gather_events_def)
qed

text \<open>Storage that does not exist is not brought into existence by making room, by a
  residency request for another chunk, by a pin or by the steps after residency.\<close>

lemma has_payload_evict: "\<not> has_payload cl i \<Longrightarrow> \<not> has_payload (evict cl v) i"
  by (auto simp: has_payload_def evict_def evict_chunk_def split: option.splits prod.splits if_splits)

lemma has_payload_make_room:
  "\<not> has_payload cl i \<Longrightarrow> \<not> has_payload (snd (make_room dev need vs cl)) i"
  by (induction vs arbitrary: cl) (simp_all add: has_payload_evict)

lemma has_payload_touch [simp]: "has_payload (touch j cl) i = has_payload cl i"
  by (auto simp: has_payload_def touch_def split: option.splits)

lemma has_payload_with_chunk_other:
  "i \<noteq> j \<Longrightarrow> has_payload (snd (with_chunk j m cl)) i = has_payload cl i"
  by (auto simp: has_payload_def with_chunk_def split: option.splits)

lemma has_payload_with_chunk_same:
  assumes "\<And>c. (payload (m c) = None) = (payload c = None)"
  shows "has_payload (snd (with_chunk j m cl)) i = has_payload cl i"
  by (cases "chunk_id_to_chunk_dict cl j") (simp_all add: has_payload_def with_chunk_def assms)

lemma has_payload_access_chunk:
  assumes "i \<noteq> cid" and "\<not> has_payload cl i"
  shows "\<not> has_payload (snd (access_chunk (Some cid) dev cl)) i"
proof (cases "chunk_id_to_chunk_dict cl cid")
  case None
  with assms show ?thesis by (simp add: access_chunk_Some)
next
  case (Some c)
  have room: "\<not> has_payload (snd (prepare_device d (get_chunk_space c) (touch cid cl))) i" for d
    using assms(2) by (simp add: prepare_device_def has_payload_make_room)
  have step: "\<not> has_payload (snd (then_do (prepare_device d (get_chunk_space c) (touch cid cl))
                                    (\<lambda>_. with_chunk cid m))) i" for m d
  proof (cases "prepare_device d (get_chunk_space c) (touch cid cl)")
    case (Pair r cl1)
    with room [of d] have "\<not> has_payload cl1 i" by simp
    with Pair assms(1) show ?thesis
      by (cases r) (simp_all add: has_payload_with_chunk_other)
  qed
  from Some assms(2) step show ?thesis
    by (auto simp: access_chunk_Some Let_def split: option.splits prod.splits)
qed

lemma has_payload_pin_chunk:
  "pin_chunk j s = (Inr u, s') \<Longrightarrow> has_payload (chunk_list s') i = has_payload (chunk_list s) i"
  using has_payload_with_chunk_same [of pin j "chunk_list s" i]
  by (auto simp: pin_chunk_Inr pin_def)

lemma has_payload_unpin_chunk:
  "unpin_chunk j s = (Inr u, s') \<Longrightarrow> has_payload (chunk_list s') i = has_payload (chunk_list s) i"
  using has_payload_with_chunk_same [of unpin j "chunk_list s" i]
  by (auto simp: unpin_chunk_Inr unpin_def)

lemma has_payload_locate_and_compute:
  assumes "locate_and_compute cid p atype s = (Inr v, s')"
  shows "has_payload (chunk_list s') i = has_payload (chunk_list s) i"
proof -
  have z: "has_payload (snd (zero_tensor w cl)) i = has_payload cl i" for w cl
    by (cases w)
       (auto simp: zero_tensor_def has_payload_def with_chunk_def split: option.splits)
  have u: "has_payload (snd (update_status cid old new cl)) i = has_payload cl i" for old new cl
    unfolding update_status_def
    by (rule has_payload_with_chunk_same) (simp add: update_status_chunk_def Let_def)
  from assms obtain a where a: "p_attr (params s p) = Some a"
    by (cases "p_attr (params s p)") (auto simp: locate_and_compute_def)
  from assms a obtain w where
      run: "then_do
       (if get_status_of a atype = FREE then on_chunk_list (zero_tensor w) (put_attr p (set_tensor w atype a) s)
        else (Inr (), put_attr p (set_tensor w atype a) s))
       (\<lambda>_ s2. then_do (on_chunk_list (update_status cid (get_status_of a atype) COMPUTE) s2)
          (\<lambda>_ s3. (Inr w, put_attr p (set_status COMPUTE atype (set_tensor w atype a)) s3))) = (Inr v, s')"
    by (cases "get_status_of a atype = FREE")
       (auto simp: locate_and_compute_def Let_def split: sum.splits if_splits)
  then obtain s2 cl3 where
      1: "(if get_status_of a atype = FREE then on_chunk_list (zero_tensor w) (put_attr p (set_tensor w atype a) s)
           else (Inr (), put_attr p (set_tensor w atype a) s)) = (Inr (), s2)"
      and 2: "update_status cid (get_status_of a atype) COMPUTE (chunk_list s2) = (Inr (), cl3)"
      and 3: "s' = put_attr p (set_status COMPUTE atype (set_tensor w atype a)) (s2\<lparr>chunk_list := cl3\<rparr>)"
    by (auto simp: then_do_eq_Inr on_chunk_list_Inr)
  from 1 have "has_payload (chunk_list s2) i = has_payload (chunk_list s) i"
    using z [of w "chunk_list s"]
    by (auto simp: on_chunk_list_Inr split: if_splits)
  moreover from 2 have "has_payload cl3 i = has_payload (chunk_list s2) i"
    using u [of "get_status_of a atype" COMPUTE "chunk_list s2"] by simp
  ultimately show ?thesis using 3 by simp
qed

lemma new_events_append [simp]: "trace s' = trace s @ t \<Longrightarrow> new_events s s' = t"
  by (simp add: new_events_def)

text \<open>C1: in a successful distributed access of a chunk-based tensor with more than one
  process, the all-gather is performed exactly when some chunk of the tensor's
  communication group has aggregate status \<^verbatim>\<open>RELEASED\<close> at the call, and then once. When no
  chunk of the group is released there is no all-gather, the fetch of the remote chunks
  returns the state it was given, the client allocates no payload, and no chunk other than
  the local chunk and the chunk of the requested tensor gains storage; so a further access
  to a tensor of a group without a released chunk gathers nothing.\<close>

theorem gather_iff_released:
  assumes ws: "1 < world_size e"
      and run: "access_dist e p atype dev s = (Inr v, s')"
      and a: "p_attr (params s p) = Some a" and cb: "param_type a = CHUNK_BASED"
      and chunk: "get_chunk_id (chunk_tensor_index s) a atype = Some cid"
      and group: "chunk_ids_of_comm_group (chunk_tensor_index s) (Some cid) = Inr ids"
  shows "length (filter is_all_gather (new_events s s'))
           = (if \<exists>i\<in>set ids. map_option get_status (chunk_id_to_chunk_dict (chunk_list s) i)
                                 = Some RELEASED
              then 1 else 0)
       \<and> ((\<exists>i\<in>set ids. map_option get_status (chunk_id_to_chunk_dict (chunk_list s) i)
                          = Some RELEASED)
            \<longrightarrow> AllGather ids \<in> set (new_events s s'))
       \<and> (\<not> (\<exists>i\<in>set ids. map_option get_status (chunk_id_to_chunk_dict (chunk_list s) i)
                            = Some RELEASED)
            \<longrightarrow> fetch_remote_chunks e ids (ids ! rank e) dev s = (Inr (), s)
              \<and> filter is_allocation (new_events s s') = []
              \<and> (\<forall>i. i \<noteq> ids ! rank e \<and> i \<noteq> cid \<and> \<not> has_payload (chunk_list s) i
                      \<longrightarrow> \<not> has_payload (chunk_list s') i))"
proof -
  let ?local = "ids ! rank e"
  let ?R = "\<exists>i\<in>set ids. map_option get_status (chunk_id_to_chunk_dict (chunk_list s) i)
                          = Some RELEASED"
  have ntb: "param_type a \<noteq> TORCH_BASED" using cb by simp
  from access_dist_Inr [OF run a ntb chunk] obtain s1 where
      1: "prepare_chunks e (Some cid) dev s = (Inr (), s1)"
      and 2: "locate_and_compute cid p atype s1 = (Inr v, s')"
    by blast
  from 1 ws obtain s0 where 3: "access_dist_group e (Some cid) dev s = (Inr (), s0)"
      and 4: "on_chunk_list (access_chunk (Some cid) dev) s0 = (Inr (), s1)"
    by (auto simp: prepare_chunks_def then_do_eq_Inr)
  from access_dist_group_Inr [OF 3 group] obtain t1 t2 t3 where
      g1: "on_chunk_list (access_chunk (Some ?local) dev) s = (Inr (), t1)"
      and g2: "pin_chunk ?local t1 = (Inr (), t2)"
      and g3: "fetch_remote_chunks e ids ?local dev t2 = (Inr (), t3)"
      and g4: "unpin_chunk ?local t3 = (Inr (), s0)"
      and g5: "has_released_chunk (chunk_list t2) ids = has_released_chunk (chunk_list s) ids"
    by blast
  from fetch_remote_chunks_decides [OF g3] g5 obtain b where
      b: "has_released_chunk (chunk_list s) ids = Inr b"
    by auto
  have R: "?R \<longleftrightarrow> b" by (rule released_iff [OF b])
  have tr: "new_events s s' = Pin ?local # (if b then gather_events ?local ids else [])
                                @ [Unpin ?local]"
    using trace_access_dist [OF run ws a ntb chunk group] b by (cases b) simp_all
  have count: "length (filter is_all_gather (new_events s s')) = (if ?R then 1 else 0)"
    unfolding tr R by (simp add: is_all_gather_def)
  have mem: "?R \<longrightarrow> AllGather ids \<in> set (new_events s s')"
    unfolding tr R by simp
  have none: "\<not> ?R \<longrightarrow> fetch_remote_chunks e ids ?local dev s = (Inr (), s)
              \<and> filter is_allocation (new_events s s') = []
              \<and> (\<forall>i. i \<noteq> ?local \<and> i \<noteq> cid \<and> \<not> has_payload (chunk_list s) i
                      \<longrightarrow> \<not> has_payload (chunk_list s') i)"
  proof (intro impI conjI allI)
    assume nr: "\<not> ?R"
    with R have "\<not> b" by blast
    with b have f: "has_released_chunk (chunk_list s) ids = Inr False" by simp
    show "fetch_remote_chunks e ids ?local dev s = (Inr (), s)"
      by (rule fetch_no_released [OF f])
    from nr R have "\<not> b" by blast
    then show "filter is_allocation (new_events s s') = []"
      unfolding tr by (simp add: is_allocation_def)
    fix i
    assume i: "i \<noteq> ?local \<and> i \<noteq> cid \<and> \<not> has_payload (chunk_list s) i"
    from g3 g5 f have t3: "t3 = t2" by (simp add: fetch_no_released)
    from g1 obtain cl1 where c1: "access_chunk (Some ?local) dev (chunk_list s) = (Inr (), cl1)"
        "chunk_list t1 = cl1"
      by (auto simp: on_chunk_list_Inr)
    have "\<not> has_payload (chunk_list t1) i"
      using has_payload_access_chunk [of i ?local "chunk_list s" dev] i c1 by simp
    then have "\<not> has_payload (chunk_list t2) i"
      using has_payload_pin_chunk [OF g2] by simp
    then have h0: "\<not> has_payload (chunk_list s0) i"
      using has_payload_unpin_chunk [OF g4] t3 by simp
    from 4 obtain cl2 where c2: "access_chunk (Some cid) dev (chunk_list s0) = (Inr (), cl2)"
        "chunk_list s1 = cl2"
      by (auto simp: on_chunk_list_Inr)
    have "\<not> has_payload (chunk_list s1) i"
      using has_payload_access_chunk [of i cid "chunk_list s0" dev] i h0 c2 by simp
    then show "\<not> has_payload (chunk_list s') i"
      using has_payload_locate_and_compute [OF 2] by simp
  qed
  from count mem none show ?thesis by blast
qed

theorem gather_iff_released_witness:
  "fst (access_dist env2 0 DATA (CUDA 0) ex_fresh) = Inr (View 0 0 2)
   \<and> length (filter is_all_gather
               (new_events ex_fresh (snd (access_dist env2 0 DATA (CUDA 0) ex_fresh)))) = 1
   \<and> fst (access_dist env2 1 DATA (CUDA 0) (snd (access_dist env2 0 DATA (CUDA 0) ex_fresh)))
       = Inr (View 1 0 2)
   \<and> length (filter is_all_gather
               (new_events (snd (access_dist env2 0 DATA (CUDA 0) ex_fresh))
                  (snd (access_dist env2 1 DATA (CUDA 0)
                          (snd (access_dist env2 0 DATA (CUDA 0) ex_fresh)))))) = 0"
proof -
  let ?s1 = "snd (access_dist env2 0 DATA (CUDA 0) ex_fresh)"
  let ?s2 = "snd (access_dist env2 1 DATA (CUDA 0) ?s1)"
  have ws: "1 < world_size env2" by (simp add: env2_def)
  have f1: "fst (access_dist env2 0 DATA (CUDA 0) ex_fresh) = Inr (View 0 0 2)"
    by code_simp
  have f2: "fst (access_dist env2 1 DATA (CUDA 0) ?s1) = Inr (View 1 0 2)"
    by code_simp
  have r1: "access_dist env2 0 DATA (CUDA 0) ex_fresh = (Inr (View 0 0 2), ?s1)"
    and r2: "access_dist env2 1 DATA (CUDA 0) ?s1 = (Inr (View 1 0 2), ?s2)"
    using f1 f2 by (simp_all add: prod_eq_iff)
  have a1: "p_attr (params ex_fresh 0) = Some (ex_attr 10 FREE)"
    by (simp add: ex_fresh_def ex_params_def)
  have a2: "p_attr (params ?s1 1) = Some (ex_attr 11 HOLD)"
    by code_simp
  have cb: "param_type (ex_attr 10 FREE) = CHUNK_BASED" "param_type (ex_attr 11 HOLD) = CHUNK_BASED"
    by (simp_all add: ex_attr_def)
  have ix: "chunk_tensor_index ex_fresh = ex_index" "chunk_tensor_index ?s1 = ex_index"
    by (simp_all add: ex_fresh_def)
  have c1: "get_chunk_id (chunk_tensor_index ex_fresh) (ex_attr 10 FREE) DATA = Some 0"
    and c2: "get_chunk_id (chunk_tensor_index ?s1) (ex_attr 11 HOLD) DATA = Some 1"
    unfolding ix by (simp_all add: ex_index_def ex_attr_def get_chunk_id_def get_tensor_id_def)
  have g1: "chunk_ids_of_comm_group (chunk_tensor_index ex_fresh) (Some 0) = Inr [0, 1]"
    and g2: "chunk_ids_of_comm_group (chunk_tensor_index ?s1) (Some 1) = Inr [0, 1]"
    unfolding ix by (simp_all add: ex_index_def chunk_ids_of_comm_group_def)
  have rel: "\<exists>i\<in>set [0, 1]. map_option get_status (chunk_id_to_chunk_dict (chunk_list ex_fresh) i)
                               = Some RELEASED"
    by (simp add: ex_fresh_def ex_chunk_list_def ex_chunk_def get_status_def)
  have "has_released_chunk (chunk_list ?s1) [0, 1] = Inr False"
    by code_simp
  then have nrel: "\<not> (\<exists>i\<in>set [0, 1]. map_option get_status (chunk_id_to_chunk_dict (chunk_list ?s1) i)
                                    = Some RELEASED)"
    using has_released_False [of "chunk_list ?s1" "[0, 1]"] by blast
  from gather_iff_released [OF ws r1 a1 cb(1) c1 g1] rel
  have n1: "length (filter is_all_gather (new_events ex_fresh ?s1)) = 1"
    by simp
  from gather_iff_released [OF ws r2 a2 cb(2) c2 g2] nrel
  have n2: "length (filter is_all_gather (new_events ?s1 ?s2)) = 0"
    by simp
  from f1 f2 n1 n2 show ?thesis by simp
qed

section \<open>Statuses after a gather\<close>

lemma slot_status_params: "params s' = params s \<Longrightarrow> slot_status s' info = slot_status s info"
  by (simp add: slot_status_def)

lemma slot_status_put_attr:
  assumes "p_attr (params s p) = Some a"
  shows "slot_status (put_attr p (set_status st atype a) s) info
           = (if info_param info = p \<and> info_access_type info = atype then Some st
              else slot_status s info)"
  using assms
  by (cases atype; cases "info_access_type info")
     (auto simp: slot_status_def put_attr_def set_status_def get_status_of_def)

lemma set_status_loop_Cons_Inr:
  assumes "set_status_loop cid st (info # infos) s = (Inr u, s')"
  shows "\<exists>a s1. p_attr (params s (info_param info)) = Some a
            \<and> on_chunk_list (update_status cid (get_status_of a (info_access_type info)) st) s
                = (Inr (), s1)
            \<and> set_status_loop cid st infos
                 (put_attr (info_param info) (set_status st (info_access_type info) a) s1)
                = (Inr u, s')"
  using assms
  by (cases "p_attr (params s (info_param info))") (auto simp: then_do_eq_Inr)

lemma set_status_loop_sets:
  "set_status_loop cid st infos s = (Inr u, s')
   \<Longrightarrow> (\<forall>info\<in>set infos. slot_status s' info = Some st)
       \<and> (\<forall>info. slot_status s info = Some st \<longrightarrow> slot_status s' info = Some st)"
proof (induction infos arbitrary: s)
  case Nil
  then show ?case by simp
next
  case (Cons info0 infos)
  from set_status_loop_Cons_Inr [OF Cons.prems] obtain a s1 where
      a: "p_attr (params s (info_param info0)) = Some a"
      and 1: "on_chunk_list (update_status cid (get_status_of a (info_access_type info0)) st) s
                = (Inr (), s1)"
      and 2: "set_status_loop cid st infos
                 (put_attr (info_param info0) (set_status st (info_access_type info0) a) s1)
                = (Inr u, s')"
    by blast
  let ?s2 = "put_attr (info_param info0) (set_status st (info_access_type info0) a) s1"
  from 1 have p1: "params s1 = params s" by (auto simp: on_chunk_list_Inr)
  with a have a1: "p_attr (params s1 (info_param info0)) = Some a" by simp
  have put: "slot_status ?s2 info
               = (if info_param info = info_param info0 \<and> info_access_type info = info_access_type info0
                  then Some st else slot_status s info)" for info
    using slot_status_put_attr [OF a1, of st "info_access_type info0" info]
          slot_status_params [OF p1, of info]
    by simp
  from Cons.IH [OF 2]
  have ih1: "\<forall>info\<in>set infos. slot_status s' info = Some st"
    and ih2: "\<forall>info. slot_status ?s2 info = Some st \<longrightarrow> slot_status s' info = Some st"
    by blast+
  have "slot_status ?s2 info0 = Some st" by (simp add: put)
  with ih2 have h0: "slot_status s' info0 = Some st" by blast
  have keep: "\<forall>info. slot_status s info = Some st \<longrightarrow> slot_status s' info = Some st"
  proof (intro allI impI)
    fix info assume "slot_status s info = Some st"
    then have "slot_status ?s2 info = Some st" by (simp add: put)
    with ih2 show "slot_status s' info = Some st" by blast
  qed
  from ih1 h0 keep show ?case by simp
qed

lemma params_unpin_loop [simp]: "params (snd (unpin_loop ids s)) = params s"
  by (induction ids arbitrary: s) simp_all

lemma params_all_gather [simp]: "params (snd (all_gather e ids s)) = params s"
  by (simp add: all_gather_def)

lemma params_allocate_remote:
  "allocate_remote i dev s = (Inr u, s') \<Longrightarrow> params s' = params s"
  by (auto simp: allocate_remote_Inr)

lemma params_of_result: "m = (r, s') \<Longrightarrow> params (snd m) = t \<Longrightarrow> params s' = t"
  by simp

lemma idx_of_result: "m = (r, s') \<Longrightarrow> chunk_tensor_index (snd m) = t \<Longrightarrow> chunk_tensor_index s' = t"
  by simp

lemma fetch_loop_holds:
  "fetch_loop local dev ids s = (Inr u, s')
   \<Longrightarrow> (\<forall>i\<in>set ids. \<forall>info\<in>set (generate_tensor_info_in_order (chunk_tensor_index s) i).
          slot_status s' info = Some HOLD)
       \<and> (\<forall>info. slot_status s info = Some HOLD \<longrightarrow> slot_status s' info = Some HOLD)"
proof (induction ids arbitrary: s)
  case Nil
  then show ?case by simp
next
  case (Cons i ids)
  from fetch_loop_Cons_Inr [OF Cons.prems] obtain s2 s3 where
      1: "(if i \<noteq> local then allocate_remote i dev s else (Inr (), s)) = (Inr (), s2)"
      and 2: "set_all_tensors_status_in_chunk i HOLD s2 = (Inr (), s3)"
      and 3: "fetch_loop local dev ids s3 = (Inr u, s')"
    by blast
  from 1 have p2: "params s2 = params s"
    by (auto simp: params_allocate_remote split: if_splits)
  from 1 have i2: "chunk_tensor_index s2 = chunk_tensor_index s"
    by (auto simp: allocate_remote_Inr split: if_splits)
  have i3: "chunk_tensor_index s3 = chunk_tensor_index s2"
    using idx_of_result [OF 2 idx_set_all] .
  from 2 have loop: "set_status_loop i HOLD (generate_tensor_info_in_order (chunk_tensor_index s) i) s2
                       = (Inr (), s3)"
    by (simp add: set_all_tensors_status_in_chunk_def i2)
  from set_status_loop_sets [OF loop]
  have l1: "\<forall>info\<in>set (generate_tensor_info_in_order (chunk_tensor_index s) i).
              slot_status s3 info = Some HOLD"
    and l2: "\<forall>info. slot_status s2 info = Some HOLD \<longrightarrow> slot_status s3 info = Some HOLD"
    by blast+
  from Cons.IH [OF 3] i3 i2
  have ih1: "\<forall>j\<in>set ids. \<forall>info\<in>set (generate_tensor_info_in_order (chunk_tensor_index s) j).
               slot_status s' info = Some HOLD"
    and ih2: "\<forall>info. slot_status s3 info = Some HOLD \<longrightarrow> slot_status s' info = Some HOLD"
    by simp_all
  have keep: "\<forall>info. slot_status s info = Some HOLD \<longrightarrow> slot_status s' info = Some HOLD"
    using l2 ih2 slot_status_params [OF p2] by simp
  from l1 ih1 ih2 keep show ?case by simp
qed

section \<open>Pins around the gather\<close>

lemma locate_and_compute_slot_status:
  assumes "locate_and_compute cid p atype s = (Inr v, s')"
  shows "slot_status s' info
           = (if info_param info = p \<and> info_access_type info = atype then Some COMPUTE
              else slot_status s info)"
proof -
  from assms obtain a where a: "p_attr (params s p) = Some a"
    by (cases "p_attr (params s p)") (auto simp: locate_and_compute_def)
  from assms a obtain w where
      run: "then_do
       (if get_status_of a atype = FREE then on_chunk_list (zero_tensor w) (put_attr p (set_tensor w atype a) s)
        else (Inr (), put_attr p (set_tensor w atype a) s))
       (\<lambda>_ s2. then_do (on_chunk_list (update_status cid (get_status_of a atype) COMPUTE) s2)
          (\<lambda>_ s3. (Inr w, put_attr p (set_status COMPUTE atype (set_tensor w atype a)) s3))) = (Inr v, s')"
    by (cases "get_status_of a atype = FREE")
       (auto simp: locate_and_compute_def Let_def split: sum.splits if_splits)
  then obtain s2 cl3 where
      1: "(if get_status_of a atype = FREE then on_chunk_list (zero_tensor w) (put_attr p (set_tensor w atype a) s)
           else (Inr (), put_attr p (set_tensor w atype a) s)) = (Inr (), s2)"
      and 3: "s' = put_attr p (set_status COMPUTE atype (set_tensor w atype a)) (s2\<lparr>chunk_list := cl3\<rparr>)"
    by (auto simp: then_do_eq_Inr on_chunk_list_Inr)
  from 1 have p2: "params s2 = params (put_attr p (set_tensor w atype a) s)"
    by (auto simp: on_chunk_list_Inr split: if_splits)
  have "params s' = (params s)(p := (params s p)\<lparr>p_attr :=
                       Some (set_status COMPUTE atype (set_tensor w atype a))\<rparr>)"
    unfolding 3 by (simp add: put_attr_def p2)
  with a show ?thesis
    by (cases atype; cases "info_access_type info")
       (auto simp: slot_status_def set_status_def set_tensor_def get_status_of_def)
qed

lemma concerns_simps [simp]:
  "concerns i (AllocatePayload j) \<longleftrightarrow> j = i"
  "concerns i (Pin j) \<longleftrightarrow> j = i"
  "concerns i (Unpin j) \<longleftrightarrow> j = i"
  "concerns i (AllGather js)"
  "\<not> concerns i (ReleasePayload j)"
  "\<not> concerns i (ReduceScatter js)"
  by (auto simp: concerns_def is_all_gather_def)

lemma filter_concerns_absent:
  "i \<notin> set ids \<Longrightarrow> filter (concerns i) (remote_pins local ids) = []
                    \<and> filter (concerns i) (map Unpin ids) = []"
  by (induction ids) (auto simp: remote_pins_def)

lemma filter_concerns_remote:
  "distinct ids \<Longrightarrow> i \<in> set ids \<Longrightarrow> i \<noteq> local
   \<Longrightarrow> filter (concerns i) (remote_pins local ids) = [AllocatePayload i, Pin i]
       \<and> filter (concerns i) (map Unpin ids) = [Unpin i]"
proof (induction ids)
  case Nil
  then show ?case by simp
next
  case (Cons j ids)
  show ?case
  proof (cases "i = j")
    case True
    with Cons.prems have "i \<notin> set ids" by simp
    from filter_concerns_absent [OF this, of local] True Cons.prems(3) show ?thesis
      by (simp add: remote_pins_def)
  next
    case False
    with Cons show ?thesis
      by (auto simp: remote_pins_def)
  qed
qed

text \<open>C3, as amended: in a successful distributed access that gathers, the first thing the
  client does to the group is to pin the local chunk; every remote chunk is allocated, then
  pinned, then unpinned, each exactly once, and all of that before the one all-gather of
  the call; after the call every tensor of every chunk of the group is at \<^verbatim>\<open>HOLD\<close>, except
  the requested tensor, which is at \<^verbatim>\<open>COMPUTE\<close>.\<close>

theorem gather_pin_discipline:
  assumes ws: "1 < world_size e"
      and run: "access_dist e p atype dev s = (Inr v, s')"
      and a: "p_attr (params s p) = Some a" and cb: "param_type a = CHUNK_BASED"
      and chunk: "get_chunk_id (chunk_tensor_index s) a atype = Some cid"
      and group: "chunk_ids_of_comm_group (chunk_tensor_index s) (Some cid) = Inr ids"
      and released: "\<exists>i\<in>set ids. map_option get_status (chunk_id_to_chunk_dict (chunk_list s) i)
                                    = Some RELEASED"
      and dist: "distinct ids"
  shows "hd (new_events s s') = Pin (ids ! rank e)
       \<and> (\<forall>i\<in>set ids. i \<noteq> ids ! rank e \<longrightarrow>
             filter (concerns i) (new_events s s')
               = [AllocatePayload i, Pin i, Unpin i, AllGather ids])
       \<and> (\<forall>i\<in>set ids. \<forall>info\<in>set (generate_tensor_info_in_order (chunk_tensor_index s) i).
             slot_status s' info
               = Some (if info_param info = p \<and> info_access_type info = atype then COMPUTE
                       else HOLD))"
proof -
  let ?local = "ids ! rank e"
  have ntb: "param_type a \<noteq> TORCH_BASED" using cb by simp
  from access_dist_Inr [OF run a ntb chunk] obtain s1 where
      1: "prepare_chunks e (Some cid) dev s = (Inr (), s1)"
      and 2: "locate_and_compute cid p atype s1 = (Inr v, s')"
    by blast
  from 1 ws obtain s0 where 3: "access_dist_group e (Some cid) dev s = (Inr (), s0)"
      and 4: "on_chunk_list (access_chunk (Some cid) dev) s0 = (Inr (), s1)"
    by (auto simp: prepare_chunks_def then_do_eq_Inr)
  from access_dist_group_Inr [OF 3 group] obtain t1 t2 t3 where
      g1: "on_chunk_list (access_chunk (Some ?local) dev) s = (Inr (), t1)"
      and g2: "pin_chunk ?local t1 = (Inr (), t2)"
      and g3: "fetch_remote_chunks e ids ?local dev t2 = (Inr (), t3)"
      and g4: "unpin_chunk ?local t3 = (Inr (), s0)"
      and g5: "has_released_chunk (chunk_list t2) ids = has_released_chunk (chunk_list s) ids"
    by blast
  from fetch_remote_chunks_decides [OF g3] g5 obtain b where
      b: "has_released_chunk (chunk_list s) ids = Inr b"
    by auto
  from released_iff [OF b] released have "b" by simp
  with b have rel: "has_released_chunk (chunk_list s) ids = Inr True" by simp
  have tr: "new_events s s' = Pin ?local # gather_events ?local ids @ [Unpin ?local]"
    using trace_access_dist [OF run ws a ntb chunk group] rel by simp
  have first: "hd (new_events s s') = Pin ?local"
    unfolding tr by simp
  have remote: "\<forall>i\<in>set ids. i \<noteq> ?local \<longrightarrow>
             filter (concerns i) (new_events s s') = [AllocatePayload i, Pin i, Unpin i, AllGather ids]"
  proof (intro ballI impI)
    fix i assume i: "i \<in> set ids" "i \<noteq> ?local"
    from filter_concerns_remote [OF dist i] i(2)
    show "filter (concerns i) (new_events s s') = [AllocatePayload i, Pin i, Unpin i, AllGather ids]"
      unfolding tr gather_events_def
      by simp
  qed
  from g3 g5 rel obtain u1 u2 u3 n where
      f1: "fetch_loop ?local dev ids t2 = (Inr (), u1)"
      and f2: "first_buffer_numel ids u1 = (Inr n, u2)"
      and f3: "unpin_loop ids u2 = (Inr (), u3)"
      and f4: "all_gather e ids u3 = (Inr (), t3)"
    by (auto simp: fetch_remote_chunks_def then_do_eq_Inr split: if_splits)
  have it2: "chunk_tensor_index t2 = chunk_tensor_index s"
    using g1 g2 by (auto simp: on_chunk_list_Inr pin_chunk_Inr)
  from fetch_loop_holds [OF f1] it2
  have h1: "\<forall>i\<in>set ids. \<forall>info\<in>set (generate_tensor_info_in_order (chunk_tensor_index s) i).
              slot_status u1 info = Some HOLD"
    by simp
  from f2 have "u2 = u1" using idx_first_buffer_numel [of ids u1] by simp
  moreover have "params u3 = params u2" using params_of_result [OF f3 params_unpin_loop] .
  moreover have "params t3 = params u3" using params_of_result [OF f4 params_all_gather] .
  moreover from g4 have "params s0 = params t3" by (auto simp: unpin_chunk_Inr)
  moreover from 4 have "params s1 = params s0" by (auto simp: on_chunk_list_Inr)
  ultimately have "params s1 = params u1" by simp
  with h1 have hold: "\<forall>i\<in>set ids. \<forall>info\<in>set (generate_tensor_info_in_order (chunk_tensor_index s) i).
              slot_status s1 info = Some HOLD"
    by (simp add: slot_status_def)
  have statuses: "\<forall>i\<in>set ids. \<forall>info\<in>set (generate_tensor_info_in_order (chunk_tensor_index s) i).
             slot_status s' info
               = Some (if info_param info = p \<and> info_access_type info = atype then COMPUTE else HOLD)"
    using hold by (simp add: locate_and_compute_slot_status [OF 2])
  from first remote statuses show ?thesis by blast
qed

theorem gather_pin_discipline_witness:
  "fst (access_dist env2 0 DATA (CUDA 0) ex_fresh) = Inr (View 0 0 2)
   \<and> hd (new_events ex_fresh (snd (access_dist env2 0 DATA (CUDA 0) ex_fresh))) = Pin 0
   \<and> filter (concerns 1) (new_events ex_fresh (snd (access_dist env2 0 DATA (CUDA 0) ex_fresh)))
       = [AllocatePayload 1, Pin 1, Unpin 1, AllGather [0, 1]]
   \<and> slot_status (snd (access_dist env2 0 DATA (CUDA 0) ex_fresh))
        \<lparr>info_chunk_id = 0, info_tensor_id = 10, start_offset = 0, info_numel = 2,
         info_param = 0, info_access_type = DATA\<rparr> = Some COMPUTE
   \<and> slot_status (snd (access_dist env2 0 DATA (CUDA 0) ex_fresh))
        \<lparr>info_chunk_id = 1, info_tensor_id = 11, start_offset = 0, info_numel = 2,
         info_param = 1, info_access_type = DATA\<rparr> = Some HOLD"
proof -
  let ?s1 = "snd (access_dist env2 0 DATA (CUDA 0) ex_fresh)"
  have ws: "1 < world_size env2" "rank env2 = 0" by (simp_all add: env2_def)
  have f1: "fst (access_dist env2 0 DATA (CUDA 0) ex_fresh) = Inr (View 0 0 2)"
    by code_simp
  then have r1: "access_dist env2 0 DATA (CUDA 0) ex_fresh = (Inr (View 0 0 2), ?s1)"
    by (simp add: prod_eq_iff)
  have a1: "p_attr (params ex_fresh 0) = Some (ex_attr 10 FREE)"
    by (simp add: ex_fresh_def ex_params_def)
  have cb: "param_type (ex_attr 10 FREE) = CHUNK_BASED"
    by (simp add: ex_attr_def)
  have ix: "chunk_tensor_index ex_fresh = ex_index"
    by (simp add: ex_fresh_def)
  have c1: "get_chunk_id (chunk_tensor_index ex_fresh) (ex_attr 10 FREE) DATA = Some 0"
    unfolding ix by (simp add: ex_index_def ex_attr_def get_chunk_id_def get_tensor_id_def)
  have g1: "chunk_ids_of_comm_group (chunk_tensor_index ex_fresh) (Some 0) = Inr [0, 1]"
    unfolding ix by (simp add: ex_index_def chunk_ids_of_comm_group_def)
  have rel: "\<exists>i\<in>set [0, 1]. map_option get_status (chunk_id_to_chunk_dict (chunk_list ex_fresh) i)
                               = Some RELEASED"
    by (simp add: ex_fresh_def ex_chunk_list_def ex_chunk_def get_status_def)
  have d: "distinct [0, 1::nat]" by simp
  have infos: "generate_tensor_info_in_order ex_index 0
                 = [\<lparr>info_chunk_id = 0, info_tensor_id = 10, start_offset = 0, info_numel = 2,
                      info_param = 0, info_access_type = DATA\<rparr>]"
              "generate_tensor_info_in_order ex_index 1
                 = [\<lparr>info_chunk_id = 1, info_tensor_id = 11, start_offset = 0, info_numel = 2,
                      info_param = 1, info_access_type = DATA\<rparr>]"
    by (simp_all add: generate_tensor_info_in_order_def ex_index_def List.map_filter_simps)
  from gather_pin_discipline [OF ws(1) r1 a1 cb c1 g1 rel d] f1 ws(2) infos
  show ?thesis
    by (simp add: ix)
qed

theorem gather_unpins_before_collective_counterexample:
  "fst (access_dist env2 0 DATA (CUDA 0) ex_fresh) = Inr (View 0 0 2)
   \<and> new_events ex_fresh (snd (access_dist env2 0 DATA (CUDA 0) ex_fresh))
       = [Pin 0, AllocatePayload 1, Pin 1, Unpin 0, Unpin 1, AllGather [0, 1], Unpin 0]
   \<and> count_list (new_events ex_fresh (snd (access_dist env2 0 DATA (CUDA 0) ex_fresh))) (Pin 0) = 1
   \<and> count_list (new_events ex_fresh (snd (access_dist env2 0 DATA (CUDA 0) ex_fresh))) (Unpin 0) = 2
   \<and> map_option pin_count
        (chunk_id_to_chunk_dict (chunk_list (snd (access_dist env2 0 DATA (CUDA 0) ex_fresh))) 0)
       = Some (- 1)
   \<and> map_option pin_count (chunk_id_to_chunk_dict (chunk_list ex_fresh) 0) = Some 0"
proof -
  have 1: "fst (access_dist env2 0 DATA (CUDA 0) ex_fresh) = Inr (View 0 0 2)"
    by code_simp
  have 2: "new_events ex_fresh (snd (access_dist env2 0 DATA (CUDA 0) ex_fresh))
       = [Pin 0, AllocatePayload 1, Pin 1, Unpin 0, Unpin 1, AllGather [0, 1], Unpin 0]"
    by code_simp
  have 3: "map_option pin_count
        (chunk_id_to_chunk_dict (chunk_list (snd (access_dist env2 0 DATA (CUDA 0) ex_fresh))) 0)
       = Some (- 1)"
    by code_simp
  have 4: "map_option pin_count (chunk_id_to_chunk_dict (chunk_list ex_fresh) 0) = Some 0"
    by (simp add: ex_fresh_def ex_chunk_list_def ex_chunk_def)
  show ?thesis
    unfolding 2 using 1 3 4 by simp
qed

section \<open>Distributed release\<close>

lemma release_dist_Inr:
  assumes "release_dist e p atype st stage reduce s = (Inr u, s')"
      and "p_attr (params s p) = Some a" and "param_type a \<noteq> TORCH_BASED"
      and "get_chunk_id (chunk_tensor_index s) a atype = Some cid"
      and "chunk_ids_of_comm_group (chunk_tensor_index s) (Some cid) = Inr ids"
  shows "(stage = FWD \<or> stage = BWD) \<and> dist_initialized e \<and> rank e < length ids
       \<and> (\<exists>s2. release p atype st s = (Inr (), s2)
              \<and> (if 1 < world_size e
                  then release_dist_group e (ids ! rank e) ids stage reduce s2
                  else (Inr (), s2)) = (Inr u, s'))"
proof -
  from assms have pre: "(stage = FWD \<or> stage = BWD)" "dist_initialized e" "rank e < length ids"
    by (auto simp: release_dist_def split: if_splits)
  with assms obtain s1 where
      1: "on_chunk_list (update_status cid (get_status_of a atype) st) s = (Inr (), s1)"
      and 2: "(if 1 < world_size e
               then release_dist_group e (ids ! rank e) ids stage reduce
                      (detach p atype (put_attr p (set_status st atype a) s1))
               else (Inr (), detach p atype (put_attr p (set_status st atype a) s1))) = (Inr u, s')"
    by (auto simp: release_dist_def Let_def then_do_eq_Inr split: if_splits)
  from 1 assms(2,3,4)
  have "release p atype st s = (Inr (), detach p atype (put_attr p (set_status st atype a) s1))"
    by (simp add: release_def)
  with pre 2 show ?thesis by blast
qed

lemma all_chunks_ready_iff:
  "all_chunks_ready cl stage ids = Inr b \<Longrightarrow> stage \<noteq> OTHER_STAGE
   \<Longrightarrow> b \<longleftrightarrow> (\<forall>i\<in>set ids. chunk_ready cl stage i)"
proof (induction ids arbitrary: b)
  case Nil
  then show ?case by auto
next
  case (Cons i ids)
  from Cons.prems(1) obtain c b' where c: "chunk_id_to_chunk_dict cl i = Some c"
      and r: "all_chunks_ready cl stage ids = Inr b'"
    by (auto split: option.splits sum.splits)
  from Cons.IH [OF r Cons.prems(2)] have ih: "b' \<longleftrightarrow> (\<forall>i\<in>set ids. chunk_ready cl stage i)" .
  from Cons.prems c r have "b \<longleftrightarrow> chunk_ready cl stage i \<and> b'"
    by (cases stage) (auto simp: chunk_ready_def hold_status_def)
  with ih show ?case by auto
qed

lemma release_chunk_Inr:
  "release_chunk i s = (Inr u, s') \<longleftrightarrow>
     (\<exists>cl'. with_chunk i release_payload (chunk_list s) = (Inr (), cl')
            \<and> s' = s\<lparr>chunk_list := cl', trace := trace s @ [ReleasePayload i]\<rparr>)"
  by (auto simp: release_chunk_def then_do_eq_Inr on_chunk_list_Inr log_event_def)

lemma collapse_loop_Cons_Inr:
  assumes "collapse_loop local (i # ids) s = (Inr u, s')"
  shows "\<exists>s1 s2. unpin_chunk i s = (Inr (), s1)
            \<and> (if i \<noteq> local
                then then_do (release_chunk i s1) (\<lambda>_. set_all_tensors_status_in_chunk i FREE)
                else (Inr (), s1)) = (Inr (), s2)
            \<and> collapse_loop local ids s2 = (Inr u, s')"
  using assms by (auto simp: then_do_eq_Inr)

lemma content_with_chunk_keep:
  assumes "\<And>c. payload (m c) = payload c"
  shows "content_of (snd (with_chunk j m cl)) i = content_of cl i"
  by (cases "chunk_id_to_chunk_dict cl j") (simp_all add: content_of_def with_chunk_def assms)

lemma content_with_chunk_other:
  "i \<noteq> j \<Longrightarrow> content_of (snd (with_chunk j m cl)) i = content_of cl i"
  by (cases "chunk_id_to_chunk_dict cl j") (simp_all add: content_of_def with_chunk_def)

lemma content_unpin_chunk:
  "unpin_chunk j s = (Inr u, s') \<Longrightarrow> content_of (chunk_list s') i = content_of (chunk_list s) i"
  using content_with_chunk_keep [of unpin j "chunk_list s" i]
  by (auto simp: unpin_chunk_Inr unpin_def)

lemma content_pin_chunk:
  "pin_chunk j s = (Inr u, s') \<Longrightarrow> content_of (chunk_list s') i = content_of (chunk_list s) i"
  using content_with_chunk_keep [of pin j "chunk_list s" i]
  by (auto simp: pin_chunk_Inr pin_def)

lemma content_release_chunk:
  "release_chunk j s = (Inr u, s')
   \<Longrightarrow> content_of (chunk_list s') i = (if i = j then None else content_of (chunk_list s) i)"
  by (auto simp: release_chunk_Inr content_of_def release_payload_def dest!: with_chunk_Inr)

lemma content_update_status [simp]:
  "content_of (snd (update_status cid old new cl)) i = content_of cl i"
  unfolding update_status_def
  by (rule content_with_chunk_keep) (simp add: update_status_chunk_def Let_def)

lemma content_on_update_status [simp]:
  "content_of (chunk_list (snd (on_chunk_list (update_status cid old new) s))) i
     = content_of (chunk_list s) i"
  by (simp add: on_chunk_list_def split: prod.splits)
     (metis content_update_status snd_conv)

lemma content_put_attr [simp]: "content_of (chunk_list (put_attr p a s)) i = content_of (chunk_list s) i"
  by simp

lemma content_set_status_loop [simp]:
  "content_of (chunk_list (snd (set_status_loop cid st infos s))) i = content_of (chunk_list s) i"
proof (induction infos arbitrary: s)
  case Nil
  show ?case by simp
next
  case (Cons info infos)
  show ?case
  proof (cases "p_attr (params s (info_param info))")
    case None
    then show ?thesis by simp
  next
    case (Some a)
    obtain r s1 where r: "on_chunk_list (update_status cid (get_status_of a (info_access_type info)) st) s
                          = (r, s1)"
      by (cases "on_chunk_list (update_status cid (get_status_of a (info_access_type info)) st) s")
    have c1: "content_of (chunk_list s1) i = content_of (chunk_list s) i"
      using content_on_update_status [of cid "get_status_of a (info_access_type info)" st s i] r
      by simp
    from Some r c1 show ?thesis
      by (cases r) (simp_all add: Cons.IH)
  qed
qed

lemma content_set_all [simp]:
  "content_of (chunk_list (snd (set_all_tensors_status_in_chunk cid st s))) i
     = content_of (chunk_list s) i"
  by (simp add: set_all_tensors_status_in_chunk_def)

lemma collapse_step_Inr:
  assumes "(if i \<noteq> local
            then then_do (release_chunk i s1) (\<lambda>_. set_all_tensors_status_in_chunk i FREE)
            else (Inr (), s1)) = (Inr (), s2)"
  shows "(\<forall>j. content_of (chunk_list s2) j
               = (if j = i \<and> i \<noteq> local then None else content_of (chunk_list s1) j))
       \<and> trace s2 = trace s1 @ (if i \<noteq> local then [ReleasePayload i] else [])
       \<and> chunk_tensor_index s2 = chunk_tensor_index s1
       \<and> (i \<noteq> local \<longrightarrow>
            (\<forall>info\<in>set (generate_tensor_info_in_order (chunk_tensor_index s1) i).
               slot_status s2 info = Some FREE))
       \<and> (\<forall>info. slot_status s1 info = Some FREE \<longrightarrow> slot_status s2 info = Some FREE)"
proof (cases "i = local")
  case True
  with assms show ?thesis by simp
next
  case False
  with assms obtain t where 1: "release_chunk i s1 = (Inr (), t)"
      and 2: "set_all_tensors_status_in_chunk i FREE t = (Inr (), s2)"
    by (auto simp: then_do_eq_Inr)
  from 1 have t: "params t = params s1" "chunk_tensor_index t = chunk_tensor_index s1"
      "trace t = trace s1 @ [ReleasePayload i]"
    by (auto simp: release_chunk_Inr)
  have c2: "content_of (chunk_list s2) j = content_of (chunk_list t) j" for j
    using content_set_all [of i FREE t j] 2 by simp
  have tr2: "trace s2 = trace t" using trace_of_result [OF 2 trace_set_all] .
  have i2: "chunk_tensor_index s2 = chunk_tensor_index t" using idx_of_result [OF 2 idx_set_all] .
  from 2 have loop: "set_status_loop i FREE (generate_tensor_info_in_order (chunk_tensor_index s1) i) t
                       = (Inr (), s2)"
    by (simp add: set_all_tensors_status_in_chunk_def t)
  from set_status_loop_sets [OF loop] slot_status_params [OF t(1)]
  have st: "\<forall>info\<in>set (generate_tensor_info_in_order (chunk_tensor_index s1) i).
              slot_status s2 info = Some FREE"
      "\<forall>info. slot_status s1 info = Some FREE \<longrightarrow> slot_status s2 info = Some FREE"
    by simp_all
  from False c2 content_release_chunk [OF 1] tr2 t i2 st show ?thesis
    by simp
qed

lemma collapse_loop_result:
  "collapse_loop local ids s = (Inr u, s')
   \<Longrightarrow> trace s' = trace s @ collapse_events local ids
       \<and> chunk_tensor_index s' = chunk_tensor_index s
       \<and> (\<forall>j. content_of (chunk_list s') j
                = (if j \<in> set ids \<and> j \<noteq> local then None else content_of (chunk_list s) j))
       \<and> (\<forall>i\<in>set ids. i \<noteq> local \<longrightarrow>
            (\<forall>info\<in>set (generate_tensor_info_in_order (chunk_tensor_index s) i).
               slot_status s' info = Some FREE))
       \<and> (\<forall>info. slot_status s info = Some FREE \<longrightarrow> slot_status s' info = Some FREE)"
proof (induction ids arbitrary: s)
  case Nil
  then show ?case by (simp add: collapse_events_def)
next
  case (Cons i ids)
  from collapse_loop_Cons_Inr [OF Cons.prems] obtain s1 s2 where
      1: "unpin_chunk i s = (Inr (), s1)"
      and 2: "(if i \<noteq> local
               then then_do (release_chunk i s1) (\<lambda>_. set_all_tensors_status_in_chunk i FREE)
               else (Inr (), s1)) = (Inr (), s2)"
      and 3: "collapse_loop local ids s2 = (Inr u, s')"
    by blast
  from 1 have u1: "params s1 = params s" "chunk_tensor_index s1 = chunk_tensor_index s"
      "trace s1 = trace s @ [Unpin i]"
    by (auto simp: unpin_chunk_Inr)
  have c1: "content_of (chunk_list s1) j = content_of (chunk_list s) j" for j
    by (rule content_unpin_chunk [OF 1])
  note step = collapse_step_Inr [OF 2]
  note ih = Cons.IH [OF 3]
  have tr: "trace s' = trace s @ collapse_events local (i # ids)"
    using ih step u1 by (simp add: collapse_events_def)
  have ix: "chunk_tensor_index s' = chunk_tensor_index s"
    using ih step u1 by simp
  have ct: "\<forall>j. content_of (chunk_list s') j
                = (if j \<in> set (i # ids) \<and> j \<noteq> local then None else content_of (chunk_list s) j)"
    using ih step c1 by auto
  have free_keep: "\<forall>info. slot_status s info = Some FREE \<longrightarrow> slot_status s' info = Some FREE"
    using ih step slot_status_params [OF u1(1)] by simp
  have fr: "\<forall>k\<in>set (i # ids). k \<noteq> local \<longrightarrow>
            (\<forall>info\<in>set (generate_tensor_info_in_order (chunk_tensor_index s) k).
               slot_status s' info = Some FREE)"
    using ih step u1 by auto
  from tr ix ct fr free_keep show ?case by blast
qed

lemma cl_frame_get_status:
  "cl_frame cl cl' \<Longrightarrow> map_option get_status (chunk_id_to_chunk_dict cl' i)
                        = map_option get_status (chunk_id_to_chunk_dict cl i)"
  unfolding cl_frame_def
  by (cases "chunk_id_to_chunk_dict cl i"; cases "chunk_id_to_chunk_dict cl' i")
     (auto simp: chunk_frame_get_status dest: spec [of _ i])

text \<open>A chunk that is not released keeps what its payload holds through every eviction.\<close>

lemma content_evict:
  assumes "content_of cl i = Some xs"
      and "map_option get_status (chunk_id_to_chunk_dict cl i) \<noteq> Some RELEASED"
  shows "content_of (evict cl v) i = Some xs"
  using assms
  by (cases "chunk_id_to_chunk_dict cl v")
     (auto simp: content_of_def evict_def evict_chunk_def split: option.splits prod.splits)

lemma content_make_room:
  assumes "content_of cl i = Some xs"
      and "map_option get_status (chunk_id_to_chunk_dict cl i) \<noteq> Some RELEASED"
  shows "content_of (snd (make_room dev need vs cl)) i = Some xs"
  using assms
proof (induction vs arbitrary: cl)
  case Nil
  then show ?case by simp
next
  case (Cons v vs)
  have "content_of (evict cl v) i = Some xs"
    using content_evict [OF Cons.prems] .
  moreover have "map_option get_status (chunk_id_to_chunk_dict (evict cl v) i) \<noteq> Some RELEASED"
    using cl_frame_get_status [OF cl_frame_evict, of cl v i] Cons.prems(2) by simp
  ultimately have "content_of (snd (make_room dev need vs (evict cl v))) i = Some xs"
    by (rule Cons.IH)
  with Cons.prems show ?case by simp
qed

lemma content_touch [simp]: "content_of (touch j cl) i = content_of cl i"
  by (auto simp: content_of_def touch_def split: option.splits)

lemma get_status_touch [simp]:
  "map_option get_status (chunk_id_to_chunk_dict (touch j cl) i)
     = map_option get_status (chunk_id_to_chunk_dict cl i)"
  by (rule cl_frame_get_status) simp

lemma content_access_chunk:
  assumes run: "access_chunk (Some cid) dev cl = (Inr u, cl')"
      and c: "content_of cl i = Some xs"
      and st: "map_option get_status (chunk_id_to_chunk_dict cl i) \<noteq> Some RELEASED"
  shows "content_of cl' i = Some xs"
proof (cases "i = cid")
  case True
  from c True obtain ch d where ch: "chunk_id_to_chunk_dict cl cid = Some ch" "payload ch = Some (d, xs)"
    by (auto simp: content_of_def split: option.splits)
  from access_chunk_content [OF run ch] True show ?thesis
    by (auto simp: content_of_def)
next
  case False
  from run obtain ch where ch: "chunk_id_to_chunk_dict cl cid = Some ch"
    by (cases "chunk_id_to_chunk_dict cl cid") (auto simp: access_chunk_Some)
  have t1: "content_of (touch cid cl) i = Some xs"
    using c by simp
  have t2: "map_option get_status (chunk_id_to_chunk_dict (touch cid cl) i) \<noteq> Some RELEASED"
    using st by (simp only: get_status_touch) simp
  have room: "content_of (snd (prepare_device d (get_chunk_space ch) (touch cid cl))) i = Some xs"
    for d
    unfolding prepare_device_def
    by (rule content_make_room [OF t1 t2])
  have step: "then_do (prepare_device d (get_chunk_space ch) (touch cid cl))
                (\<lambda>_. with_chunk cid m) = (Inr u, cl') \<Longrightarrow> content_of cl' i = Some xs" for m d
  proof -
    assume "then_do (prepare_device d (get_chunk_space ch) (touch cid cl))
              (\<lambda>_. with_chunk cid m) = (Inr u, cl')"
    then obtain cl1 where 1: "prepare_device d (get_chunk_space ch) (touch cid cl) = (Inr (), cl1)"
        and 2: "with_chunk cid m cl1 = (Inr u, cl')"
      by (auto simp: then_do_eq_Inr)
    from room [of d] 1 have "content_of cl1 i = Some xs" by simp
    with content_with_chunk_other [OF False, of m cl1] 2 show ?thesis by simp
  qed
  from run ch
  have "cl' = touch cid cl
        \<or> (\<exists>m d. then_do (prepare_device d (get_chunk_space ch) (touch cid cl))
                    (\<lambda>_. with_chunk cid m) = (Inr u, cl'))"
    by (auto simp: access_chunk_Some Let_def split: option.splits prod.splits if_splits)
  then show ?thesis
    using t1 step by blast
qed

lemma get_status_access_chunk:
  "access_chunk (Some cid) dev cl = (r, cl')
   \<Longrightarrow> map_option get_status (chunk_id_to_chunk_dict cl' i)
       = map_option get_status (chunk_id_to_chunk_dict cl i)"
  using cl_frame_get_status [OF cl_frame_access_chunk, of cid dev cl i] by simp

lemma get_status_pin_chunk:
  "pin_chunk j s = (Inr u, s')
   \<Longrightarrow> map_option get_status (chunk_id_to_chunk_dict (chunk_list s') i)
       = map_option get_status (chunk_id_to_chunk_dict (chunk_list s) i)"
  by (auto simp: pin_chunk_Inr dest!: with_chunk_Inr)

lemma reduce_inputs_loop_Cons_Inr:
  assumes "reduce_inputs_loop (i # ids) s = (Inr u, s')"
  shows "\<exists>cl1 s2. access_chunk (Some i) (CUDA (local_rank s)) (chunk_list s) = (Inr (), cl1)
            \<and> pin_chunk i (s\<lparr>chunk_list := cl1\<rparr>) = (Inr (), s2)
            \<and> reduce_inputs_loop ids s2 = (Inr u, s')"
  using assms by (auto simp: then_do_eq_Inr on_chunk_list_Inr)

lemma reduce_inputs_loop_result:
  "reduce_inputs_loop ids s = (Inr u, s')
   \<Longrightarrow> trace s' = trace s @ map Pin ids
       \<and> params s' = params s
       \<and> chunk_tensor_index s' = chunk_tensor_index s
       \<and> (\<forall>i xs. content_of (chunk_list s) i = Some xs
              \<and> map_option get_status (chunk_id_to_chunk_dict (chunk_list s) i) \<noteq> Some RELEASED
              \<longrightarrow> content_of (chunk_list s') i = Some xs)"
proof (induction ids arbitrary: s)
  case Nil
  then show ?case by simp
next
  case (Cons j ids)
  from reduce_inputs_loop_Cons_Inr [OF Cons.prems] obtain cl1 s2 where
      1: "access_chunk (Some j) (CUDA (local_rank s)) (chunk_list s) = (Inr (), cl1)"
      and 2: "pin_chunk j (s\<lparr>chunk_list := cl1\<rparr>) = (Inr (), s2)"
      and 3: "reduce_inputs_loop ids s2 = (Inr u, s')"
    by blast
  from 2 have s2: "trace s2 = trace s @ [Pin j]" "params s2 = params s"
      "chunk_tensor_index s2 = chunk_tensor_index s"
    by (auto simp: pin_chunk_Inr)
  note ih = Cons.IH [OF 3]
  have keep: "\<forall>i xs. content_of (chunk_list s) i = Some xs
              \<and> map_option get_status (chunk_id_to_chunk_dict (chunk_list s) i) \<noteq> Some RELEASED
              \<longrightarrow> content_of (chunk_list s') i = Some xs"
  proof (intro allI impI)
    fix i xs
    assume h: "content_of (chunk_list s) i = Some xs
              \<and> map_option get_status (chunk_id_to_chunk_dict (chunk_list s) i) \<noteq> Some RELEASED"
    then have "content_of cl1 i = Some xs"
      using content_access_chunk [OF 1, of i xs] by simp
    then have c2: "content_of (chunk_list s2) i = Some xs"
      using content_pin_chunk [OF 2, of i] by simp
    have "map_option get_status (chunk_id_to_chunk_dict (chunk_list s2) i) \<noteq> Some RELEASED"
      using get_status_pin_chunk [OF 2, of i] get_status_access_chunk [OF 1, of i] h by simp
    with c2 ih show "content_of (chunk_list s') i = Some xs" by blast
  qed
  from ih s2 keep show ?case by simp
qed

lemma content_map_payload:
  "with_chunk j (map_payload f) cl = (Inr u, cl')
   \<Longrightarrow> content_of cl' i = (if i = j then map_option f (content_of cl j) else content_of cl i)"
  by (auto simp: content_of_def map_payload_def option.map_comp comp_def case_prod_unfold
        dest!: with_chunk_Inr)

lemma has_payload_content: "has_payload cl i \<longleftrightarrow> content_of cl i \<noteq> None"
  by (auto simp: has_payload_def content_of_def split: option.splits)

lemma reduce_step_result:
  assumes run: "reduce_step e local ids s = (Inr u, s')" and mem: "local \<in> set ids"
  shows "trace s' = trace s @ map Pin ids @ [ReduceScatter ids]
       \<and> params s' = params s
       \<and> chunk_tensor_index s' = chunk_tensor_index s
       \<and> length ids = world_size e
       \<and> (\<exists>xs. content_of (chunk_list (snd (reduce_inputs_loop ids s))) local = Some xs
              \<and> content_of (chunk_list s') local
                  = Some (map (\<lambda>x. x / real (world_size e)) (reduce_sum e xs)))
       \<and> (\<forall>i. i \<noteq> local \<longrightarrow> content_of (chunk_list s') i
                 = content_of (chunk_list (snd (reduce_inputs_loop ids s))) i)"
proof -
  from run obtain s1 s2 where
      1: "reduce_inputs_loop ids s = (Inr (), s1)"
      and 2: "reduce_scatter e local ids s1 = (Inr (), s2)"
      and 3: "on_chunk_list (with_chunk local (map_payload (map (\<lambda>x. x / real (world_size e))))) s2
                = (Inr u, s')"
    by (auto simp: reduce_step_def then_do_eq_Inr split: if_splits)
  from 2 have len: "length ids = world_size e" and all: "list_all (has_payload (chunk_list s1)) ids"
    by (auto simp: reduce_scatter_def split: if_splits)
  from 2 len all obtain cl2 where
      r: "with_chunk local (map_payload (reduce_sum e)) (chunk_list s1) = (Inr (), cl2)"
      and s2: "s2 = s1\<lparr>trace := trace s1 @ [ReduceScatter ids], chunk_list := cl2\<rparr>"
    by (auto simp: reduce_scatter_def then_do_eq_Inr on_chunk_list_Inr log_event_def)
  from 3 obtain cl3 where
      d: "with_chunk local (map_payload (map (\<lambda>x. x / real (world_size e)))) (chunk_list s2)
            = (Inr u, cl3)"
      and s': "s' = s2\<lparr>chunk_list := cl3\<rparr>"
    by (auto simp: on_chunk_list_Inr)
  from all mem have "has_payload (chunk_list s1) local"
    by (simp add: list_all_iff)
  then obtain xs where xs: "content_of (chunk_list s1) local = Some xs"
    by (auto simp: has_payload_content)
  have c2: "content_of cl2 i = (if i = local then Some (reduce_sum e xs) else content_of (chunk_list s1) i)" for i
    using content_map_payload [OF r, of i] xs by simp
  have c3: "content_of cl3 i
              = (if i = local then Some (map (\<lambda>x. x / real (world_size e)) (reduce_sum e xs))
                 else content_of (chunk_list s1) i)" for i
    using content_map_payload [OF d, of i] c2 s2 by simp
  from reduce_inputs_loop_result [OF 1] 1 s2 s' c3 xs len show ?thesis
    by simp
qed

lemma release_Inr_frame:
  assumes "release p atype st s = (Inr u, s')"
      and "p_attr (params s p) = Some a" and "param_type a \<noteq> TORCH_BASED"
      and "get_chunk_id (chunk_tensor_index s) a atype = Some cid"
  shows "trace s' = trace s \<and> chunk_tensor_index s' = chunk_tensor_index s
       \<and> (\<forall>i. content_of (chunk_list s') i = content_of (chunk_list s) i)"
proof -
  from assms obtain s1 where
      1: "on_chunk_list (update_status cid (get_status_of a atype) st) s = (Inr (), s1)"
      and 2: "s' = detach p atype (put_attr p (set_status st atype a) s1)"
    by (auto simp: release_def then_do_eq_Inr)
  have c: "content_of (chunk_list s1) i = content_of (chunk_list s) i" for i
    using content_on_update_status [of cid "get_status_of a atype" st s i] 1 by simp
  have d: "chunk_list (detach p atype t) = chunk_list t" for t
    by (simp add: detach_def split: AccessType.splits)
  from 1 have "trace s1 = trace s" "chunk_tensor_index s1 = chunk_tensor_index s"
    by (auto simp: on_chunk_list_Inr)
  with 2 c d show ?thesis by simp
qed

text \<open>C2, as amended: in a successful distributed release with more than one process, the
  status transition is the one of the local release. If after it every chunk of the
  tensor's communication group is a dummy or has all its tensors at the hold status of the
  stage, the group is collapsed, and otherwise nothing more happens. In a collapse with the
  reduce flag every chunk of the group is pinned, one reduce-scatter is issued, and the
  local chunk holds the element-wise sum over the processes of what each contributes for
  that chunk (this process its own local payload, the others theirs), divided by the
  process count. With or without the reduction every chunk is unpinned, every non-local
  chunk loses its payload and every tensor mapped into it is set to \<^verbatim>\<open>FREE\<close>; the local
  chunk keeps its payload.\<close>

theorem group_collapse:
  assumes ws: "1 < world_size e"
      and run: "release_dist e p atype st stage reduce s = (Inr u, s')"
      and a: "p_attr (params s p) = Some a" and cb: "param_type a = CHUNK_BASED"
      and chunk: "get_chunk_id (chunk_tensor_index s) a atype = Some cid"
      and group: "chunk_ids_of_comm_group (chunk_tensor_index s) (Some cid) = Inr ids"
  shows "fst (release p atype st s) = Inr ()
       \<and> (if \<forall>i\<in>set ids. chunk_ready (chunk_list (snd (release p atype st s))) stage i
          then new_events s s'
                 = (if reduce then map Pin ids @ [ReduceScatter ids] else [])
                   @ collapse_events (ids ! rank e) ids
             \<and> (\<forall>i\<in>set ids. i \<noteq> ids ! rank e \<longrightarrow>
                   content_of (chunk_list s') i = None
                 \<and> (\<forall>info\<in>set (generate_tensor_info_in_order (chunk_tensor_index s) i).
                       slot_status s' info = Some FREE))
             \<and> (if reduce
                 then (\<exists>xs. content_of
                              (chunk_list (snd (reduce_inputs_loop ids (snd (release p atype st s)))))
                              (ids ! rank e) = Some xs
                          \<and> content_of (chunk_list s') (ids ! rank e)
                              = Some (map (\<lambda>x. x / real (world_size e)) (reduce_sum e xs)))
                    \<and> (\<forall>xs. content_of (chunk_list s) (ids ! rank e) = Some xs
                            \<and> map_option get_status
                                (chunk_id_to_chunk_dict (chunk_list (snd (release p atype st s)))
                                   (ids ! rank e)) \<noteq> Some RELEASED
                          \<longrightarrow> content_of (chunk_list s') (ids ! rank e)
                                = Some (map (\<lambda>x. x / real (world_size e)) (reduce_sum e xs)))
                 else content_of (chunk_list s') (ids ! rank e)
                        = content_of (chunk_list s) (ids ! rank e))
          else s' = snd (release p atype st s))"
proof -
  let ?local = "ids ! rank e"
  have ntb: "param_type a \<noteq> TORCH_BASED" using cb by simp
  from release_dist_Inr [OF run a ntb chunk group] ws obtain s2 where
      stage: "stage = FWD \<or> stage = BWD" and rk: "rank e < length ids"
      and rel: "release p atype st s = (Inr (), s2)"
      and grp: "release_dist_group e ?local ids stage reduce s2 = (Inr u, s')"
    by auto
  from rel have s2: "snd (release p atype st s) = s2" "fst (release p atype st s) = Inr ()"
    by simp_all
  note fr = release_Inr_frame [OF rel a ntb chunk]
  from rk have mem: "?local \<in> set ids" by simp
  from grp obtain b where b: "all_chunks_ready (chunk_list s2) stage ids = Inr b"
    by (cases "all_chunks_ready (chunk_list s2) stage ids") (auto simp: release_dist_group_def)
  from stage have "stage \<noteq> OTHER_STAGE" by auto
  from all_chunks_ready_iff [OF b this]
  have ready: "b \<longleftrightarrow> (\<forall>i\<in>set ids. chunk_ready (chunk_list s2) stage i)" .
  show ?thesis
  proof (cases b)
    case False
    with grp b have eq: "s' = s2" by (simp add: release_dist_group_def)
    from False ready have nr: "\<not> (\<forall>i\<in>set ids. chunk_ready (chunk_list s2) stage i)"
      by blast
    show ?thesis unfolding s2 using nr eq by (simp only: if_False simp_thms)
  next
    case True
    with grp b obtain s3 where
        red: "(if reduce then reduce_step e ?local ids s2 else (Inr (), s2)) = (Inr (), s3)"
        and col: "collapse_loop ?local ids s3 = (Inr u, s')"
      by (auto simp: release_dist_group_def then_do_eq_Inr)
    note cr = collapse_loop_result [OF col]
    have i3: "chunk_tensor_index s3 = chunk_tensor_index s"
      using red reduce_step_result [of e ?local ids s2 "()" s3] mem fr
      by (auto split: if_splits)
    have t3: "trace s3 = trace s @ (if reduce then map Pin ids @ [ReduceScatter ids] else [])"
      using red reduce_step_result [of e ?local ids s2 "()" s3] mem fr
      by (auto split: if_splits)
    have ev: "new_events s s' = (if reduce then map Pin ids @ [ReduceScatter ids] else [])
                                 @ collapse_events ?local ids"
      using cr t3 by (simp add: new_events_def)
    have remote: "\<forall>i\<in>set ids. i \<noteq> ?local \<longrightarrow>
                   content_of (chunk_list s') i = None
                 \<and> (\<forall>info\<in>set (generate_tensor_info_in_order (chunk_tensor_index s) i).
                       slot_status s' info = Some FREE)"
      using cr i3 by simp
    have loc: "content_of (chunk_list s') ?local = content_of (chunk_list s3) ?local"
      using cr by simp
    have local_part:
      "if reduce
       then (\<exists>xs. content_of (chunk_list (snd (reduce_inputs_loop ids s2))) ?local = Some xs
                \<and> content_of (chunk_list s') ?local
                    = Some (map (\<lambda>x. x / real (world_size e)) (reduce_sum e xs)))
          \<and> (\<forall>xs. content_of (chunk_list s) ?local = Some xs
                  \<and> map_option get_status (chunk_id_to_chunk_dict (chunk_list s2) ?local)
                      \<noteq> Some RELEASED
                \<longrightarrow> content_of (chunk_list s') ?local
                      = Some (map (\<lambda>x. x / real (world_size e)) (reduce_sum e xs)))
       else content_of (chunk_list s') ?local = content_of (chunk_list s) ?local"
    proof (cases reduce)
      case False
      with red have "s3 = s2" by simp
      with False loc fr show ?thesis by simp
    next
      case True
      with red have rs: "reduce_step e ?local ids s2 = (Inr (), s3)" by simp
      from reduce_step_result [OF rs mem] obtain xs where
          xs: "content_of (chunk_list (snd (reduce_inputs_loop ids s2))) ?local = Some xs"
          and avg: "content_of (chunk_list s3) ?local
                      = Some (map (\<lambda>x. x / real (world_size e)) (reduce_sum e xs))"
        by blast
      from rs obtain s1 where inp: "reduce_inputs_loop ids s2 = (Inr (), s1)"
        by (auto simp: reduce_step_def then_do_eq_Inr split: if_splits)
      have keep: "\<forall>ys. content_of (chunk_list s) ?local = Some ys
                  \<and> map_option get_status (chunk_id_to_chunk_dict (chunk_list s2) ?local)
                      \<noteq> Some RELEASED
                \<longrightarrow> content_of (chunk_list s') ?local
                      = Some (map (\<lambda>x. x / real (world_size e)) (reduce_sum e ys))"
      proof (intro allI impI)
        fix ys
        assume h: "content_of (chunk_list s) ?local = Some ys
                  \<and> map_option get_status (chunk_id_to_chunk_dict (chunk_list s2) ?local)
                      \<noteq> Some RELEASED"
        with fr have "content_of (chunk_list s2) ?local = Some ys" by simp
        with h reduce_inputs_loop_result [OF inp] have "content_of (chunk_list s1) ?local = Some ys"
          by blast
        with xs inp have "xs = ys" by simp
        with avg loc show "content_of (chunk_list s') ?local
                      = Some (map (\<lambda>x. x / real (world_size e)) (reduce_sum e ys))"
          by simp
      qed
      from True xs avg loc keep show ?thesis by auto
    qed
    from True ready have rd: "\<forall>i\<in>set ids. chunk_ready (chunk_list s2) stage i"
      by blast
    show ?thesis unfolding s2 using ev remote local_part
      by (simp only: rd [THEN eqTrueI] if_True simp_thms)
  qed
qed

theorem group_collapse_witness:
  "fst (release_dist env2 0 DATA HOLD_AFTER_BWD BWD True ex_backward) = Inr ()
   \<and> fst (release 0 DATA HOLD_AFTER_BWD ex_backward) = Inr ()
   \<and> new_events ex_backward (snd (release_dist env2 0 DATA HOLD_AFTER_BWD BWD True ex_backward))
       = [Pin 0, Pin 1, ReduceScatter [0, 1], Unpin 0, Unpin 1, ReleasePayload 1]
   \<and> content_of (chunk_list (snd (release_dist env2 0 DATA HOLD_AFTER_BWD BWD True ex_backward))) 1
       = None
   \<and> slot_status (snd (release_dist env2 0 DATA HOLD_AFTER_BWD BWD True ex_backward))
        \<lparr>info_chunk_id = 1, info_tensor_id = 11, start_offset = 0, info_numel = 2,
         info_param = 1, info_access_type = DATA\<rparr> = Some FREE
   \<and> content_of (chunk_list (snd (release_dist env2 0 DATA HOLD_AFTER_BWD BWD True ex_backward))) 0
       = Some [2, 5 / 2]"
proof -
  let ?s' = "snd (release_dist env2 0 DATA HOLD_AFTER_BWD BWD True ex_backward)"
  let ?i1 = "\<lparr>info_chunk_id = 1, info_tensor_id = 11, start_offset = 0, info_numel = 2,
              info_param = 1, info_access_type = DATA\<rparr>"
  have ws: "1 < world_size env2" and rk: "rank env2 = 0" and w2: "world_size env2 = 2"
    by (simp_all add: env2_def)
  have a: "p_attr (params ex_backward 0) = Some (ex_attr 10 COMPUTE)"
    by (simp add: ex_backward_def ex_params_def)
  have cb: "param_type (ex_attr 10 COMPUTE) = CHUNK_BASED"
    by (simp add: ex_attr_def)
  have c: "get_chunk_id (chunk_tensor_index ex_backward) (ex_attr 10 COMPUTE) DATA = Some 0"
    by (simp add: ex_backward_def ex_index_def ex_attr_def get_chunk_id_def get_tensor_id_def)
  have g: "chunk_ids_of_comm_group (chunk_tensor_index ex_backward) (Some 0) = Inr [0, Suc 0]"
    by (simp add: ex_backward_def ex_index_def chunk_ids_of_comm_group_def)
  have f: "fst (release_dist env2 0 DATA HOLD_AFTER_BWD BWD True ex_backward) = Inr ()"
    by code_simp
  have h: "release_dist env2 0 DATA HOLD_AFTER_BWD BWD True ex_backward = (Inr (), ?s')"
    using f by (simp add: prod_eq_iff)
  have ready: "\<forall>i\<in>set [0, Suc 0].
                 chunk_ready (chunk_list (snd (release 0 DATA HOLD_AFTER_BWD ex_backward))) BWD i"
    by code_simp
  have infos: "generate_tensor_info_in_order (chunk_tensor_index ex_backward) (Suc 0) = [?i1]"
    by (simp add: ex_backward_def ex_index_def generate_tensor_info_in_order_def
          List.map_filter_simps)
  have c0: "content_of (chunk_list ex_backward) 0 = Some [1, 2]"
    by (simp add: ex_backward_def ex_chunk_list_def ex_chunk_def content_of_def)
  have st: "map_option get_status
              (chunk_id_to_chunk_dict (chunk_list (snd (release 0 DATA HOLD_AFTER_BWD ex_backward))) 0)
            \<noteq> Some RELEASED"
    by code_simp
  have avg: "map (\<lambda>x. x / real (world_size env2)) (reduce_sum env2 [1, 2]) = [2, 5 / 2]"
    by (simp add: reduce_sum_def env2_def upt_rec)
  note t = group_collapse [OF ws h a cb c g]
  from t have r: "fst (release 0 DATA HOLD_AFTER_BWD ex_backward) = Inr ()"
    by (rule conjunct1)
  note body = t [THEN conjunct2, unfolded if_P [OF ready] rk if_True]
  from body [THEN conjunct1] have ev: "new_events ex_backward ?s'
       = [Pin 0, Pin 1, ReduceScatter [0, 1], Unpin 0, Unpin 1, ReleasePayload 1]"
    by (simp add: collapse_events_def)
  note rem = body [THEN conjunct2, THEN conjunct1]
  from rem infos have remote: "content_of (chunk_list ?s') 1 = None" "slot_status ?s' ?i1 = Some FREE"
    by simp_all
  note keep = body [THEN conjunct2, THEN conjunct2, THEN conjunct2]
  from keep c0 st avg have loc: "content_of (chunk_list ?s') 0 = Some [2, 5 / 2]"
    by simp
  from f r ev remote loc show ?thesis by simp
qed

theorem reduce_scatter_not_group_sum_counterexample:
  "1 < world_size env2
   \<and> fst (release_dist env2 0 DATA HOLD_AFTER_BWD BWD True ex_backward) = Inr ()
   \<and> chunk_ready (chunk_list (snd (release 0 DATA HOLD_AFTER_BWD ex_backward))) BWD 0
   \<and> chunk_ready (chunk_list (snd (release 0 DATA HOLD_AFTER_BWD ex_backward))) BWD 1
   \<and> content_of (chunk_list ex_backward) 0 = Some [1, 2]
   \<and> content_of (chunk_list ex_backward) 1 = Some [10, 20]
   \<and> map (\<lambda>x. x / 2) (group_sum (chunk_list ex_backward) [0, 1] 2) = [11 / 2, 11]
   \<and> content_of (chunk_list (snd (release_dist env2 0 DATA HOLD_AFTER_BWD BWD True ex_backward))) 0
       = Some [2, 5 / 2]
   \<and> content_of (chunk_list (snd (release_dist env2 0 DATA HOLD_AFTER_BWD BWD True ex_backward))) 0
       \<noteq> Some (map (\<lambda>x. x / 2) (group_sum (chunk_list ex_backward) [0, 1] 2))"
proof -
  have ws: "1 < world_size env2"
    by (simp add: env2_def)
  have f: "fst (release_dist env2 0 DATA HOLD_AFTER_BWD BWD True ex_backward) = Inr ()"
    by code_simp
  have r0: "chunk_ready (chunk_list (snd (release 0 DATA HOLD_AFTER_BWD ex_backward))) BWD 0"
    and r1: "chunk_ready (chunk_list (snd (release 0 DATA HOLD_AFTER_BWD ex_backward))) BWD 1"
    by code_simp+
  have c0: "content_of (chunk_list ex_backward) 0 = Some [1, 2]"
    and c1: "content_of (chunk_list ex_backward) 1 = Some [10, 20]"
    by (simp_all add: ex_backward_def ex_chunk_list_def ex_chunk_def content_of_def)
  have gs: "map (\<lambda>x. x / 2) (group_sum (chunk_list ex_backward) [0, 1] 2) = [11 / 2, 11::real]"
    using c0 c1 by (simp add: group_sum_def upt_rec numeral_2_eq_2)
  have out: "content_of (chunk_list (snd (release_dist env2 0 DATA HOLD_AFTER_BWD BWD True ex_backward))) 0
               = Some [2, 5 / 2]"
    by code_simp
  from ws f r0 r1 c0 c1 gs out show ?thesis by simp
qed

section \<open>First touch\<close>

lemma contents_View:
  "contents cl (View i off n) = map_option (\<lambda>xs. take n (drop off xs)) (content_of cl i)"
  by (cases "chunk_id_to_chunk_dict cl i")
     (simp_all add: contents_def content_of_def option.map_comp comp_def case_prod_unfold)

lemma content_access_chunk_same:
  assumes "access_chunk (Some cid) dev cl = (Inr u, cl')" and "content_of cl cid = Some xs"
  shows "content_of cl' cid = Some xs"
proof -
  from assms(2) obtain c d where c: "chunk_id_to_chunk_dict cl cid = Some c" "payload c = Some (d, xs)"
    by (auto simp: content_of_def split: option.splits)
  from access_chunk_content [OF assms(1) c] show ?thesis
    by (auto simp: content_of_def)
qed

lemma prepare_chunks_no_gather_content:
  assumes run: "prepare_chunks e (Some cid) dev s = (Inr u, s')"
      and ng: "\<not> 1 < world_size e
               \<or> (\<exists>ids. chunk_ids_of_comm_group (chunk_tensor_index s) (Some cid) = Inr ids
                        \<and> has_released_chunk (chunk_list s) ids = Inr False)"
      and c: "content_of (chunk_list s) cid = Some xs"
      and st: "map_option get_status (chunk_id_to_chunk_dict (chunk_list s) cid) \<noteq> Some RELEASED"
  shows "content_of (chunk_list s') cid = Some xs"
proof (cases "1 < world_size e")
  case False
  with run obtain cl' where "access_chunk (Some cid) dev (chunk_list s) = (Inr u, cl')"
      "chunk_list s' = cl'"
    by (auto simp: prepare_chunks_def on_chunk_list_Inr)
  with content_access_chunk_same [OF this(1) c] show ?thesis by simp
next
  case True
  with ng obtain ids where ids: "chunk_ids_of_comm_group (chunk_tensor_index s) (Some cid) = Inr ids"
      "has_released_chunk (chunk_list s) ids = Inr False"
    by blast
  from True run obtain s0 where 1: "access_dist_group e (Some cid) dev s = (Inr (), s0)"
      and 2: "on_chunk_list (access_chunk (Some cid) dev) s0 = (Inr u, s')"
    by (auto simp: prepare_chunks_def then_do_eq_Inr)
  from access_dist_group_Inr [OF 1 ids(1)] obtain t1 t2 t3 where
      g1: "on_chunk_list (access_chunk (Some (ids ! rank e)) dev) s = (Inr (), t1)"
      and g2: "pin_chunk (ids ! rank e) t1 = (Inr (), t2)"
      and g3: "fetch_remote_chunks e ids (ids ! rank e) dev t2 = (Inr (), t3)"
      and g4: "unpin_chunk (ids ! rank e) t3 = (Inr (), s0)"
      and g5: "has_released_chunk (chunk_list t2) ids = has_released_chunk (chunk_list s) ids"
    by blast
  from g3 g5 ids(2) have t3: "t3 = t2" by (simp add: fetch_no_released)
  from g1 obtain cl1 where a1: "access_chunk (Some (ids ! rank e)) dev (chunk_list s) = (Inr (), cl1)"
      "chunk_list t1 = cl1"
    by (auto simp: on_chunk_list_Inr)
  from content_access_chunk [OF a1(1) c st] a1(2) have "content_of (chunk_list t1) cid = Some xs"
    by simp
  with content_pin_chunk [OF g2] have "content_of (chunk_list t2) cid = Some xs" by simp
  with content_unpin_chunk [OF g4] t3 have c0: "content_of (chunk_list s0) cid = Some xs" by simp
  from 2 obtain cl' where "access_chunk (Some cid) dev (chunk_list s0) = (Inr u, cl')"
      "chunk_list s' = cl'"
    by (auto simp: on_chunk_list_Inr)
  with content_access_chunk_same [OF this(1) c0] show ?thesis by simp
qed

lemma content_gather_other:
  "j \<notin> set ids \<Longrightarrow> content_of (all_gather_loop e k ids cl) j = content_of cl j"
proof (induction ids arbitrary: k cl)
  case Nil
  then show ?case by simp
next
  case (Cons i ids)
  then show ?case
    by (cases "chunk_id_to_chunk_dict cl i") (auto simp: content_of_def)
qed

lemma content_gather_into:
  "content_of cl i = Some xs \<Longrightarrow> chunk_id_to_chunk_dict cl i = Some c
   \<Longrightarrow> content_of (cl\<lparr>chunk_id_to_chunk_dict := (chunk_id_to_chunk_dict cl)(i \<mapsto> gather_into e k c)\<rparr>) i
       = Some (map (peer_shard e k) [0..<length xs])"
  by (auto simp: content_of_def gather_into_def split: option.splits)

lemma content_all_gather_loop:
  assumes "distinct ids" and "k < length ids" and "k0 + k \<noteq> rank e"
      and "content_of cl (ids ! k) = Some xs"
  shows "content_of (all_gather_loop e k0 ids cl) (ids ! k)
           = Some (map (peer_shard e (k0 + k)) [0..<length xs])"
  using assms
proof (induction ids arbitrary: k k0 cl)
  case Nil
  then show ?case by simp
next
  case (Cons i ids)
  show ?case
  proof (cases k)
    case 0
    from Cons.prems 0 obtain c where c: "chunk_id_to_chunk_dict cl i = Some c"
      by (auto simp: content_of_def split: option.splits)
    from Cons.prems 0 have "i \<notin> set ids" "k0 \<noteq> rank e" "content_of cl i = Some xs"
      by simp_all
    with c 0 content_gather_into [of cl i xs c e k0] show ?thesis
      by (simp add: content_gather_other)
  next
    case (Suc k')
    with Cons.prems have ne: "ids ! k' \<noteq> i" and k': "k' < length ids" and d: "distinct ids"
      by auto
    let ?cl = "if k0 = rank e then cl
               else (case chunk_id_to_chunk_dict cl i of
                       None \<Rightarrow> cl
                     | Some c \<Rightarrow> cl\<lparr>chunk_id_to_chunk_dict :=
                                      (chunk_id_to_chunk_dict cl)(i \<mapsto> gather_into e k0 c)\<rparr>)"
    have "content_of ?cl (ids ! k') = content_of cl (ids ! k')"
      using ne by (auto simp: content_of_def split: option.splits)
    with Cons.prems Suc have c: "content_of ?cl (ids ! k') = Some xs" by simp
    from Cons.prems Suc have r: "Suc k0 + k' \<noteq> rank e" by simp
    from Cons.IH [OF d k' r c] Suc show ?thesis by simp
  qed
qed

lemma take_drop_map_upt:
  "off + n \<le> m \<Longrightarrow> take n (drop off (map f [0..<m])) = map f [off..<off + n]"
  by (simp add: take_map drop_map)

lemma locate_and_compute_fits:
  assumes run: "locate_and_compute cid p atype s = (Inr v, s')"
      and a: "p_attr (params s p) = Some a"
      and info: "tensor_id_to_info_map (chunk_tensor_index s) (get_tensor_id a atype) = Some info"
  shows "\<exists>xs. content_of (chunk_list s) cid = Some xs
            \<and> start_offset info + info_numel info \<le> length xs"
proof -
  from run a info have n: "info_numel info = numel a"
    by (auto simp: locate_and_compute_def get_tensor_info_def split: if_splits)
  from run a info n obtain w where "narrow (chunk_list s) cid (start_offset info) (info_numel info) = Inr w"
    by (cases "narrow (chunk_list s) cid (start_offset info) (info_numel info)")
       (auto simp: locate_and_compute_def get_tensor_info_def)
  then show ?thesis
    by (auto simp: narrow_Inr content_of_def)
qed

lemma all_gather_Inr:
  "all_gather e ids s = (Inr u, s')
   \<Longrightarrow> list_all (has_payload (chunk_list s)) ids
       \<and> chunk_list s' = all_gather_loop e 0 ids (chunk_list s)"
  by (auto simp: all_gather_def log_event_def split: if_splits)

lemma fetch_remote_chunks_gathers:
  assumes run: "fetch_remote_chunks e ids local dev s = (Inr u, s')"
      and rel: "has_released_chunk (chunk_list s) ids = Inr True"
  shows "\<exists>u1 u3. fetch_loop local dev ids s = (Inr (), u1)
              \<and> unpin_loop ids u1 = (Inr (), u3)
              \<and> all_gather e ids u3 = (Inr u, s')"
proof -
  from run rel obtain u1 m u2 u3 where
      1: "fetch_loop local dev ids s = (Inr (), u1)"
      and 2: "first_buffer_numel ids u1 = (Inr m, u2)"
      and 3: "unpin_loop ids u2 = (Inr (), u3)"
      and 4: "(if \<not> dist_initialized e then (Inl AssertionError, u3) else all_gather e ids u3)
                = (Inr u, s')"
    by (auto simp: fetch_remote_chunks_def then_do_eq_Inr)
  from 2 have "u2 = u1"
    using idx_first_buffer_numel [of ids u1] by simp
  with 1 3 4 show ?thesis
    by (auto split: if_splits)
qed

lemma gathered_remote_tensor:
  assumes ws: "1 < world_size e"
      and run: "access_dist e p atype dev s = (Inr v, s')"
      and a: "p_attr (params s p) = Some a" and cb: "param_type a = CHUNK_BASED"
      and info: "tensor_id_to_info_map (chunk_tensor_index s) (get_tensor_id a atype) = Some info"
      and group: "chunk_ids_of_comm_group (chunk_tensor_index s) (Some (info_chunk_id info)) = Inr ids"
      and released: "\<exists>i\<in>set ids. map_option get_status (chunk_id_to_chunk_dict (chunk_list s) i)
                                    = Some RELEASED"
      and dist: "distinct ids"
      and k: "k < length ids" "ids ! k = info_chunk_id info" "k \<noteq> rank e"
      and reg: "info \<in> set (generate_tensor_info_in_order (chunk_tensor_index s) (info_chunk_id info))"
               "info_param info = p" "info_access_type info = atype"
  shows "map_option (\<lambda>b. get_status_of b atype)
           (p_attr (params (snd (prepare_chunks e (Some (info_chunk_id info)) dev s)) p)) = Some HOLD
       \<and> contents (chunk_list s') v
           = Some (map (peer_shard e k) [start_offset info..<start_offset info + info_numel info])"
proof -
  let ?cid = "info_chunk_id info"
  let ?local = "ids ! rank e"
  have chunk: "get_chunk_id (chunk_tensor_index s) a atype = Some ?cid"
    using info by (simp add: get_chunk_id_def)
  have ntb: "param_type a \<noteq> TORCH_BASED" using cb by simp
  from access_dist_Inr [OF run a ntb chunk] obtain s1 where
      1: "prepare_chunks e (Some ?cid) dev s = (Inr (), s1)"
      and 2: "locate_and_compute ?cid p atype s1 = (Inr v, s')"
    by blast
  from 1 have s1: "s1 = snd (prepare_chunks e (Some ?cid) dev s)" by simp
  from 1 ws obtain s0 where 3: "access_dist_group e (Some ?cid) dev s = (Inr (), s0)"
      and 4: "on_chunk_list (access_chunk (Some ?cid) dev) s0 = (Inr (), s1)"
    by (auto simp: prepare_chunks_def then_do_eq_Inr)
  from access_dist_group_Inr [OF 3 group] obtain t1 t2 t3 where
      g1: "on_chunk_list (access_chunk (Some ?local) dev) s = (Inr (), t1)"
      and g2: "pin_chunk ?local t1 = (Inr (), t2)"
      and g3: "fetch_remote_chunks e ids ?local dev t2 = (Inr (), t3)"
      and g4: "unpin_chunk ?local t3 = (Inr (), s0)"
      and g5: "has_released_chunk (chunk_list t2) ids = has_released_chunk (chunk_list s) ids"
    by blast
  from fetch_remote_chunks_decides [OF g3] g5 obtain b where
      b: "has_released_chunk (chunk_list s) ids = Inr b"
    by auto
  from released_iff [OF b] released have "b" by simp
  with b g5 have rel: "has_released_chunk (chunk_list t2) ids = Inr True" by simp
  from fetch_remote_chunks_gathers [OF g3 rel] obtain u1 u3 where
      f1: "fetch_loop ?local dev ids t2 = (Inr (), u1)"
      and f3: "unpin_loop ids u1 = (Inr (), u3)"
      and f4: "all_gather e ids u3 = (Inr (), t3)"
    by blast
  have mem: "?cid \<in> set ids" using k by (metis nth_mem)
  \<comment> \<open>the status read\<close>
  have i2: "chunk_tensor_index t2 = chunk_tensor_index s"
    using idx_of_result [OF g1 idx_on_chunk_list] idx_of_result [OF g2 idx_pin_chunk] by simp
  from fetch_loop_holds [OF f1] mem reg(1) i2 have h1: "slot_status u1 info = Some HOLD"
    by simp
  have p3: "params u3 = params u1" using params_of_result [OF f3 params_unpin_loop] .
  have pt: "params t3 = params u3" using params_of_result [OF f4 params_all_gather] .
  have p0: "params s0 = params t3" using params_of_result [OF g4 params_unpin_chunk] .
  have p1: "params s1 = params s0" using params_of_result [OF 4 params_on_chunk_list] .
  from h1 p3 pt p0 p1 have "slot_status s1 info = Some HOLD"
    by (simp add: slot_status_def)
  with reg have hold: "map_option (\<lambda>b. get_status_of b atype) (p_attr (params s1 p)) = Some HOLD"
    by (simp add: slot_status_def)
  then obtain a1 where a1: "p_attr (params s1 p) = Some a1" "get_status_of a1 atype = HOLD"
    by auto
  \<comment> \<open>what the all-gather wrote\<close>
  from all_gather_Inr [OF f4] mem have hp: "has_payload (chunk_list u3) ?cid"
      and cl3: "chunk_list t3 = all_gather_loop e 0 ids (chunk_list u3)"
    by (auto simp: list_all_iff)
  from hp obtain xs where xs: "content_of (chunk_list u3) (ids ! k) = Some xs"
    using k by (auto simp: has_payload_content)
  from content_all_gather_loop [OF dist k(1) _ xs, of 0 e] k(3) cl3
  have "content_of (chunk_list t3) (ids ! k) = Some (map (peer_shard e k) [0..<length xs])"
    by simp
  with content_unpin_chunk [OF g4] k(2)
  have c0: "content_of (chunk_list s0) ?cid = Some (map (peer_shard e k) [0..<length xs])"
    by simp
  from 4 obtain cl' where "access_chunk (Some ?cid) dev (chunk_list s0) = (Inr (), cl')"
      "chunk_list s1 = cl'"
    by (auto simp: on_chunk_list_Inr)
  with content_access_chunk_same [OF this(1) c0]
  have c1: "content_of (chunk_list s1) ?cid = Some (map (peer_shard e k) [0..<length xs])"
    by simp
  \<comment> \<open>steps 2 and 3\<close>
  have i1: "chunk_tensor_index s1 = chunk_tensor_index s"
    using idx_prepare_chunks [of e "Some ?cid" dev s] s1 by simp
  have "static_attrs s1 p = static_attrs s p"
    using static_prepare_chunks [of e "Some ?cid" dev s] s1 by simp
  with a a1 have "get_tensor_id a1 atype = get_tensor_id a atype"
    by (auto simp: static_attrs_def get_tensor_id_def split: AccessType.splits)
  with info i1 have info1: "tensor_id_to_info_map (chunk_tensor_index s1) (get_tensor_id a1 atype)
                             = Some info"
    by simp
  from locate_and_compute_result [OF 2 a1(1) info1] a1(2)
  have v: "v = View ?cid (start_offset info) (info_numel info)"
      and keep: "contents (chunk_list s') v = contents (chunk_list s1) v"
    by auto
  from locate_and_compute_fits [OF 2 a1(1) info1] c1
  have fits: "start_offset info + info_numel info \<le> length xs"
    by auto
  from keep v c1 fits
  have "contents (chunk_list s') v
          = Some (map (peer_shard e k) [start_offset info..<start_offset info + info_numel info])"
    by (simp add: contents_View take_drop_map_upt)
  with hold s1 show ?thesis by simp
qed




section \<open>Registration of a list of tensors\<close>

lemma first_fit_too_big:
  "chunk_size < need \<Longrightarrow> \<forall>(start, n)\<in>set spans. start + n \<le> chunk_size
   \<Longrightarrow> first_fit chunk_size need spans prev_end = None"
  by (induction spans arbitrary: prev_end) auto

lemma first_fit_empty:
  "first_fit chunk_size need [] 0 = (if need \<le> chunk_size then Some 0 else None)"
  by simp

lemma try_insert_registered:
  assumes "\<forall>p\<in>set param_list. p_attr (params s p) \<noteq> None"
  shows "try_insert_tensor_list cid (with_attrs s param_list) atype idx =
           (case first_fit (index_chunk_size idx)
                   (sum_list (map (\<lambda>(p, a). numel a)
                                (map (\<lambda>p. (p, the (p_attr (params s p)))) param_list)))
                   (spans_of idx cid) 0 of
              None \<Rightarrow> (Inr False, idx)
            | Some dest \<Rightarrow>
                (Inr True,
                 insert_tensors cid atype dest
                   (map (\<lambda>p. (p, the (p_attr (params s p)))) param_list) idx))"
proof -
  have 1: "\<not> list_ex (\<lambda>(p, a). a = None) (with_attrs s param_list)"
    using assms by (auto simp: with_attrs_def list_ex_iff)
  have 2: "map (\<lambda>(p, a). (p, the a)) (with_attrs s param_list)
             = map (\<lambda>p. (p, the (p_attr (params s p)))) param_list"
    by (simp add: with_attrs_def)
  show ?thesis
    using 1 by (simp add: try_insert_tensor_list_def 2 Let_def)
qed

lemma try_insert_False_keeps:
  "fst (try_insert_tensor_list cid pl atype idx) = Inr False
   \<Longrightarrow> snd (try_insert_tensor_list cid pl atype idx) = idx"
  by (auto simp: try_insert_tensor_list_def Let_def split: if_splits option.splits)

lemma append_chunk_result:
  "append_chunk e dt ty is_dummy_arg s = (r, s2)
   \<Longrightarrow> params s2 = params s
       \<and> default_chunk_size s2 = default_chunk_size s
       \<and> index_chunk_size (chunk_tensor_index s2) = index_chunk_size (chunk_tensor_index s)
       \<and> tensor_id_to_info_map (chunk_tensor_index s2) = tensor_id_to_info_map (chunk_tensor_index s)
       \<and> chunk_id_to_tensor_id_list_map (chunk_tensor_index s2)
           = chunk_id_to_tensor_id_list_map (chunk_tensor_index s)
       \<and> fst r = generate_chunk_id (chunk_list s)
       \<and> chunk_id_to_chunk_dict (chunk_list s2) (generate_chunk_id (chunk_list s))
           = Some \<lparr>capacity = default_chunk_size s, data_type = dt, dummy = is_dummy_arg,
                   payload = None, pin_count = 0, status_dict = (\<lambda>t. 0), last_needed = 0\<rparr>
       \<and> id_list (chunk_list s2) = id_list (chunk_list s) @ [generate_chunk_id (chunk_list s)]"
  by (auto simp: append_chunk_def new_chunk_def add_chunk_def Let_def)

lemma insert_tensors_other:
  "tid \<notin> set (map (\<lambda>(p, a). get_tensor_id a atype) ps)
   \<Longrightarrow> tensor_id_to_info_map (insert_tensors cid atype off ps idx) tid
       = tensor_id_to_info_map idx tid"
  by (induction ps arbitrary: off idx) (auto simp: add_tensor_def Let_def)

lemma insert_tensors_layout:
  assumes "distinct (map (\<lambda>(p, a). get_tensor_id a atype) ps)" and "j < length ps"
  shows "tensor_id_to_info_map (insert_tensors cid atype off ps idx)
           (get_tensor_id (snd (ps ! j)) atype)
         = Some \<lparr>info_chunk_id = cid, info_tensor_id = get_tensor_id (snd (ps ! j)) atype,
                 start_offset = off + sum_list (map (\<lambda>(p, a). numel a) (take j ps)),
                 info_numel = numel (snd (ps ! j)), info_param = fst (ps ! j),
                 info_access_type = atype\<rparr>"
  using assms
proof (induction ps arbitrary: off idx j)
  case Nil
  then show ?case by simp
next
  case (Cons x ps)
  obtain p a where x: "x = (p, a)" by (cases x)
  show ?case
  proof (cases j)
    case 0
    from Cons.prems x have "get_tensor_id a atype \<notin> set (map (\<lambda>(p, a). get_tensor_id a atype) ps)"
      by simp
    from insert_tensors_other [OF this] 0 x show ?thesis
      by (simp add: add_tensor_def Let_def)
  next
    case (Suc j')
    with Cons.prems x have d: "distinct (map (\<lambda>(p, a). get_tensor_id a atype) ps)"
        and j': "j' < length ps"
      by simp_all
    from Cons.IH [OF d j'] Suc x show ?thesis
      by (simp add: add.assoc)
  qed
qed

text \<open>C6: \<^verbatim>\<open>append_tensor\<close> on a list of registered parameters, in a client whose index
  was built with the client's default chunk size and knows no tensor under the next chunk
  id. If there is a chunk of the type and first fit finds room for the whole list in the
  last one, the list is inserted there and no chunk is created. Otherwise a new chunk of
  the default size is created, and when the list is no larger than that size the whole list
  is inserted into it from offset 0. A list larger than the default chunk size fits neither
  (the tensors of the last chunk lying inside it) and the call ends in \<^verbatim>\<open>RuntimeError\<close> with
  no tensor registered. An attempt that returns false returns the index it was given, and
  an insertion lays the tensors out one after the other in the order of the list.\<close>

theorem append_tensor_cases:
  assumes reg: "\<forall>p\<in>set param_list. p_attr (params s p) \<noteq> None"
      and size: "index_chunk_size (chunk_tensor_index s) = default_chunk_size s"
      and fresh: "chunk_id_to_tensor_id_list_map (chunk_tensor_index s)
                    (generate_chunk_id (chunk_list s)) = []"
      and ps: "ps = map (\<lambda>p. (p, the (p_attr (params s p)))) param_list"
      and need: "need = sum_list (map (\<lambda>(p, a). numel a) ps)"
      and last_id: "last_id = last_chunk_id (chunk_list s) chunk_type"
      and new_id: "new_id = generate_chunk_id (chunk_list s)"
      and s2: "s2 = snd (append_chunk e dt chunk_type False s)"
  shows "(\<not> is_empty (chunk_list s) chunk_type
            \<and> first_fit (default_chunk_size s) need (spans_of (chunk_tensor_index s) last_id) 0
                = Some dest
          \<longrightarrow> append_tensor e param_list dt atype chunk_type s
                = (Inr (), s\<lparr>chunk_tensor_index :=
                               insert_tensors last_id atype dest ps (chunk_tensor_index s)\<rparr>))
       \<and> ((is_empty (chunk_list s) chunk_type
             \<or> first_fit (default_chunk_size s) need (spans_of (chunk_tensor_index s) last_id) 0
                 = None)
            \<and> need \<le> default_chunk_size s
          \<longrightarrow> append_tensor e param_list dt atype chunk_type s
                = (Inr (), s2\<lparr>chunk_tensor_index :=
                                insert_tensors new_id atype 0 ps (chunk_tensor_index s2)\<rparr>)
              \<and> chunk_id_to_chunk_dict (chunk_list s2) new_id
                  = Some \<lparr>capacity = default_chunk_size s, data_type = dt, dummy = False,
                          payload = None, pin_count = 0, status_dict = (\<lambda>t. 0),
                          last_needed = 0\<rparr>
              \<and> id_list (chunk_list s2) = id_list (chunk_list s) @ [new_id])
       \<and> (default_chunk_size s < need
            \<and> (is_empty (chunk_list s) chunk_type
                 \<or> (\<forall>info\<in>set (generate_tensor_info_in_order (chunk_tensor_index s) last_id).
                       start_offset info + info_numel info \<le> default_chunk_size s))
          \<longrightarrow> append_tensor e param_list dt atype chunk_type s = (Inl RuntimeError, s2)
              \<and> tensor_id_to_info_map (chunk_tensor_index s2)
                  = tensor_id_to_info_map (chunk_tensor_index s)
              \<and> chunk_id_to_tensor_id_list_map (chunk_tensor_index s2)
                  = chunk_id_to_tensor_id_list_map (chunk_tensor_index s))
       \<and> (fst (try_insert_tensor_list cid (with_attrs s param_list) atype any_idx) = Inr False
          \<longrightarrow> snd (try_insert_tensor_list cid (with_attrs s param_list) atype any_idx) = any_idx)
       \<and> (distinct (map (\<lambda>(p, a). get_tensor_id a atype) ps) \<and> j < length ps
          \<longrightarrow> tensor_id_to_info_map (insert_tensors cid atype off ps any_idx)
                 (get_tensor_id (snd (ps ! j)) atype)
               = Some \<lparr>info_chunk_id = cid, info_tensor_id = get_tensor_id (snd (ps ! j)) atype,
                       start_offset = off + sum_list (map (\<lambda>(p, a). numel a) (take j ps)),
                       info_numel = numel (snd (ps ! j)), info_param = fst (ps ! j),
                       info_access_type = atype\<rparr>)"
proof (intro conjI impI)
  let ?idx = "chunk_tensor_index s"
  obtain r where ac: "append_chunk e dt chunk_type False s = (r, s2)"
    using s2 by (cases "append_chunk e dt chunk_type False s") simp
  note ar = append_chunk_result [OF ac]
  obtain nid pos where r: "r = (nid, pos)" by (cases r)
  with ar new_id have nid: "nid = new_id" by simp
  have reg2: "\<forall>p\<in>set param_list. p_attr (params s2 p) \<noteq> None"
    using reg ar by simp
  have wa: "with_attrs s2 param_list = with_attrs s param_list"
    using ar by (simp add: with_attrs_def)
  have first: "try_insert_tensor_list last_id (with_attrs s param_list) atype ?idx =
           (case first_fit (default_chunk_size s) need (spans_of ?idx last_id) 0 of
              None \<Rightarrow> (Inr False, ?idx)
            | Some dest \<Rightarrow> (Inr True, insert_tensors last_id atype dest ps ?idx))"
    unfolding ps need
    using try_insert_registered [OF reg, of last_id atype ?idx] size by simp
  have sp: "spans_of (chunk_tensor_index s2) new_id = []"
    using ar fresh new_id
    by (simp add: spans_of_def generate_tensor_info_in_order_def List.map_filter_simps)
  have second: "try_insert_tensor_list new_id (with_attrs s2 param_list) atype (chunk_tensor_index s2) =
           (if need \<le> default_chunk_size s
            then (Inr True, insert_tensors new_id atype 0 ps (chunk_tensor_index s2))
            else (Inr False, chunk_tensor_index s2))"
    unfolding ps need
    using try_insert_registered [OF reg, of new_id atype "chunk_tensor_index s2"] size ar sp wa
    by simp
  have same: "s\<lparr>chunk_tensor_index := chunk_tensor_index s\<rparr> = s" by simp
  have same2: "s2\<lparr>chunk_tensor_index := chunk_tensor_index s2\<rparr> = s2" by simp
  have fallback: "is_empty (chunk_list s) chunk_type
                    \<or> first_fit (default_chunk_size s) need (spans_of ?idx last_id) 0 = None
      \<Longrightarrow> append_tensor e param_list dt atype chunk_type s
            = (if need \<le> default_chunk_size s
               then (Inr (), s2\<lparr>chunk_tensor_index :=
                                  insert_tensors new_id atype 0 ps (chunk_tensor_index s2)\<rparr>)
               else (Inl RuntimeError, s2))"
    using first second ac r nid last_id same same2
    by (auto simp: append_tensor_def on_index_def)
  {
    assume "\<not> is_empty (chunk_list s) chunk_type
            \<and> first_fit (default_chunk_size s) need (spans_of ?idx last_id) 0 = Some dest"
    with first last_id
    show "append_tensor e param_list dt atype chunk_type s
            = (Inr (), s\<lparr>chunk_tensor_index := insert_tensors last_id atype dest ps ?idx\<rparr>)"
      by (simp add: append_tensor_def on_index_def)
  }
  {
    assume h: "(is_empty (chunk_list s) chunk_type
                 \<or> first_fit (default_chunk_size s) need (spans_of ?idx last_id) 0 = None)
               \<and> need \<le> default_chunk_size s"
    with fallback
    show "append_tensor e param_list dt atype chunk_type s
            = (Inr (), s2\<lparr>chunk_tensor_index :=
                            insert_tensors new_id atype 0 ps (chunk_tensor_index s2)\<rparr>)"
      by simp
    show "chunk_id_to_chunk_dict (chunk_list s2) new_id
            = Some \<lparr>capacity = default_chunk_size s, data_type = dt, dummy = False,
                    payload = None, pin_count = 0, status_dict = (\<lambda>t. 0), last_needed = 0\<rparr>"
      using ar new_id by simp
    show "id_list (chunk_list s2) = id_list (chunk_list s) @ [new_id]"
      using ar new_id by simp
  }
  {
    assume h: "default_chunk_size s < need
            \<and> (is_empty (chunk_list s) chunk_type
                 \<or> (\<forall>info\<in>set (generate_tensor_info_in_order ?idx last_id).
                       start_offset info + info_numel info \<le> default_chunk_size s))"
    have "is_empty (chunk_list s) chunk_type
            \<or> first_fit (default_chunk_size s) need (spans_of ?idx last_id) 0 = None"
    proof (cases "is_empty (chunk_list s) chunk_type")
      case True
      then show ?thesis by simp
    next
      case False
      with h have w: "\<forall>(start, n)\<in>set (spans_of ?idx last_id). start + n \<le> default_chunk_size s"
        by (auto simp: spans_of_def)
      from h have "default_chunk_size s < need" by simp
      from first_fit_too_big [OF this w] show ?thesis by simp
    qed
    from fallback [OF this] h
    show "append_tensor e param_list dt atype chunk_type s = (Inl RuntimeError, s2)"
      by simp
    show "tensor_id_to_info_map (chunk_tensor_index s2) = tensor_id_to_info_map ?idx"
      using ar by simp
    show "chunk_id_to_tensor_id_list_map (chunk_tensor_index s2)
            = chunk_id_to_tensor_id_list_map ?idx"
      using ar by simp
  }
  {
    assume "fst (try_insert_tensor_list cid (with_attrs s param_list) atype any_idx) = Inr False"
    then show "snd (try_insert_tensor_list cid (with_attrs s param_list) atype any_idx) = any_idx"
      by (rule try_insert_False_keeps)
  }
  {
    assume "distinct (map (\<lambda>(p, a). get_tensor_id a atype) ps) \<and> j < length ps"
    then show "tensor_id_to_info_map (insert_tensors cid atype off ps any_idx)
                 (get_tensor_id (snd (ps ! j)) atype)
               = Some \<lparr>info_chunk_id = cid, info_tensor_id = get_tensor_id (snd (ps ! j)) atype,
                       start_offset = off + sum_list (map (\<lambda>(p, a). numel a) (take j ps)),
                       info_numel = numel (snd (ps ! j)), info_param = fst (ps ! j),
                       info_access_type = atype\<rparr>"
      using insert_tensors_layout by blast
  }
qed

theorem append_tensor_cases_witness:
  "fst (append_tensor env2 [0] Half GRAD PARAM_FP16 ex_fresh) = Inr ()
   \<and> id_list (chunk_list (snd (append_chunk env2 Half PARAM_FP16 False ex_fresh))) = [0, 1, 2]
   \<and> tensor_id_to_info_map
        (chunk_tensor_index (snd (append_tensor env2 [0] Half GRAD PARAM_FP16 ex_fresh))) 20
       = Some \<lparr>info_chunk_id = 2, info_tensor_id = 20, start_offset = 0, info_numel = 2,
               info_param = 0, info_access_type = GRAD\<rparr>
   \<and> append_tensor env2 [0, 1] Half GRAD PARAM_FP16 ex_fresh
       = (Inl RuntimeError, snd (append_chunk env2 Half PARAM_FP16 False ex_fresh))
   \<and> tensor_id_to_info_map
        (chunk_tensor_index (snd (append_chunk env2 Half PARAM_FP16 False ex_fresh))) 20 = None
   \<and> fst (append_tensor env2 [0, 1] Half GRAD PARAM_FP16
            (ex_fresh\<lparr>default_chunk_size := 6,
                      chunk_tensor_index := ex_index\<lparr>index_chunk_size := 6\<rparr>\<rparr>)) = Inr ()
   \<and> chunk_list (snd (append_tensor env2 [0, 1] Half GRAD PARAM_FP16
            (ex_fresh\<lparr>default_chunk_size := 6,
                      chunk_tensor_index := ex_index\<lparr>index_chunk_size := 6\<rparr>\<rparr>)))
       = chunk_list ex_fresh
   \<and> tensor_id_to_info_map
        (chunk_tensor_index (snd (append_tensor env2 [0, 1] Half GRAD PARAM_FP16
            (ex_fresh\<lparr>default_chunk_size := 6,
                      chunk_tensor_index := ex_index\<lparr>index_chunk_size := 6\<rparr>\<rparr>)))) 21
       = Some \<lparr>info_chunk_id = 1, info_tensor_id = 21, start_offset = 4, info_numel = 2,
               info_param = 1, info_access_type = GRAD\<rparr>
   \<and> snd (try_insert_tensor_list 1 (with_attrs ex_fresh [0]) GRAD ex_index) = ex_index"
proof -
  let ?r = "ex_fresh\<lparr>default_chunk_size := 6,
                     chunk_tensor_index := ex_index\<lparr>index_chunk_size := 6\<rparr>\<rparr>"
  let ?s2 = "snd (append_chunk env2 Half PARAM_FP16 False ex_fresh)"
  let ?p1 = "[(0::nat, ex_attr 10 FREE)]"
  let ?p2 = "[(0::nat, ex_attr 10 FREE), (Suc 0, ex_attr 11 FREE)]"
  have reg1: "\<forall>p\<in>set [0]. p_attr (params ex_fresh p) \<noteq> None"
    and reg2: "\<forall>p\<in>set [0, Suc 0]. p_attr (params ex_fresh p) \<noteq> None"
    and reg3: "\<forall>p\<in>set [0, Suc 0]. p_attr (params ?r p) \<noteq> None"
    by (simp_all add: ex_fresh_def ex_params_def)
  have size: "index_chunk_size (chunk_tensor_index ex_fresh) = default_chunk_size ex_fresh"
    and sizer: "index_chunk_size (chunk_tensor_index ?r) = default_chunk_size ?r"
    by (simp_all add: ex_fresh_def ex_index_def)
  have fresh: "chunk_id_to_tensor_id_list_map (chunk_tensor_index ex_fresh)
                 (generate_chunk_id (chunk_list ex_fresh)) = []"
    and freshr: "chunk_id_to_tensor_id_list_map (chunk_tensor_index ?r)
                   (generate_chunk_id (chunk_list ?r)) = []"
    by (simp_all add: ex_fresh_def ex_index_def ex_chunk_list_def generate_chunk_id_def)
  have ps1: "?p1 = map (\<lambda>p. (p, the (p_attr (params ex_fresh p)))) [0]"
    and ps2: "?p2 = map (\<lambda>p. (p, the (p_attr (params ex_fresh p)))) [0, Suc 0]"
    and ps3: "?p2 = map (\<lambda>p. (p, the (p_attr (params ?r p)))) [0, Suc 0]"
    by (simp_all add: ex_fresh_def ex_params_def)
  have n1: "2 = sum_list (map (\<lambda>(p, a). numel a) ?p1)"
    and n2: "4 = sum_list (map (\<lambda>(p, a). numel a) ?p2)"
    by (simp_all add: ex_attr_def)
  have l: "Suc 0 = last_chunk_id (chunk_list ex_fresh) PARAM_FP16"
    and lr: "Suc 0 = last_chunk_id (chunk_list ?r) PARAM_FP16"
    and g: "2 = generate_chunk_id (chunk_list ex_fresh)"
    and gr: "2 = generate_chunk_id (chunk_list ?r)"
    by (simp_all add: ex_fresh_def ex_chunk_list_def last_chunk_id_def generate_chunk_id_def)
  have ne: "\<not> is_empty (chunk_list ex_fresh) PARAM_FP16" "\<not> is_empty (chunk_list ?r) PARAM_FP16"
    by (simp_all add: ex_fresh_def ex_chunk_list_def is_empty_def)
  have d: "default_chunk_size ex_fresh = 2" "default_chunk_size ?r = 6"
    by (simp_all add: ex_fresh_def)
  have ff1: "first_fit 2 2 (spans_of (chunk_tensor_index ex_fresh) (Suc 0)) 0 = None"
    and ff3: "first_fit 6 4 (spans_of (chunk_tensor_index ?r) (Suc 0)) 0 = Some 2"
    by code_simp+
  have inside: "\<forall>info\<in>set (generate_tensor_info_in_order (chunk_tensor_index ex_fresh) (Suc 0)).
                  start_offset info + info_numel info \<le> 2"
    by (simp add: ex_fresh_def ex_index_def generate_tensor_info_in_order_def List.map_filter_simps)
  have ids: "id_list (chunk_list ex_fresh) = [0, 1]"
    by (simp add: ex_fresh_def ex_chunk_list_def)
  have tid: "get_tensor_id (ex_attr 10 FREE) GRAD = 20" "get_tensor_id (ex_attr 11 FREE) GRAD = 21"
            "numel (ex_attr 10 FREE) = 2" "numel (ex_attr 11 FREE) = 2"
    by (simp_all add: ex_attr_def get_tensor_id_def)
  have none: "tensor_id_to_info_map (chunk_tensor_index ex_fresh) 20 = None"
    by (simp add: ex_fresh_def ex_index_def)
  have tf: "fst (try_insert_tensor_list 1 (with_attrs ex_fresh [0]) GRAD ex_index) = Inr False"
    by code_simp
  note t1 = append_tensor_cases [OF reg1 size fresh ps1 n1 l g refl, where e = env2 and dt = Half
              and atype = GRAD and cid = 2 and off = 0 and any_idx = "chunk_tensor_index ?s2" and j = 0]
  note t2 = append_tensor_cases [OF reg2 size fresh ps2 n2 l g refl, where e = env2 and dt = Half
              and atype = GRAD]
  note t3 = append_tensor_cases [OF reg3 sizer freshr ps3 n2 lr gr refl, where e = env2 and dt = Half
              and atype = GRAD and dest = 2 and cid = "Suc 0" and off = 2
              and any_idx = "chunk_tensor_index ?r" and j = "Suc 0"]
  note t4 = append_tensor_cases [OF reg1 size fresh ps1 n1 l g refl, where atype = GRAD
              and cid = 1 and any_idx = ex_index]
  from t1 d ff1 have b1: "append_tensor env2 [0] Half GRAD PARAM_FP16 ex_fresh
      = (Inr (), ?s2\<lparr>chunk_tensor_index := insert_tensors 2 GRAD 0 ?p1 (chunk_tensor_index ?s2)\<rparr>)"
    and b2: "id_list (chunk_list ?s2) = id_list (chunk_list ex_fresh) @ [2]"
    by simp_all
  from t1 tid have b3: "tensor_id_to_info_map (insert_tensors 2 GRAD 0 ?p1 (chunk_tensor_index ?s2)) 20
      = Some \<lparr>info_chunk_id = 2, info_tensor_id = 20, start_offset = 0, info_numel = 2,
              info_param = 0, info_access_type = GRAD\<rparr>"
    by simp
  from t2 d inside have c1: "append_tensor env2 [0, 1] Half GRAD PARAM_FP16 ex_fresh
      = (Inl RuntimeError, ?s2)"
    and c2: "tensor_id_to_info_map (chunk_tensor_index ?s2)
               = tensor_id_to_info_map (chunk_tensor_index ex_fresh)"
    by simp_all
  from t3 d ne ff3 have a1: "append_tensor env2 [0, 1] Half GRAD PARAM_FP16 ?r
      = (Inr (), ?r\<lparr>chunk_tensor_index := insert_tensors (Suc 0) GRAD 2 ?p2 (chunk_tensor_index ?r)\<rparr>)"
    by simp
  from t3 tid have a2: "tensor_id_to_info_map (insert_tensors (Suc 0) GRAD 2 ?p2 (chunk_tensor_index ?r)) 21
      = Some \<lparr>info_chunk_id = 1, info_tensor_id = 21, start_offset = 4, info_numel = 2,
              info_param = 1, info_access_type = GRAD\<rparr>"
    by simp
  from t4 tf have k: "snd (try_insert_tensor_list 1 (with_attrs ex_fresh [0]) GRAD ex_index) = ex_index"
    by simp
  from b1 b2 b3 c1 c2 a1 a2 k ids none show ?thesis
    by simp
qed

end
